theory Spec2Isabelle
  imports Main
begin

section \<open>The OpenNMT-tf converter of CTranslate2\<close>

text \<open>
  A shallow embedding of \<^verbatim>\<open>python/ctranslate2/converters/opennmt_tf.py\<close>.
  The setters of the source mutate the specification objects they are given and
  raise on a missing variable. Here every setter takes the object and returns
  the object as the source leaves it together with the exception raised, if any:
  what was assigned before a \<^verbatim>\<open>raise\<close> stays assigned, as in Python.
  The object a setter mutates, the first argument in the source, is the last one here.
\<close>

subsection \<open>Exceptions\<close>

datatype error =
    KeyError string
  | IndexError
  | ValueError string
  | TypeError string
  | NotImplementedError
  | RuntimeError string

subsection \<open>Arrays\<close>

text \<open>
  A numpy array is its shape and its elements in row-major order. The element
  type is left open. No function of the source writes into an array, so arrays
  are values.
\<close>

record 'a ndarray =
  shape :: "nat list"
  data :: "'a list"

text \<open>\<^verbatim>\<open>ndarray.squeeze()\<close>: the axes of length one are removed.\<close>

definition squeeze :: "'a ndarray \<Rightarrow> 'a ndarray" where
  "squeeze a = a\<lparr>shape := filter (\<lambda>d. d \<noteq> 1) (shape a)\<rparr>"

text \<open>The position of a multi-index in row-major order, and back.\<close>

fun ravel :: "nat list \<Rightarrow> nat list \<Rightarrow> nat" where
  "ravel (d # ds) (i # is) = i * prod_list ds + ravel ds is"
| "ravel _ _ = 0"

fun unravel :: "nat list \<Rightarrow> nat \<Rightarrow> nat list" where
  "unravel [] k = []"
| "unravel (d # ds) k = (k div prod_list ds) mod d # unravel ds (k mod prod_list ds)"

text \<open>
  \<^verbatim>\<open>ndarray.transpose()\<close> without arguments: the order of the axes is reversed. (An
  array of numpy has as many elements as its shape says, so every position read is there.)
\<close>

definition transpose_nd :: "'a ndarray \<Rightarrow> 'a ndarray" where
  "transpose_nd a =
     \<lparr>shape = rev (shape a),
      data = map (\<lambda>k. data a ! ravel (shape a) (rev (unravel (rev (shape a)) k)))
                 [0 ..< prod_list (shape a)]\<rparr>"

text \<open>The element of an array at a multi-index.\<close>

definition at :: "'a ndarray \<Rightarrow> nat list \<Rightarrow> 'a" where
  "at a idx = data a ! ravel (shape a) idx"

text \<open>
  \<^verbatim>\<open>np.array_equal\<close>: the two arrays have the same shape, and every element of the
  one compares equal (\<^verbatim>\<open>==\<close>) to the element of the other at its place. The comparison
  of two elements is that of the element type of the arrays and is a parameter here: it
  need not be the identity of the elements.
\<close>

definition array_equal :: "('a \<Rightarrow> 'a \<Rightarrow> bool) \<Rightarrow> 'a ndarray \<Rightarrow> 'a ndarray \<Rightarrow> bool" where
  "array_equal elem_eq a b \<longleftrightarrow> shape a = shape b \<and> list_all2 elem_eq (data a) (data b)"

text \<open>
  The floats of a checkpoint, as far as their comparison goes: a float is NaN, or a number
  with its sign bit and its magnitude, where the magnitude 0 is a zero, positive or
  negative. Two floats have the same bits when they are the same value of this type. The
  comparison \<^verbatim>\<open>==\<close> of IEEE 754 is not that identity: NaN is equal to nothing, itself
  included, and the two zeros are equal.
\<close>

datatype np_float = NaN | Number bool nat

fun float_eq :: "np_float \<Rightarrow> np_float \<Rightarrow> bool" where
  "float_eq (Number s m) (Number s' m') \<longleftrightarrow> m = m' \<and> (s = s' \<or> m = 0)"
| "float_eq _ _ \<longleftrightarrow> False"

subsection \<open>The variable store and the specification nodes\<close>

type_synonym 'a variables = "string \<rightharpoonup> 'a ndarray"

text \<open>
  Modelled from the spec: the classes of \<^verbatim>\<open>ctranslate2.specs\<close>, which are not in the
  converter's file (section 3 of the specification), under the class and attribute names
  the converter uses, with the attributes it reads and writes. An attribute that has not
  been assigned yet is \<open>None\<close>. Every node of a specification is an object of its own:
  no node is reachable through two attributes or at two list positions.
\<close>

record 'a LayerNormSpec =
  gamma :: "'a ndarray option"
  beta :: "'a ndarray option"

record 'a LinearSpec =
  weight :: "'a ndarray option"
  bias :: "'a ndarray option"

record 'a EmbeddingsSpec =
  weight :: "'a ndarray option"
  multiply_by_sqrt_depth :: "bool option"

record 'a MultiHeadAttentionSpec =
  layer_norm :: "'a LayerNormSpec"
  linear :: "'a LinearSpec list"
  relative_position_keys :: "'a ndarray option"
  relative_position_values :: "'a ndarray option"

record 'a FeedForwardSpec =
  layer_norm :: "'a LayerNormSpec"
  linear_0 :: "'a LinearSpec"
  linear_1 :: "'a LinearSpec"

record 'a TransformerEncoderLayerSpec =
  self_attention :: "'a MultiHeadAttentionSpec"
  ffn :: "'a FeedForwardSpec"

record 'a TransformerDecoderLayerSpec =
  self_attention :: "'a MultiHeadAttentionSpec"
  attention :: "'a MultiHeadAttentionSpec"
  ffn :: "'a FeedForwardSpec"

record 'a TransformerEncoderSpec =
  embeddings :: "'a EmbeddingsSpec"
  layer_norm :: "'a LayerNormSpec"
  layer :: "'a TransformerEncoderLayerSpec list"

record 'a TransformerDecoderSpec =
  embeddings :: "'a EmbeddingsSpec"
  layer_norm :: "'a LayerNormSpec"
  projection :: "'a LinearSpec"
  layer :: "'a TransformerDecoderLayerSpec list"

record 'a TransformerSpec =
  encoder :: "'a TransformerEncoderSpec"
  decoder :: "'a TransformerDecoderSpec"
  with_relative_position :: bool
  vocabulary :: "string \<rightharpoonup> string list"

subsection \<open>Statements on an object\<close>

text \<open>
  A statement takes the object, and returns the object as it leaves it with
  either the exception it raised or its value.
\<close>

type_synonym ('s, 'r) stmt = "'s \<Rightarrow> 's \<times> (error + 'r)"

text \<open>Statements in sequence: an exception ends the sequence.\<close>

fun seq :: "('s, unit) stmt list \<Rightarrow> ('s, unit) stmt" where
  "seq [] s = (s, Inr ())"
| "seq (f # fs) s =
     (case f s of
        (s', Inl e) \<Rightarrow> (s', Inl e)
      | (s', Inr _) \<Rightarrow> seq fs s')"

text \<open>A statement whose value is used by what follows it.\<close>

definition bind_stmt :: "('s, 'r) stmt \<Rightarrow> ('r \<Rightarrow> ('s, 'q) stmt) \<Rightarrow> ('s, 'q) stmt" where
  "bind_stmt m f s =
     (case m s of
        (s', Inl e) \<Rightarrow> (s', Inl e)
      | (s', Inr r) \<Rightarrow> f r s')"

text \<open>\<^verbatim>\<open>try: body except KeyError: handler\<close>\<close>

definition try_except_KeyError :: "('s, 'r) stmt \<Rightarrow> ('s, 'r) stmt \<Rightarrow> ('s, 'r) stmt" where
  "try_except_KeyError body handler s =
     (case body s of
        (s', Inl (KeyError n)) \<Rightarrow> handler s'
      | r \<Rightarrow> r)"

text \<open>A statement on the object held by an attribute.\<close>

definition within :: "('s \<Rightarrow> 'c) \<Rightarrow> (('c \<Rightarrow> 'c) \<Rightarrow> 's \<Rightarrow> 's) \<Rightarrow> ('c, 'r) stmt \<Rightarrow> ('s, 'r) stmt" where
  "within field field_update f s =
     (case f (field s) of (c, r) \<Rightarrow> (field_update (\<lambda>_. c) s, r))"

text \<open>
  A statement on the list element \<^verbatim>\<open>xs[i]\<close>. For a list of length \<open>n\<close> the
  index is in range from \<open>- n\<close> to \<open>n - 1\<close> and stands for the position \<open>i mod n\<close>;
  out of range, \<^verbatim>\<open>IndexError\<close> is raised before the statement runs.
\<close>

definition item :: "int \<Rightarrow> ('c, 'r) stmt \<Rightarrow> ('c list, 'r) stmt" where
  "item i f xs =
     (if - int (length xs) \<le> i \<and> i < int (length xs)
      then (case f (xs ! nat (i mod int (length xs))) of
              (c, r) \<Rightarrow> (xs[nat (i mod int (length xs)) := c], r))
      else (xs, Inl IndexError))"

text \<open>\<^verbatim>\<open>for i, x in enumerate(xs): f(i, x)\<close>, counting from \<open>i\<close>.\<close>

fun for_enumerate :: "(nat \<Rightarrow> ('c, unit) stmt) \<Rightarrow> nat \<Rightarrow> ('c list, unit) stmt" where
  "for_enumerate f i [] = ([], Inr ())"
| "for_enumerate f i (x # xs) =
     (case f i x of
        (x', Inl e) \<Rightarrow> (x' # xs, Inl e)
      | (x', Inr _) \<Rightarrow>
          (case for_enumerate f (Suc i) xs of (xs', r) \<Rightarrow> (x' # xs', r)))"

text \<open>\<^verbatim>\<open>"%d" % i\<close>\<close>

fun string_of_nat :: "nat \<Rightarrow> string" where
  "string_of_nat n =
     (if n < 10 then [''0123456789'' ! n]
      else string_of_nat (n div 10) @ [''0123456789'' ! (n mod 10)])"

declare string_of_nat.simps [simp del]

subsection \<open>The leaf setters\<close>

definition set_layer_norm :: "'a variables \<Rightarrow> string \<Rightarrow> ('a LayerNormSpec, unit) stmt" where
  "set_layer_norm variables scope spec =
     (case variables (scope @ ''/gamma'') of
        None \<Rightarrow> (spec, Inl (KeyError (scope @ ''/gamma'')))
      | Some g \<Rightarrow>
          (case variables (scope @ ''/beta'') of
             None \<Rightarrow> (spec\<lparr>gamma := Some g\<rparr>, Inl (KeyError (scope @ ''/beta'')))
           | Some b \<Rightarrow> (spec\<lparr>gamma := Some g, beta := Some b\<rparr>, Inr ())))"

definition set_linear ::
  "'a variables \<Rightarrow> string \<Rightarrow> string option \<Rightarrow> bool \<Rightarrow> ('a LinearSpec, unit) stmt" where
  "set_linear variables scope weight_name do_transpose spec =
     (let weight_name = (case weight_name of None \<Rightarrow> scope @ ''/kernel'' | Some n \<Rightarrow> n) in
      case variables weight_name of
        None \<Rightarrow> (spec, Inl (KeyError weight_name))
      | Some w \<Rightarrow>
          (let spec = spec\<lparr>LinearSpec.weight := Some (squeeze w)\<rparr>;
               spec = (if do_transpose
                       then spec\<lparr>LinearSpec.weight :=
                                   map_option transpose_nd (LinearSpec.weight spec)\<rparr>
                       else spec)
           in case variables (scope @ ''/bias'') of
                None \<Rightarrow> (spec, Inr ())
              | Some b \<Rightarrow> (spec\<lparr>bias := Some b\<rparr>, Inr ())))"

definition set_embeddings ::
  "'a variables \<Rightarrow> string \<Rightarrow> nat \<Rightarrow> ('a EmbeddingsSpec, string) stmt" where
  "set_embeddings variables scope version spec =
     (let name = (if version = 2 then ''embedding'' else ''w_embs'');
          variable_name = scope @ ''/'' @ name
      in case variables variable_name of
           None \<Rightarrow> (spec, Inl (KeyError variable_name))
         | Some w \<Rightarrow>
             (spec\<lparr>EmbeddingsSpec.weight := Some w, multiply_by_sqrt_depth := Some True\<rparr>,
              Inr variable_name))"

subsection \<open>Collaborators of the converter that are defined in other modules\<close>

text \<open>
  Modelled from the spec: the constructor \<^verbatim>\<open>common_spec.LinearSpec()\<close>, which is not
  in the converter's file. A new node has no array yet (section 3 of the specification:
  the tree is created empty).
\<close>

definition LinearSpec_new :: "'a LinearSpec" where
  "LinearSpec_new = \<lparr>LinearSpec.weight = None, bias = None\<rparr>"

text \<open>\<^verbatim>\<open>np.concatenate\<close> along the first axis.\<close>

definition concatenate :: "'a ndarray list \<Rightarrow> 'a ndarray" where
  "concatenate as =
     \<lparr>shape = (case as of
                 [] \<Rightarrow> []
               | a # _ \<Rightarrow>
                   sum_list (map (\<lambda>b. case shape b of [] \<Rightarrow> 0 | d # _ \<Rightarrow> d) as)
                   # tl (shape a)),
      data = concat (map data as)\<rparr>"

text \<open>
  Modelled from the spec: \<^verbatim>\<open>utils.fuse_linear\<close>, which is not in the converter's file.
  Section 4.4 of the specification: the fused weight is the row-wise concatenation of the
  weights of the parts, in their order; the fused bias is the concatenation of the biases
  if every part has a bias, and is absent if any part lacks one.
\<close>

definition fuse_linear :: "'a LinearSpec list \<Rightarrow> 'a LinearSpec \<Rightarrow> 'a LinearSpec" where
  "fuse_linear layers spec =
     spec\<lparr>LinearSpec.weight :=
            (if list_all (\<lambda>l. LinearSpec.weight l \<noteq> None) layers
             then Some (concatenate (map (\<lambda>l. the (LinearSpec.weight l)) layers))
             else None),
          bias :=
            (if list_all (\<lambda>l. bias l \<noteq> None) layers
             then Some (concatenate (map (\<lambda>l. the (bias l)) layers))
             else None)\<rparr>"

subsection \<open>The setters of generation 2\<close>

definition set_ffn_v2 :: "'a variables \<Rightarrow> string \<Rightarrow> ('a FeedForwardSpec, unit) stmt" where
  "set_ffn_v2 variables scope =
     seq [within FeedForwardSpec.layer_norm FeedForwardSpec.layer_norm_update
            (set_layer_norm variables (scope @ ''/input_layer_norm'')),
          within linear_0 linear_0_update
            (set_linear variables (scope @ ''/layer/inner'') None True),
          within linear_1 linear_1_update
            (set_linear variables (scope @ ''/layer/outer'') None True)]"

text \<open>
  The three (or two) new \<^verbatim>\<open>split_layers\<close> are set one after the other, then
  \<^verbatim>\<open>spec.linear[i]\<close> is evaluated and the layers are fused into it.
\<close>

definition set_multi_head_attention_v2 ::
  "'a variables \<Rightarrow> string \<Rightarrow> bool \<Rightarrow> bool \<Rightarrow> ('a MultiHeadAttentionSpec, unit) stmt" where
  "set_multi_head_attention_v2 variables scope is_self_attention relative =
     seq [within MultiHeadAttentionSpec.layer_norm MultiHeadAttentionSpec.layer_norm_update
            (set_layer_norm variables (scope @ ''/input_layer_norm'')),
          (if is_self_attention then
             seq [(\<lambda>spec.
                    case set_linear variables (scope @ ''/layer/linear_queries'') None True
                           LinearSpec_new of
                      (_, Inl e) \<Rightarrow> (spec, Inl e)
                    | (split_layers_0, Inr _) \<Rightarrow>
                   (case set_linear variables (scope @ ''/layer/linear_keys'') None True
                           LinearSpec_new of
                      (_, Inl e) \<Rightarrow> (spec, Inl e)
                    | (split_layers_1, Inr _) \<Rightarrow>
                   (case set_linear variables (scope @ ''/layer/linear_values'') None True
                           LinearSpec_new of
                      (_, Inl e) \<Rightarrow> (spec, Inl e)
                    | (split_layers_2, Inr _) \<Rightarrow>
                        within linear linear_update
                          (item 0 (\<lambda>l. (fuse_linear
                                          [split_layers_0, split_layers_1, split_layers_2] l,
                                        Inr ())))
                          spec))),
                  (\<lambda>spec.
                    if relative then
                      (case variables (scope @ ''/layer/relative_position_keys'') of
                         None \<Rightarrow>
                           (spec, Inl (KeyError (scope @ ''/layer/relative_position_keys'')))
                       | Some k \<Rightarrow>
                      (case variables (scope @ ''/layer/relative_position_values'') of
                         None \<Rightarrow>
                           (spec\<lparr>relative_position_keys := Some k\<rparr>,
                            Inl (KeyError (scope @ ''/layer/relative_position_values'')))
                       | Some v \<Rightarrow>
                           (spec\<lparr>relative_position_keys := Some k,
                                 relative_position_values := Some v\<rparr>, Inr ())))
                    else (spec, Inr ()))]
           else
             seq [within linear linear_update
                    (item 0 (set_linear variables (scope @ ''/layer/linear_queries'') None True)),
                  (\<lambda>spec.
                    case set_linear variables (scope @ ''/layer/linear_keys'') None True
                           LinearSpec_new of
                      (_, Inl e) \<Rightarrow> (spec, Inl e)
                    | (split_layers_0, Inr _) \<Rightarrow>
                   (case set_linear variables (scope @ ''/layer/linear_values'') None True
                           LinearSpec_new of
                      (_, Inl e) \<Rightarrow> (spec, Inl e)
                    | (split_layers_1, Inr _) \<Rightarrow>
                        within linear linear_update
                          (item 1 (\<lambda>l. (fuse_linear [split_layers_0, split_layers_1] l,
                                        Inr ())))
                          spec))]),
          within linear linear_update
            (item (- 1) (set_linear variables (scope @ ''/layer/linear_output'') None True))]"

definition set_transformer_encoder_layer_v2 ::
  "'a variables \<Rightarrow> string \<Rightarrow> bool \<Rightarrow> ('a TransformerEncoderLayerSpec, unit) stmt" where
  "set_transformer_encoder_layer_v2 variables scope relative =
     seq [within TransformerEncoderLayerSpec.ffn TransformerEncoderLayerSpec.ffn_update
            (set_ffn_v2 variables (scope @ ''/ffn'')),
          within TransformerEncoderLayerSpec.self_attention
                 TransformerEncoderLayerSpec.self_attention_update
            (set_multi_head_attention_v2 variables (scope @ ''/self_attention'') True relative)]"

definition set_transformer_decoder_layer_v2 ::
  "'a variables \<Rightarrow> string \<Rightarrow> bool \<Rightarrow> ('a TransformerDecoderLayerSpec, unit) stmt" where
  "set_transformer_decoder_layer_v2 variables scope relative =
     seq [within TransformerDecoderLayerSpec.ffn TransformerDecoderLayerSpec.ffn_update
            (set_ffn_v2 variables (scope @ ''/ffn'')),
          within TransformerDecoderLayerSpec.self_attention
                 TransformerDecoderLayerSpec.self_attention_update
            (set_multi_head_attention_v2 variables (scope @ ''/self_attention'') True relative),
          within attention attention_update
            (set_multi_head_attention_v2 variables (scope @ ''/attention/0'') False relative)]"

definition set_transformer_encoder_v2 ::
  "'a variables \<Rightarrow> string \<Rightarrow> bool \<Rightarrow> ('a TransformerEncoderSpec, unit) stmt" where
  "set_transformer_encoder_v2 variables scope relative =
     seq [within TransformerEncoderSpec.layer_norm TransformerEncoderSpec.layer_norm_update
            (set_layer_norm variables (scope @ ''/layer_norm'')),
          within TransformerEncoderSpec.layer TransformerEncoderSpec.layer_update
            (for_enumerate
               (\<lambda>i. set_transformer_encoder_layer_v2 variables
                      (scope @ ''/layers/'' @ string_of_nat i) relative) 0)]"

text \<open>
  In the \<^verbatim>\<open>try\<close> block the projection weight, already assigned by
  \<^verbatim>\<open>set_linear\<close>, is compared with the weight of the embeddings by
  \<^verbatim>\<open>np.array_equal\<close>, which is false when the latter is not an array yet. The
  comparison of the elements of the arrays is the first argument here, and so it is for
  the setter of the whole model and for the converter, which call this setter.
\<close>

definition set_transformer_decoder_v2 ::
  "('a \<Rightarrow> 'a \<Rightarrow> bool) \<Rightarrow> 'a variables \<Rightarrow> string \<Rightarrow> string \<Rightarrow> bool
     \<Rightarrow> ('a TransformerDecoderSpec, unit) stmt" where
  "set_transformer_decoder_v2 elem_eq variables scope target_embedding_name relative =
     seq [try_except_KeyError
            (seq [within projection projection_update
                    (set_linear variables (scope @ ''/output_layer'') None False),
                  (\<lambda>spec.
                    if \<not> (case (LinearSpec.weight (projection spec),
                                 EmbeddingsSpec.weight (TransformerDecoderSpec.embeddings spec)) of
                             (Some p, Some e) \<Rightarrow> array_equal elem_eq p e
                           | _ \<Rightarrow> False)
                    then (spec\<lparr>projection := (projection spec)
                                 \<lparr>LinearSpec.weight :=
                                    map_option transpose_nd
                                      (LinearSpec.weight (projection spec))\<rparr>\<rparr>, Inr ())
                    else (spec, Inr ()))])
            (within projection projection_update
               (set_linear variables (scope @ ''/output_layer'')
                  (Some target_embedding_name) False)),
          within TransformerDecoderSpec.layer_norm TransformerDecoderSpec.layer_norm_update
            (set_layer_norm variables (scope @ ''/layer_norm'')),
          within TransformerDecoderSpec.layer TransformerDecoderSpec.layer_update
            (for_enumerate
               (\<lambda>i. set_transformer_decoder_layer_v2 variables
                      (scope @ ''/layers/'' @ string_of_nat i) relative) 0)]"

definition set_transformer_spec_v2 ::
  "('a \<Rightarrow> 'a \<Rightarrow> bool) \<Rightarrow> 'a variables \<Rightarrow> ('a TransformerSpec, unit) stmt" where
  "set_transformer_spec_v2 elem_eq variables spec =
     bind_stmt
       (within encoder encoder_update
          (within TransformerEncoderSpec.embeddings TransformerEncoderSpec.embeddings_update
             (set_embeddings variables ''model/examples_inputter/features_inputter'' 2)))
       (\<lambda>_. bind_stmt
          (try_except_KeyError
             (within decoder decoder_update
                (within TransformerDecoderSpec.embeddings
                        TransformerDecoderSpec.embeddings_update
                   (set_embeddings variables ''model/examples_inputter/labels_inputter'' 2)))
             (within decoder decoder_update
                (within TransformerDecoderSpec.embeddings
                        TransformerDecoderSpec.embeddings_update
                   (set_embeddings variables ''model/examples_inputter/features_inputter'' 2))))
          (\<lambda>target_embedding_name.
             seq [within encoder encoder_update
                    (set_transformer_encoder_v2 variables ''model/encoder''
                       (with_relative_position spec)),
                  within decoder decoder_update
                    (set_transformer_decoder_v2 elem_eq variables ''model/decoder''
                       target_embedding_name (with_relative_position spec))]))
       spec"

subsection \<open>The setters of generation 1\<close>

definition set_ffn :: "'a variables \<Rightarrow> string \<Rightarrow> ('a FeedForwardSpec, unit) stmt" where
  "set_ffn variables scope =
     seq [within FeedForwardSpec.layer_norm FeedForwardSpec.layer_norm_update
            (set_layer_norm variables (scope @ ''/LayerNorm'')),
          within linear_0 linear_0_update
            (set_linear variables (scope @ ''/conv1d'') None True),
          within linear_1 linear_1_update
            (set_linear variables (scope @ ''/conv1d_1'') None True)]"

definition set_multi_head_attention ::
  "'a variables \<Rightarrow> string \<Rightarrow> bool \<Rightarrow> ('a MultiHeadAttentionSpec, unit) stmt" where
  "set_multi_head_attention variables scope is_self_attention =
     seq [within MultiHeadAttentionSpec.layer_norm MultiHeadAttentionSpec.layer_norm_update
            (set_layer_norm variables (scope @ ''/LayerNorm'')),
          within linear linear_update
            (item 0 (set_linear variables (scope @ ''/conv1d'') None True)),
          within linear linear_update
            (item 1 (set_linear variables (scope @ ''/conv1d_1'') None True)),
          (if \<not> is_self_attention then
             within linear linear_update
               (item 2 (set_linear variables (scope @ ''/conv1d_2'') None True))
           else (\<lambda>spec. (spec, Inr ())))]"

definition set_transformer_encoder_layer ::
  "'a variables \<Rightarrow> string \<Rightarrow> ('a TransformerEncoderLayerSpec, unit) stmt" where
  "set_transformer_encoder_layer variables scope =
     seq [within TransformerEncoderLayerSpec.ffn TransformerEncoderLayerSpec.ffn_update
            (set_ffn variables (scope @ ''/ffn'')),
          within TransformerEncoderLayerSpec.self_attention
                 TransformerEncoderLayerSpec.self_attention_update
            (set_multi_head_attention variables (scope @ ''/multi_head'') True)]"

definition set_transformer_decoder_layer ::
  "'a variables \<Rightarrow> string \<Rightarrow> ('a TransformerDecoderLayerSpec, unit) stmt" where
  "set_transformer_decoder_layer variables scope =
     seq [within TransformerDecoderLayerSpec.ffn TransformerDecoderLayerSpec.ffn_update
            (set_ffn variables (scope @ ''/ffn'')),
          within TransformerDecoderLayerSpec.self_attention
                 TransformerDecoderLayerSpec.self_attention_update
            (set_multi_head_attention variables (scope @ ''/masked_multi_head'') True),
          within attention attention_update
            (set_multi_head_attention variables (scope @ ''/multi_head'') False)]"

text \<open>The value of \<^verbatim>\<open>set_embeddings\<close> is dropped in the encoder.\<close>

definition discard :: "('s, 'r) stmt \<Rightarrow> ('s, unit) stmt" where
  "discard f s = (case f s of (s', Inl e) \<Rightarrow> (s', Inl e) | (s', Inr _) \<Rightarrow> (s', Inr ()))"

definition set_transformer_encoder :: "'a variables \<Rightarrow> ('a TransformerEncoderSpec, unit) stmt" where
  "set_transformer_encoder variables =
     seq [within TransformerEncoderSpec.layer_norm TransformerEncoderSpec.layer_norm_update
            (set_layer_norm variables ''transformer/encoder/LayerNorm''),
          discard
            (try_except_KeyError
               (within TransformerEncoderSpec.embeddings TransformerEncoderSpec.embeddings_update
                  (set_embeddings variables ''transformer/encoder'' 1))
               (within TransformerEncoderSpec.embeddings TransformerEncoderSpec.embeddings_update
                  (set_embeddings variables ''transformer/shared_embeddings'' 1))),
          within TransformerEncoderSpec.layer TransformerEncoderSpec.layer_update
            (for_enumerate
               (\<lambda>i. set_transformer_encoder_layer variables
                      (''transformer/encoder/layer_'' @ string_of_nat i)) 0)]"

definition set_transformer_decoder :: "'a variables \<Rightarrow> ('a TransformerDecoderSpec, unit) stmt" where
  "set_transformer_decoder variables =
     bind_stmt
       (try_except_KeyError
          (within TransformerDecoderSpec.embeddings TransformerDecoderSpec.embeddings_update
             (set_embeddings variables ''transformer/decoder'' 1))
          (within TransformerDecoderSpec.embeddings TransformerDecoderSpec.embeddings_update
             (set_embeddings variables ''transformer/shared_embeddings'' 1)))
       (\<lambda>embeddings_name.
          seq [try_except_KeyError
                 (within projection projection_update
                    (set_linear variables ''transformer/decoder/dense'' None True))
                 (within projection projection_update
                    (set_linear variables ''transformer'' (Some embeddings_name) False)),
               within TransformerDecoderSpec.layer_norm TransformerDecoderSpec.layer_norm_update
                 (set_layer_norm variables ''transformer/decoder/LayerNorm''),
               within TransformerDecoderSpec.layer TransformerDecoderSpec.layer_update
                 (for_enumerate
                    (\<lambda>i. set_transformer_decoder_layer variables
                           (''transformer/decoder/layer_'' @ string_of_nat i)) 0)])"

definition set_transformer_spec :: "'a variables \<Rightarrow> ('a TransformerSpec, unit) stmt" where
  "set_transformer_spec variables spec =
     (if with_relative_position spec then (spec, Inl NotImplementedError)
      else seq [within encoder encoder_update (set_transformer_encoder variables),
                within decoder decoder_update (set_transformer_decoder variables)] spec)"

subsection \<open>Vocabularies\<close>

text \<open>
  What \<^verbatim>\<open>_load_vocab\<close> is given: an \<^verbatim>\<open>opennmt.data.Vocab\<close> (its words), a list, a
  path, or an object of another type. Reading a vocabulary file is the work of OpenNMT-tf
  and is a parameter here; it may raise.
\<close>

datatype vocab =
    Vocab "string list"
  | VocabList "string list"
  | VocabPath string
  | VocabOther

definition load_vocab :: "(string \<Rightarrow> error + string list) \<Rightarrow> vocab \<Rightarrow> string \<Rightarrow> error + string list" where
  "load_vocab from_file vocab unk_token =
     (case (case vocab of
              Vocab words \<Rightarrow> Inr words
            | VocabList l \<Rightarrow> Inr l
            | VocabPath path \<Rightarrow> from_file path
            | VocabOther \<Rightarrow> Inl (TypeError ''Invalid vocabulary type'')) of
        Inl e \<Rightarrow> Inl e
      | Inr tokens \<Rightarrow>
          (if unk_token \<notin> set tokens then Inr (tokens @ [unk_token]) else Inr tokens))"

text \<open>
  Modelled from the spec: the method \<^verbatim>\<open>register_vocabulary\<close> of the model
  specification, which is not in the converter's file. Section 3 of the specification:
  the vocabularies of the model are a mapping from a name to an ordered token list.
\<close>

definition register_vocabulary :: "string \<Rightarrow> string list \<Rightarrow> 'a TransformerSpec \<Rightarrow> 'a TransformerSpec" where
  "register_vocabulary name tokens spec = spec\<lparr>vocabulary := (vocabulary spec)(name \<mapsto> tokens)\<rparr>"

subsection \<open>The converter\<close>

text \<open>
  The class \<^verbatim>\<open>OpenNMTTFConverter\<close>: its constructor \<^verbatim>\<open>__init__\<close> is \<open>init\<close>, its
  method \<^verbatim>\<open>_load\<close> is \<open>load\<close>, and an attribute \<^verbatim>\<open>self._x\<close> is the field \<open>self_x\<close>
  (as \<^verbatim>\<open>_load_vocab\<close> above is \<open>load_vocab\<close>). The argument \<^verbatim>\<open>variables\<close> of the
  constructor is \<^verbatim>\<open>None\<close>, a dict, or an object that is not a dict; the model path is
  \<^verbatim>\<open>None\<close> or a path.
\<close>

datatype 'a variables_arg =
    NoVariables
  | DictVariables "'a variables"
  | NotADict

record 'a OpenNMTTFConverter =
  self_model_spec :: "'a TransformerSpec"
  self_model_path :: "string option"
  self_src_vocab :: vocab
  self_tgt_vocab :: vocab
  self_variables :: "'a variables_arg"

definition init ::
  "'a TransformerSpec \<Rightarrow> vocab \<Rightarrow> vocab \<Rightarrow> string option \<Rightarrow> 'a variables_arg
     \<Rightarrow> error + 'a OpenNMTTFConverter" where
  "init model_spec src_vocab tgt_vocab model_path variables =
     (if (model_path = None) = (variables = NoVariables)
      then Inl (ValueError ''Exactly one of model_path and variables should be set'')
      else if variables \<noteq> NoVariables \<and> (case variables of DictVariables _ \<Rightarrow> False | _ \<Rightarrow> True)
      then Inl (ValueError ''variables should be a dict mapping variable name to value'')
      else Inr \<lparr>self_model_spec = model_spec,
                self_model_path = model_path,
                self_src_vocab = src_vocab,
                self_tgt_vocab = tgt_vocab,
                self_variables = variables\<rparr>)"

text \<open>
  \<^verbatim>\<open>_load\<close>. Reading a checkpoint with TensorFlow (\<^verbatim>\<open>load_model\<close>) is a parameter:
  it gives the version and the variables, or raises. The model specification is the
  object the converter was constructed with: the setters mutate it, and it is returned
  when nothing was raised. A converter holds a dict or \<^verbatim>\<open>None\<close> as its variables;
  subscripting \<^verbatim>\<open>None\<close> is a \<^verbatim>\<open>TypeError\<close>. The first argument is the comparison
  of the elements of the arrays, for the setters of generation 2.
\<close>

definition load ::
  "('a \<Rightarrow> 'a \<Rightarrow> bool) \<Rightarrow> (string \<Rightarrow> error + nat \<times> 'a variables)
     \<Rightarrow> (string \<Rightarrow> error + string list)
     \<Rightarrow> 'a OpenNMTTFConverter \<Rightarrow> 'a OpenNMTTFConverter \<times> (error + 'a TransformerSpec)" where
  "load elem_eq load_model from_file self =
     (case (case self_model_path self of
              Some path \<Rightarrow>
                (case load_model path of
                   Inl e \<Rightarrow> Inl e
                 | Inr (version, variables) \<Rightarrow> Inr (version, DictVariables variables))
            | None \<Rightarrow> Inr (2, self_variables self)) of
        Inl e \<Rightarrow> (self, Inl e)
      | Inr (version, variables_arg) \<Rightarrow>
          (case variables_arg of
             DictVariables variables \<Rightarrow>
               (case (if version \<ge> 2 then set_transformer_spec_v2 elem_eq variables (self_model_spec self)
                      else set_transformer_spec variables (self_model_spec self)) of
                  (model_spec, Inl e) \<Rightarrow> (self\<lparr>self_model_spec := model_spec\<rparr>, Inl e)
                | (model_spec, Inr _) \<Rightarrow>
                    (case load_vocab from_file (self_src_vocab self) ''<unk>'' of
                       Inl e \<Rightarrow> (self\<lparr>self_model_spec := model_spec\<rparr>, Inl e)
                     | Inr src_tokens \<Rightarrow>
                         (let model_spec = register_vocabulary ''source'' src_tokens model_spec in
                          case load_vocab from_file (self_tgt_vocab self) ''<unk>'' of
                            Inl e \<Rightarrow> (self\<lparr>self_model_spec := model_spec\<rparr>, Inl e)
                          | Inr tgt_tokens \<Rightarrow>
                              (let model_spec =
                                     register_vocabulary ''target'' tgt_tokens model_spec
                               in (self\<lparr>self_model_spec := model_spec\<rparr>, Inr model_spec)))))
           | _ \<Rightarrow> (self, Inl (TypeError ''object is not subscriptable''))))"

subsection \<open>New specifications and small checkpoints\<close>

text \<open>
  Modelled from the spec: the constructors of the specification classes, which are not in
  the converter's file. Section 3 of the specification: the tree is created empty, the
  linear sequence of a self-attention block has two entries and that of a cross-attention
  block has three, and the model is made for a number of layers.
\<close>

definition LayerNormSpec_new :: "'a LayerNormSpec" where
  "LayerNormSpec_new = \<lparr>gamma = None, beta = None\<rparr>"

definition EmbeddingsSpec_new :: "'a EmbeddingsSpec" where
  "EmbeddingsSpec_new = \<lparr>EmbeddingsSpec.weight = None, multiply_by_sqrt_depth = None\<rparr>"

definition MultiHeadAttentionSpec_new :: "bool \<Rightarrow> 'a MultiHeadAttentionSpec" where
  "MultiHeadAttentionSpec_new is_self_attention =
     \<lparr>MultiHeadAttentionSpec.layer_norm = LayerNormSpec_new,
      linear = (if is_self_attention then [LinearSpec_new, LinearSpec_new]
                else [LinearSpec_new, LinearSpec_new, LinearSpec_new]),
      relative_position_keys = None,
      relative_position_values = None\<rparr>"

definition FeedForwardSpec_new :: "'a FeedForwardSpec" where
  "FeedForwardSpec_new =
     \<lparr>FeedForwardSpec.layer_norm = LayerNormSpec_new,
      linear_0 = LinearSpec_new, linear_1 = LinearSpec_new\<rparr>"

definition TransformerEncoderLayerSpec_new :: "'a TransformerEncoderLayerSpec" where
  "TransformerEncoderLayerSpec_new =
     \<lparr>TransformerEncoderLayerSpec.self_attention = MultiHeadAttentionSpec_new True,
      TransformerEncoderLayerSpec.ffn = FeedForwardSpec_new\<rparr>"

definition TransformerDecoderLayerSpec_new :: "'a TransformerDecoderLayerSpec" where
  "TransformerDecoderLayerSpec_new =
     \<lparr>TransformerDecoderLayerSpec.self_attention = MultiHeadAttentionSpec_new True,
      attention = MultiHeadAttentionSpec_new False,
      TransformerDecoderLayerSpec.ffn = FeedForwardSpec_new\<rparr>"

definition TransformerEncoderSpec_new :: "nat \<Rightarrow> 'a TransformerEncoderSpec" where
  "TransformerEncoderSpec_new num_layers =
     \<lparr>TransformerEncoderSpec.embeddings = EmbeddingsSpec_new,
      TransformerEncoderSpec.layer_norm = LayerNormSpec_new,
      TransformerEncoderSpec.layer = replicate num_layers TransformerEncoderLayerSpec_new\<rparr>"

definition TransformerDecoderSpec_new :: "nat \<Rightarrow> 'a TransformerDecoderSpec" where
  "TransformerDecoderSpec_new num_layers =
     \<lparr>TransformerDecoderSpec.embeddings = EmbeddingsSpec_new,
      TransformerDecoderSpec.layer_norm = LayerNormSpec_new,
      projection = LinearSpec_new,
      TransformerDecoderSpec.layer = replicate num_layers TransformerDecoderLayerSpec_new\<rparr>"

definition TransformerSpec_new :: "nat \<Rightarrow> bool \<Rightarrow> 'a TransformerSpec" where
  "TransformerSpec_new num_layers relative =
     \<lparr>encoder = TransformerEncoderSpec_new num_layers,
      decoder = TransformerDecoderSpec_new num_layers,
      with_relative_position = relative,
      vocabulary = Map.empty\<rparr>"

text \<open>Arrays for the examples: a 1 x 2 x 3 kernel, two 2 x 2 tables and a vector.\<close>

definition kernel_2x3 :: "int ndarray" where
  "kernel_2x3 = \<lparr>shape = [1, 2, 3], data = [1, 2, 3, 4, 5, 6]\<rparr>"

definition table_a :: "int ndarray" where
  "table_a = \<lparr>shape = [2, 2], data = [1, 2, 3, 4]\<rparr>"

definition table_b :: "int ndarray" where
  "table_b = \<lparr>shape = [2, 2], data = [1, 2, 3, 5]\<rparr>"

definition vector_1 :: "int ndarray" where
  "vector_1 = \<lparr>shape = [2], data = [1, 1]\<rparr>"

text \<open>
  Tables of floats: one with a NaN, and two that differ in the sign of a zero only.
\<close>

definition nan_table :: "np_float ndarray" where
  "nan_table =
     \<lparr>shape = [2, 2], data = [NaN, Number False 1, Number False 2, Number False 3]\<rparr>"

definition neg_zero_table :: "np_float ndarray" where
  "neg_zero_table =
     \<lparr>shape = [2, 2], data = [Number True 0, Number False 1, Number False 2, Number False 3]\<rparr>"

definition pos_zero_table :: "np_float ndarray" where
  "pos_zero_table =
     \<lparr>shape = [2, 2], data = [Number False 0, Number False 1, Number False 2, Number False 3]\<rparr>"

text \<open>
  The names of the layer norm tensors and of the kernels of one layer of generation 1,
  a decoder checkpoint of one layer with its own embeddings and no dense kernel, and a
  checkpoint of one encoder and one decoder layer whose only embeddings are the shared ones.
\<close>

definition decoder_layer_names_v1 :: "string \<Rightarrow> string list \<times> string list" where
  "decoder_layer_names_v1 scope =
     ([scope @ ''/ffn/LayerNorm/gamma'', scope @ ''/ffn/LayerNorm/beta'',
       scope @ ''/masked_multi_head/LayerNorm/gamma'', scope @ ''/masked_multi_head/LayerNorm/beta'',
       scope @ ''/multi_head/LayerNorm/gamma'', scope @ ''/multi_head/LayerNorm/beta''],
      [scope @ ''/ffn/conv1d/kernel'', scope @ ''/ffn/conv1d_1/kernel'',
       scope @ ''/masked_multi_head/conv1d/kernel'', scope @ ''/masked_multi_head/conv1d_1/kernel'',
       scope @ ''/multi_head/conv1d/kernel'', scope @ ''/multi_head/conv1d_1/kernel'',
       scope @ ''/multi_head/conv1d_2/kernel''])"

definition decoder_checkpoint_v1 :: "int variables" where
  "decoder_checkpoint_v1 =
     map_of ([(''transformer/decoder/w_embs'', table_a),
              (''transformer/decoder/LayerNorm/gamma'', vector_1),
              (''transformer/decoder/LayerNorm/beta'', vector_1)]
             @ map (\<lambda>n. (n, vector_1)) (fst (decoder_layer_names_v1 ''transformer/decoder/layer_0''))
             @ map (\<lambda>n. (n, table_b)) (snd (decoder_layer_names_v1 ''transformer/decoder/layer_0'')))"

definition encoder_layer_names_v1 :: "string \<Rightarrow> string list \<times> string list" where
  "encoder_layer_names_v1 scope =
     ([scope @ ''/ffn/LayerNorm/gamma'', scope @ ''/ffn/LayerNorm/beta'',
       scope @ ''/multi_head/LayerNorm/gamma'', scope @ ''/multi_head/LayerNorm/beta''],
      [scope @ ''/ffn/conv1d/kernel'', scope @ ''/ffn/conv1d_1/kernel'',
       scope @ ''/multi_head/conv1d/kernel'', scope @ ''/multi_head/conv1d_1/kernel''])"

definition shared_checkpoint_v1 :: "int variables" where
  "shared_checkpoint_v1 =
     map_of ([(''transformer/shared_embeddings/w_embs'', table_a),
              (''transformer/encoder/LayerNorm/gamma'', vector_1),
              (''transformer/encoder/LayerNorm/beta'', vector_1),
              (''transformer/decoder/LayerNorm/gamma'', vector_1),
              (''transformer/decoder/LayerNorm/beta'', vector_1),
              (''transformer/decoder/dense/kernel'', table_b)]
             @ map (\<lambda>n. (n, vector_1)) (fst (encoder_layer_names_v1 ''transformer/encoder/layer_0''))
             @ map (\<lambda>n. (n, table_b)) (snd (encoder_layer_names_v1 ''transformer/encoder/layer_0''))
             @ map (\<lambda>n. (n, vector_1)) (fst (decoder_layer_names_v1 ''transformer/decoder/layer_0''))
             @ map (\<lambda>n. (n, table_b)) (snd (decoder_layer_names_v1 ''transformer/decoder/layer_0'')))"

text \<open>A third table, and the tensors of a self-attention and of a cross-attention block
  of generation 2, with different query, key and value kernels.\<close>

definition table_c :: "int ndarray" where
  "table_c = \<lparr>shape = [2, 2], data = [5, 6, 7, 8]\<rparr>"

definition attention_checkpoint_v2 :: "int variables" where
  "attention_checkpoint_v2 =
     map_of (concat (map
       (\<lambda>scope. [(scope @ ''/input_layer_norm/gamma'', vector_1),
                  (scope @ ''/input_layer_norm/beta'', vector_1),
                  (scope @ ''/layer/linear_queries/kernel'', table_a),
                  (scope @ ''/layer/linear_keys/kernel'', table_b),
                  (scope @ ''/layer/linear_values/kernel'', table_c),
                  (scope @ ''/layer/linear_output/kernel'', table_a)])
       [''model/decoder/layers/0/self_attention'', ''model/decoder/layers/0/attention/0'']))"

text \<open>
  The names of the tensors of one encoder layer of generation 2, and an encoder checkpoint
  with the tensors of the layers 0, 1, 2 and 4, and none for layer 3.
\<close>

definition encoder_layer_names_v2 :: "string \<Rightarrow> string list \<times> string list" where
  "encoder_layer_names_v2 scope =
     ([scope @ ''/ffn/input_layer_norm/gamma'', scope @ ''/ffn/input_layer_norm/beta'',
       scope @ ''/self_attention/input_layer_norm/gamma'',
       scope @ ''/self_attention/input_layer_norm/beta''],
      [scope @ ''/ffn/layer/inner/kernel'', scope @ ''/ffn/layer/outer/kernel'',
       scope @ ''/self_attention/layer/linear_queries/kernel'',
       scope @ ''/self_attention/layer/linear_keys/kernel'',
       scope @ ''/self_attention/layer/linear_values/kernel'',
       scope @ ''/self_attention/layer/linear_output/kernel''])"

definition gap_checkpoint_v2 :: "int variables" where
  "gap_checkpoint_v2 =
     map_of ([(''model/encoder/layer_norm/gamma'', vector_1),
              (''model/encoder/layer_norm/beta'', vector_1)]
             @ concat (map
                 (\<lambda>i. map (\<lambda>n. (n, vector_1))
                        (fst (encoder_layer_names_v2 (''model/encoder/layers/'' @ string_of_nat i)))
                    @ map (\<lambda>n. (n, table_b))
                        (snd (encoder_layer_names_v2 (''model/encoder/layers/'' @ string_of_nat i))))
                 [0, 1, 2, 4]))"

text \<open>
  The layer count of a checkpoint as a discovery would find it: the indices are tried
  from \<open>i\<close> upward, as far as the tensors of the layer are in the store (at most \<open>fuel\<close>
  of them). An encoder layer of generation 2 is present when the store has its tensors.
\<close>

fun discovered_layer_count :: "(nat \<Rightarrow> bool) \<Rightarrow> nat \<Rightarrow> nat \<Rightarrow> nat" where
  "discovered_layer_count present i 0 = 0"
| "discovered_layer_count present i (Suc fuel) =
     (if present i then Suc (discovered_layer_count present (Suc i) fuel) else 0)"

definition encoder_layer_present_v2 :: "'a variables \<Rightarrow> string \<Rightarrow> nat \<Rightarrow> bool" where
  "encoder_layer_present_v2 variables scope i =
     list_all (\<lambda>n. variables n \<noteq> None)
       (fst (encoder_layer_names_v2 (scope @ ''/layers/'' @ string_of_nat i))
        @ snd (encoder_layer_names_v2 (scope @ ''/layers/'' @ string_of_nat i)))"

text \<open>
  The names of the tensors of one decoder layer of generation 2, a checkpoint of generation
  2 with one encoder and one decoder layer and no kernel for the output layer, and a store
  that has the gamma of the layer norm of the encoder and not its beta.
\<close>

definition decoder_layer_names_v2 :: "string \<Rightarrow> string list \<times> string list" where
  "decoder_layer_names_v2 scope =
     ([scope @ ''/ffn/input_layer_norm/gamma'', scope @ ''/ffn/input_layer_norm/beta'',
       scope @ ''/self_attention/input_layer_norm/gamma'',
       scope @ ''/self_attention/input_layer_norm/beta'',
       scope @ ''/attention/0/input_layer_norm/gamma'',
       scope @ ''/attention/0/input_layer_norm/beta''],
      [scope @ ''/ffn/layer/inner/kernel'', scope @ ''/ffn/layer/outer/kernel'',
       scope @ ''/self_attention/layer/linear_queries/kernel'',
       scope @ ''/self_attention/layer/linear_keys/kernel'',
       scope @ ''/self_attention/layer/linear_values/kernel'',
       scope @ ''/self_attention/layer/linear_output/kernel'',
       scope @ ''/attention/0/layer/linear_queries/kernel'',
       scope @ ''/attention/0/layer/linear_keys/kernel'',
       scope @ ''/attention/0/layer/linear_values/kernel'',
       scope @ ''/attention/0/layer/linear_output/kernel''])"

definition checkpoint_v2 :: "int variables" where
  "checkpoint_v2 =
     map_of ([(''model/examples_inputter/features_inputter/embedding'', table_a),
              (''model/examples_inputter/labels_inputter/embedding'', table_b),
              (''model/encoder/layer_norm/gamma'', vector_1),
              (''model/encoder/layer_norm/beta'', vector_1),
              (''model/decoder/layer_norm/gamma'', vector_1),
              (''model/decoder/layer_norm/beta'', vector_1)]
             @ map (\<lambda>n. (n, vector_1)) (fst (encoder_layer_names_v2 ''model/encoder/layers/0''))
             @ map (\<lambda>n. (n, table_b)) (snd (encoder_layer_names_v2 ''model/encoder/layers/0''))
             @ map (\<lambda>n. (n, vector_1)) (fst (decoder_layer_names_v2 ''model/decoder/layers/0''))
             @ map (\<lambda>n. (n, table_b)) (snd (decoder_layer_names_v2 ''model/decoder/layers/0'')))"

definition beta_missing_checkpoint :: "int variables" where
  "beta_missing_checkpoint =
     [''model/examples_inputter/features_inputter/embedding'' \<mapsto> table_a,
      ''model/encoder/layer_norm/gamma'' \<mapsto> vector_1]"

text \<open>
  A converter constructed with variables in memory and no path, and a loader or a
  vocabulary reader that finds no file.
\<close>

definition converter_in_memory :: "'a variables \<Rightarrow> 'a OpenNMTTFConverter" where
  "converter_in_memory variables =
     \<lparr>self_model_spec = TransformerSpec_new 1 False,
      self_model_path = None,
      self_src_vocab = VocabList [''a''],
      self_tgt_vocab = VocabList [''b''],
      self_variables = DictVariables variables\<rparr>"

definition no_file :: "string \<Rightarrow> error + 'b" where
  "no_file path = Inl (RuntimeError ''no such file'')"

subsection \<open>Notions for the properties\<close>

text \<open>
  What a setter may raise: a \<^verbatim>\<open>KeyError\<close> for a name that the store does not have, or
  an \<^verbatim>\<open>IndexError\<close> when a list of the template is too short. A statement raises only
  errors of a kind when every error it ends in is of that kind.
\<close>

definition setter_error :: "'a variables \<Rightarrow> error \<Rightarrow> bool" where
  "setter_error variables e =
     (case e of KeyError n \<Rightarrow> variables n = None | IndexError \<Rightarrow> True | _ \<Rightarrow> False)"

definition raises_only :: "(error \<Rightarrow> bool) \<Rightarrow> ('s, 'r) stmt \<Rightarrow> bool" where
  "raises_only P f \<longleftrightarrow> (\<forall>s s' e. f s = (s', Inl e) \<longrightarrow> P e)"

text \<open>
  The names of generation 2 begin with \<^verbatim>\<open>model/\<close>; two stores agree on them when they
  hold the same under each.
\<close>

definition model_name :: "string \<Rightarrow> bool" where
  "model_name n \<longleftrightarrow> take 6 n = ''model/''"

definition agree_on_model_names :: "'a variables \<Rightarrow> 'a variables \<Rightarrow> bool" where
  "agree_on_model_names v v' \<longleftrightarrow> (\<forall>n. model_name n \<longrightarrow> v n = v' n)"

section \<open>Properties\<close>

subsection \<open>Arrays\<close>

lemma transpose_nd_2d:
  assumes sh: "shape a = [m, n]" and i: "i < m" and j: "j < n"
  shows "at (transpose_nd a) [j, i] = at a [i, j]"
proof -
  have lt: "j * m + i < n * m"
  proof -
    have "j * m + i < j * m + m" using i by simp
    also have "\<dots> = Suc j * m" by simp
    also have "\<dots> \<le> n * m" using j by (intro mult_le_mono1) simp
    finally show ?thesis .
  qed
  have "at (transpose_nd a) [j, i] = data (transpose_nd a) ! (j * m + i)"
    by (simp add: at_def transpose_nd_def sh)
  also have "\<dots> = data a ! ravel [m, n] (rev (unravel [n, m] (j * m + i)))"
    using lt by (simp add: transpose_nd_def sh mult.commute)
  also have "\<dots> = data a ! (i * n + j)"
    using i j by simp
  also have "\<dots> = at a [i, j]"
    by (simp add: at_def sh)
  finally show ?thesis .
qed

subsection \<open>Statements\<close>

text \<open>What a statement does not touch is left as it was.\<close>

lemma seq_Cons_frame:
  assumes "\<And>s. g (fst (seq fs s)) = g s"
  shows "g (fst (seq (f # fs) s)) = g (fst (f s))"
  using assms [of "fst (f s)"] by (cases "f s") (auto split: sum.splits)

lemma seq_frame:
  assumes "\<And>f s. f \<in> set fs \<Longrightarrow> g (fst (f s)) = g s"
  shows "g (fst (seq fs s)) = g s"
  using assms
proof (induction fs arbitrary: s)
  case Nil
  then show ?case by simp
next
  case (Cons f fs)
  have "g (fst (seq (f # fs) s)) = g (fst (f s))"
    by (rule seq_Cons_frame) (simp add: Cons)
  then show ?case by (simp add: Cons.prems)
qed

lemma within_frame:
  assumes "\<And>h. g (field_update h s) = g s"
  shows "g (fst (within field field_update f s)) = g s"
  by (simp add: within_def assms split: prod.splits)

subsection \<open>Linear projections\<close>

lemma set_linear_kernel:
  "set_linear variables scope None do_transpose spec =
     (case variables (scope @ ''/kernel'') of
        None \<Rightarrow> (spec, Inl (KeyError (scope @ ''/kernel'')))
      | Some w \<Rightarrow>
          (spec\<lparr>LinearSpec.weight :=
                  Some (if do_transpose then transpose_nd (squeeze w) else squeeze w),
                bias := (case variables (scope @ ''/bias'') of
                           None \<Rightarrow> bias spec | Some b \<Rightarrow> Some b)\<rparr>, Inr ()))"
  by (simp add: set_linear_def Let_def split: option.splits)

lemma set_linear_named:
  "set_linear variables scope (Some n) do_transpose spec =
     (case variables n of
        None \<Rightarrow> (spec, Inl (KeyError n))
      | Some w \<Rightarrow>
          (spec\<lparr>LinearSpec.weight :=
                  Some (if do_transpose then transpose_nd (squeeze w) else squeeze w),
                bias := (case variables (scope @ ''/bias'') of
                           None \<Rightarrow> bias spec | Some b \<Rightarrow> Some b)\<rparr>, Inr ()))"
  by (simp add: set_linear_def Let_def split: option.splits)

lemma transpose_kernel_2x3:
  "transpose_nd (squeeze kernel_2x3) = \<lparr>shape = [3, 2], data = [1, 4, 2, 5, 3, 6]\<rparr>"
  by code_simp

text \<open>
  C5. \<^verbatim>\<open>set_linear\<close>, when the weight tensor is in the store: the weight is the tensor
  with its axes of length one dropped, then transposed unless \<^verbatim>\<open>transpose=False\<close>: a
  squeezed weight of shape \<open>[m, n]\<close> becomes one of shape \<open>[n, m]\<close> whose element
  \<open>[j, i]\<close> is the element \<open>[i, j]\<close> of the squeezed weight. The bias is assigned
  exactly when the store has a tensor under \<^verbatim>\<open>scope/bias\<close>, and is left as it was
  otherwise; nothing is raised in either case.
\<close>

theorem set_linear_normalises:
  assumes "variables (case weight_name of None \<Rightarrow> scope @ ''/kernel'' | Some n \<Rightarrow> n) = Some w"
  shows "set_linear variables scope weight_name do_transpose spec =
           (spec\<lparr>LinearSpec.weight :=
                   Some (if do_transpose then transpose_nd (squeeze w) else squeeze w),
                 bias := (case variables (scope @ ''/bias'') of
                            None \<Rightarrow> bias spec | Some b \<Rightarrow> Some b)\<rparr>, Inr ())
         \<and> shape (squeeze w) = filter (\<lambda>d. d \<noteq> 1) (shape w)
         \<and> data (squeeze w) = data w
         \<and> shape (transpose_nd (squeeze w)) = rev (shape (squeeze w))
         \<and> (\<forall>m n. shape (squeeze w) = [m, n] \<longrightarrow>
               (\<forall>i<m. \<forall>j<n. at (transpose_nd (squeeze w)) [j, i] = at (squeeze w) [i, j]))"
proof (intro conjI)
  show "set_linear variables scope weight_name do_transpose spec =
           (spec\<lparr>LinearSpec.weight :=
                   Some (if do_transpose then transpose_nd (squeeze w) else squeeze w),
                 bias := (case variables (scope @ ''/bias'') of
                            None \<Rightarrow> bias spec | Some b \<Rightarrow> Some b)\<rparr>, Inr ())"
    using assms by (simp add: set_linear_def Let_def split: option.splits)
  show "shape (squeeze w) = filter (\<lambda>d. d \<noteq> 1) (shape w)"
    by (simp add: squeeze_def)
  show "data (squeeze w) = data w"
    by (simp add: squeeze_def)
  show "shape (transpose_nd (squeeze w)) = rev (shape (squeeze w))"
    by (simp add: transpose_nd_def)
  show "\<forall>m n. shape (squeeze w) = [m, n] \<longrightarrow>
               (\<forall>i<m. \<forall>j<n. at (transpose_nd (squeeze w)) [j, i] = at (squeeze w) [i, j])"
    by (blast intro: transpose_nd_2d)
qed

theorem set_linear_normalises_witness:
  "set_linear [''dense/kernel'' \<mapsto> kernel_2x3] ''dense'' None True LinearSpec_new
     = (\<lparr>LinearSpec.weight = Some \<lparr>shape = [3, 2], data = [1, 4, 2, 5, 3, 6]\<rparr>, bias = None\<rparr>,
        Inr ())
   \<and> shape (squeeze kernel_2x3) = [2, 3]
   \<and> at (transpose_nd (squeeze kernel_2x3)) [2, 1] = at (squeeze kernel_2x3) [1, 2]"
proof -
  have v: "[''dense/kernel'' \<mapsto> kernel_2x3]
             (case None of None \<Rightarrow> ''dense'' @ ''/kernel'' | Some n \<Rightarrow> n) = Some kernel_2x3"
    by simp
  have s: "shape (squeeze kernel_2x3) = [2, 3]"
    by (simp add: squeeze_def kernel_2x3_def)
  from set_linear_normalises
         [where variables = "[''dense/kernel'' \<mapsto> kernel_2x3]" and weight_name = None
            and scope = "''dense''" and w = kernel_2x3 and do_transpose = True
            and spec = LinearSpec_new] v s transpose_kernel_2x3
  show ?thesis by (simp add: LinearSpec_new_def)
qed

subsection \<open>The output projection of the decoder\<close>

lemma decoder_v2_projection:
  "projection (fst (set_transformer_decoder_v2 elem_eq variables scope target_embedding_name relative spec))
   = projection (fst (try_except_KeyError
            (seq [within projection projection_update
                    (set_linear variables (scope @ ''/output_layer'') None False),
                  (\<lambda>spec.
                    if \<not> (case (LinearSpec.weight (projection spec),
                                 EmbeddingsSpec.weight (TransformerDecoderSpec.embeddings spec)) of
                             (Some p, Some e) \<Rightarrow> array_equal elem_eq p e
                           | _ \<Rightarrow> False)
                    then (spec\<lparr>projection := (projection spec)
                                 \<lparr>LinearSpec.weight :=
                                    map_option transpose_nd
                                      (LinearSpec.weight (projection spec))\<rparr>\<rparr>, Inr ())
                    else (spec, Inr ()))])
            (within projection projection_update
               (set_linear variables (scope @ ''/output_layer'')
                  (Some target_embedding_name) False)) spec))"
  unfolding set_transformer_decoder_v2_def
  by (rule seq_Cons_frame, rule seq_frame) (auto simp: within_frame)

lemma transpose_table_b:
  "transpose_nd (squeeze table_b) = \<lparr>shape = [2, 2], data = [1, 3, 2, 5]\<rparr>"
  by code_simp

lemma decoder_v2_tying:
  assumes "variables (scope @ ''/output_layer/kernel'') = Some k"
  shows "LinearSpec.weight (projection (fst (set_transformer_decoder_v2 elem_eq variables scope
             target_embedding_name relative spec)))
         = Some (if (case EmbeddingsSpec.weight (TransformerDecoderSpec.embeddings spec) of
                       None \<Rightarrow> False
                     | Some e \<Rightarrow> array_equal elem_eq (squeeze k) e)
                 then squeeze k else transpose_nd (squeeze k))"
  using assms
  by (simp add: decoder_v2_projection try_except_KeyError_def within_def set_linear_kernel
        split: option.splits)

lemma float_tables:
  "squeeze nan_table = nan_table"
  "squeeze neg_zero_table = neg_zero_table"
  "\<not> array_equal float_eq nan_table nan_table"
  "array_equal float_eq neg_zero_table pos_zero_table"
  "neg_zero_table \<noteq> pos_zero_table"
  by (simp_all add: squeeze_def array_equal_def nan_table_def neg_zero_table_def
        pos_zero_table_def)

lemma transpose_float_tables:
  "transpose_nd nan_table
     = \<lparr>shape = [2, 2], data = [NaN, Number False 2, Number False 1, Number False 3]\<rparr>"
  "transpose_nd neg_zero_table
     = \<lparr>shape = [2, 2], data = [Number True 0, Number False 2, Number False 1, Number False 3]\<rparr>"
  by code_simp+

lemma int_tables:
  "squeeze table_b = table_b"
  "\<not> array_equal (=) table_b table_a"
  "array_equal (=) table_b table_b"
  by (simp_all add: squeeze_def array_equal_def table_a_def table_b_def)

text \<open>
  C3, as the code has it. In the decoder of generation 2, when the store has the kernel of
  the output layer, the projection weight is the squeezed kernel if \<^verbatim>\<open>np.array_equal\<close>
  finds it equal to the weight of the decoder embeddings, and the transposed squeezed
  kernel otherwise. The comparison has no tolerance: the kernel is transposed when the
  embeddings have no weight yet, when the shapes differ, and as soon as one element of the
  kernel does not compare equal to the element of the embeddings at its place; it is kept
  when the shapes are the same and every element compares equal. For floats the comparison
  of the elements is that of IEEE 754: equal floats are the same number or two zeros, and
  NaN is equal to nothing, so the comparison is not one of bits.
\<close>

theorem tying_decided_by_array_equal:
  assumes "variables (scope @ ''/output_layer/kernel'') = Some k"
  shows "LinearSpec.weight (projection (fst (set_transformer_decoder_v2 elem_eq variables scope
             target_embedding_name relative spec)))
         = Some (if (case EmbeddingsSpec.weight (TransformerDecoderSpec.embeddings spec) of
                       None \<Rightarrow> False
                     | Some e \<Rightarrow> array_equal elem_eq (squeeze k) e)
                 then squeeze k else transpose_nd (squeeze k))
       \<and> (EmbeddingsSpec.weight (TransformerDecoderSpec.embeddings spec) = None
          \<longrightarrow> LinearSpec.weight (projection (fst (set_transformer_decoder_v2 elem_eq variables scope
             target_embedding_name relative spec)))
              = Some (transpose_nd (squeeze k)))
       \<and> (EmbeddingsSpec.weight (TransformerDecoderSpec.embeddings spec) = Some e \<and> shape (squeeze k) \<noteq> shape e
          \<longrightarrow> LinearSpec.weight (projection (fst (set_transformer_decoder_v2 elem_eq variables scope
             target_embedding_name relative spec)))
              = Some (transpose_nd (squeeze k)))
       \<and> (EmbeddingsSpec.weight (TransformerDecoderSpec.embeddings spec) = Some e
          \<and> i < length (data k) \<and> i < length (data e) \<and> \<not> elem_eq (data k ! i) (data e ! i)
          \<longrightarrow> LinearSpec.weight (projection (fst (set_transformer_decoder_v2 elem_eq variables scope
             target_embedding_name relative spec)))
              = Some (transpose_nd (squeeze k)))
       \<and> (EmbeddingsSpec.weight (TransformerDecoderSpec.embeddings spec) = Some e
          \<and> shape (squeeze k) = shape e \<and> length (data k) = length (data e)
          \<and> (\<forall>i<length (data k). elem_eq (data k ! i) (data e ! i))
          \<longrightarrow> LinearSpec.weight (projection (fst (set_transformer_decoder_v2 elem_eq variables scope
             target_embedding_name relative spec)))
              = Some (squeeze k))
       \<and> (float_eq x y \<longleftrightarrow> x \<noteq> NaN \<and> y \<noteq> NaN
             \<and> (x = y \<or> (\<exists>s s'. x = Number s 0 \<and> y = Number s' 0)))"
proof (intro conjI impI)
  have w: "LinearSpec.weight (projection (fst (set_transformer_decoder_v2 elem_eq variables scope
             target_embedding_name relative spec)))
         = Some (if (case EmbeddingsSpec.weight (TransformerDecoderSpec.embeddings spec) of
                       None \<Rightarrow> False
                     | Some e \<Rightarrow> array_equal elem_eq (squeeze k) e)
                 then squeeze k else transpose_nd (squeeze k))"
    by (rule decoder_v2_tying [where variables = variables and scope = scope and k = k])
       (rule assms)
  show "LinearSpec.weight (projection (fst (set_transformer_decoder_v2 elem_eq variables scope
             target_embedding_name relative spec)))
         = Some (if (case EmbeddingsSpec.weight (TransformerDecoderSpec.embeddings spec) of
                       None \<Rightarrow> False
                     | Some e \<Rightarrow> array_equal elem_eq (squeeze k) e)
                 then squeeze k else transpose_nd (squeeze k))"
    by (rule w)
  show "LinearSpec.weight (projection (fst (set_transformer_decoder_v2 elem_eq variables scope
             target_embedding_name relative spec)))
              = Some (transpose_nd (squeeze k))"
    if "EmbeddingsSpec.weight (TransformerDecoderSpec.embeddings spec) = None"
    using that by (simp add: w)
  show "LinearSpec.weight (projection (fst (set_transformer_decoder_v2 elem_eq variables scope
             target_embedding_name relative spec)))
              = Some (transpose_nd (squeeze k))"
    if "EmbeddingsSpec.weight (TransformerDecoderSpec.embeddings spec) = Some e \<and> shape (squeeze k) \<noteq> shape e"
    using that by (simp add: w array_equal_def)
  show "LinearSpec.weight (projection (fst (set_transformer_decoder_v2 elem_eq variables scope
             target_embedding_name relative spec)))
              = Some (transpose_nd (squeeze k))"
    if "EmbeddingsSpec.weight (TransformerDecoderSpec.embeddings spec) = Some e
          \<and> i < length (data k) \<and> i < length (data e) \<and> \<not> elem_eq (data k ! i) (data e ! i)"
    using that by (auto simp: w array_equal_def squeeze_def list_all2_conv_all_nth)
  show "LinearSpec.weight (projection (fst (set_transformer_decoder_v2 elem_eq variables scope
             target_embedding_name relative spec)))
              = Some (squeeze k)"
    if "EmbeddingsSpec.weight (TransformerDecoderSpec.embeddings spec) = Some e
          \<and> shape (squeeze k) = shape e \<and> length (data k) = length (data e)
          \<and> (\<forall>i<length (data k). elem_eq (data k ! i) (data e ! i))"
    using that by (auto simp: w array_equal_def squeeze_def list_all2_conv_all_nth)
  show "float_eq x y \<longleftrightarrow> x \<noteq> NaN \<and> y \<noteq> NaN
             \<and> (x = y \<or> (\<exists>s s'. x = Number s 0 \<and> y = Number s' 0))"
    by (cases x; cases y) auto
qed

theorem tying_decided_by_array_equal_witness:
  "LinearSpec.weight (projection (fst (set_transformer_decoder_v2 (=)
        [''model/decoder/output_layer/kernel'' \<mapsto> table_b] ''model/decoder''
        ''model/examples_inputter/labels_inputter/embedding'' False
        ((TransformerDecoderSpec_new 1)
           \<lparr>TransformerDecoderSpec.embeddings :=
              \<lparr>EmbeddingsSpec.weight = Some table_a, multiply_by_sqrt_depth = Some True\<rparr>\<rparr>))))
     = Some \<lparr>shape = [2, 2], data = [1, 3, 2, 5]\<rparr>
   \<and> LinearSpec.weight (projection (fst (set_transformer_decoder_v2 (=)
        [''model/decoder/output_layer/kernel'' \<mapsto> table_b] ''model/decoder''
        ''model/examples_inputter/labels_inputter/embedding'' False
        ((TransformerDecoderSpec_new 1)
           \<lparr>TransformerDecoderSpec.embeddings :=
              \<lparr>EmbeddingsSpec.weight = Some table_b, multiply_by_sqrt_depth = Some True\<rparr>\<rparr>))))
     = Some table_b
   \<and> LinearSpec.weight (projection (fst (set_transformer_decoder_v2 float_eq
        [''model/decoder/output_layer/kernel'' \<mapsto> nan_table] ''model/decoder''
        ''model/examples_inputter/labels_inputter/embedding'' False
        ((TransformerDecoderSpec_new 1)
           \<lparr>TransformerDecoderSpec.embeddings :=
              \<lparr>EmbeddingsSpec.weight = Some nan_table, multiply_by_sqrt_depth = Some True\<rparr>\<rparr>))))
     = Some \<lparr>shape = [2, 2], data = [NaN, Number False 2, Number False 1, Number False 3]\<rparr>
   \<and> LinearSpec.weight (projection (fst (set_transformer_decoder_v2 float_eq
        [''model/decoder/output_layer/kernel'' \<mapsto> neg_zero_table] ''model/decoder''
        ''model/examples_inputter/labels_inputter/embedding'' False
        ((TransformerDecoderSpec_new 1)
           \<lparr>TransformerDecoderSpec.embeddings :=
              \<lparr>EmbeddingsSpec.weight = Some pos_zero_table, multiply_by_sqrt_depth = Some True\<rparr>\<rparr>))))
     = Some neg_zero_table
   \<and> \<not> float_eq NaN NaN \<and> float_eq (Number True 0) (Number False 0)"
proof -
  note a = tying_decided_by_array_equal
         [where elem_eq = "(=)" and variables = "[''model/decoder/output_layer/kernel'' \<mapsto> table_b]"
         and scope = "''model/decoder''" and k = table_b and relative = False
         and target_embedding_name = "''model/examples_inputter/labels_inputter/embedding''"
         and spec = "((TransformerDecoderSpec_new 1)
           \<lparr>TransformerDecoderSpec.embeddings :=
              \<lparr>EmbeddingsSpec.weight = Some table_a, multiply_by_sqrt_depth = Some True\<rparr>\<rparr>)", THEN conjunct1]
  note b = tying_decided_by_array_equal
         [where elem_eq = "(=)" and variables = "[''model/decoder/output_layer/kernel'' \<mapsto> table_b]"
         and scope = "''model/decoder''" and k = table_b and relative = False
         and target_embedding_name = "''model/examples_inputter/labels_inputter/embedding''"
         and spec = "((TransformerDecoderSpec_new 1)
           \<lparr>TransformerDecoderSpec.embeddings :=
              \<lparr>EmbeddingsSpec.weight = Some table_b, multiply_by_sqrt_depth = Some True\<rparr>\<rparr>)", THEN conjunct1]
  note c = tying_decided_by_array_equal
         [where elem_eq = float_eq and variables = "[''model/decoder/output_layer/kernel'' \<mapsto> nan_table]"
         and scope = "''model/decoder''" and k = nan_table and relative = False
         and target_embedding_name = "''model/examples_inputter/labels_inputter/embedding''"
         and spec = "((TransformerDecoderSpec_new 1)
           \<lparr>TransformerDecoderSpec.embeddings :=
              \<lparr>EmbeddingsSpec.weight = Some nan_table, multiply_by_sqrt_depth = Some True\<rparr>\<rparr>)", THEN conjunct1]
  note d = tying_decided_by_array_equal
         [where elem_eq = float_eq and variables = "[''model/decoder/output_layer/kernel'' \<mapsto> neg_zero_table]"
         and scope = "''model/decoder''" and k = neg_zero_table and relative = False
         and target_embedding_name = "''model/examples_inputter/labels_inputter/embedding''"
         and spec = "((TransformerDecoderSpec_new 1)
           \<lparr>TransformerDecoderSpec.embeddings :=
              \<lparr>EmbeddingsSpec.weight = Some pos_zero_table, multiply_by_sqrt_depth = Some True\<rparr>\<rparr>)", THEN conjunct1]
  have "LinearSpec.weight (projection (fst (set_transformer_decoder_v2 (=)
        [''model/decoder/output_layer/kernel'' \<mapsto> table_b] ''model/decoder''
        ''model/examples_inputter/labels_inputter/embedding'' False
        ((TransformerDecoderSpec_new 1)
           \<lparr>TransformerDecoderSpec.embeddings :=
              \<lparr>EmbeddingsSpec.weight = Some table_a, multiply_by_sqrt_depth = Some True\<rparr>\<rparr>))))
     = Some \<lparr>shape = [2, 2], data = [1, 3, 2, 5]\<rparr>"
    using a int_tables transpose_table_b by simp
  moreover have "LinearSpec.weight (projection (fst (set_transformer_decoder_v2 (=)
        [''model/decoder/output_layer/kernel'' \<mapsto> table_b] ''model/decoder''
        ''model/examples_inputter/labels_inputter/embedding'' False
        ((TransformerDecoderSpec_new 1)
           \<lparr>TransformerDecoderSpec.embeddings :=
              \<lparr>EmbeddingsSpec.weight = Some table_b, multiply_by_sqrt_depth = Some True\<rparr>\<rparr>))))
     = Some table_b"
    using b int_tables by simp
  moreover have "LinearSpec.weight (projection (fst (set_transformer_decoder_v2 float_eq
        [''model/decoder/output_layer/kernel'' \<mapsto> nan_table] ''model/decoder''
        ''model/examples_inputter/labels_inputter/embedding'' False
        ((TransformerDecoderSpec_new 1)
           \<lparr>TransformerDecoderSpec.embeddings :=
              \<lparr>EmbeddingsSpec.weight = Some nan_table, multiply_by_sqrt_depth = Some True\<rparr>\<rparr>))))
     = Some \<lparr>shape = [2, 2], data = [NaN, Number False 2, Number False 1, Number False 3]\<rparr>"
    using c float_tables transpose_float_tables by simp
  moreover have "LinearSpec.weight (projection (fst (set_transformer_decoder_v2 float_eq
        [''model/decoder/output_layer/kernel'' \<mapsto> neg_zero_table] ''model/decoder''
        ''model/examples_inputter/labels_inputter/embedding'' False
        ((TransformerDecoderSpec_new 1)
           \<lparr>TransformerDecoderSpec.embeddings :=
              \<lparr>EmbeddingsSpec.weight = Some pos_zero_table, multiply_by_sqrt_depth = Some True\<rparr>\<rparr>))))
     = Some neg_zero_table"
    using d float_tables by simp
  ultimately show ?thesis by simp
qed

text \<open>
  C3, as stated, fails. A kernel with a NaN and decoder embeddings with the same bits: the
  comparison finds them unequal and the kernel is transposed. A kernel with a negative
  zero where the embeddings have a positive zero: the bits differ, the comparison finds
  the arrays equal, and the kernel is kept as it is.
\<close>

theorem tying_is_not_bit_for_bit:
  "squeeze nan_table = nan_table
   \<and> LinearSpec.weight (projection (fst (set_transformer_decoder_v2 float_eq
        [''model/decoder/output_layer/kernel'' \<mapsto> nan_table] ''model/decoder''
        ''model/examples_inputter/labels_inputter/embedding'' False
        ((TransformerDecoderSpec_new 1)
           \<lparr>TransformerDecoderSpec.embeddings :=
              \<lparr>EmbeddingsSpec.weight = Some nan_table, multiply_by_sqrt_depth = Some True\<rparr>\<rparr>))))
     = Some (transpose_nd nan_table)
   \<and> transpose_nd nan_table \<noteq> nan_table
   \<and> squeeze neg_zero_table \<noteq> pos_zero_table
   \<and> LinearSpec.weight (projection (fst (set_transformer_decoder_v2 float_eq
        [''model/decoder/output_layer/kernel'' \<mapsto> neg_zero_table] ''model/decoder''
        ''model/examples_inputter/labels_inputter/embedding'' False
        ((TransformerDecoderSpec_new 1)
           \<lparr>TransformerDecoderSpec.embeddings :=
              \<lparr>EmbeddingsSpec.weight = Some pos_zero_table, multiply_by_sqrt_depth = Some True\<rparr>\<rparr>))))
     = Some neg_zero_table
   \<and> transpose_nd neg_zero_table \<noteq> neg_zero_table"
proof -
  have n: "LinearSpec.weight (projection (fst (set_transformer_decoder_v2 float_eq
        [''model/decoder/output_layer/kernel'' \<mapsto> nan_table] ''model/decoder''
        ''model/examples_inputter/labels_inputter/embedding'' False
        ((TransformerDecoderSpec_new 1)
           \<lparr>TransformerDecoderSpec.embeddings :=
              \<lparr>EmbeddingsSpec.weight = Some nan_table, multiply_by_sqrt_depth = Some True\<rparr>\<rparr>))))
     = Some (transpose_nd nan_table)"
    using decoder_v2_tying [where variables = "[''model/decoder/output_layer/kernel'' \<mapsto> nan_table]"
            and scope = "''model/decoder''" and k = nan_table and elem_eq = float_eq
            and target_embedding_name = "''model/examples_inputter/labels_inputter/embedding''"
            and relative = False
            and spec = "((TransformerDecoderSpec_new 1)
           \<lparr>TransformerDecoderSpec.embeddings :=
              \<lparr>EmbeddingsSpec.weight = Some nan_table, multiply_by_sqrt_depth = Some True\<rparr>\<rparr>)"]
          float_tables
    by simp
  have z: "LinearSpec.weight (projection (fst (set_transformer_decoder_v2 float_eq
        [''model/decoder/output_layer/kernel'' \<mapsto> neg_zero_table] ''model/decoder''
        ''model/examples_inputter/labels_inputter/embedding'' False
        ((TransformerDecoderSpec_new 1)
           \<lparr>TransformerDecoderSpec.embeddings :=
              \<lparr>EmbeddingsSpec.weight = Some pos_zero_table, multiply_by_sqrt_depth = Some True\<rparr>\<rparr>))))
     = Some neg_zero_table"
    using decoder_v2_tying [where variables = "[''model/decoder/output_layer/kernel'' \<mapsto> neg_zero_table]"
            and scope = "''model/decoder''" and k = neg_zero_table and elem_eq = float_eq
            and target_embedding_name = "''model/examples_inputter/labels_inputter/embedding''"
            and relative = False
            and spec = "((TransformerDecoderSpec_new 1)
           \<lparr>TransformerDecoderSpec.embeddings :=
              \<lparr>EmbeddingsSpec.weight = Some pos_zero_table, multiply_by_sqrt_depth = Some True\<rparr>\<rparr>)"]
          float_tables
    by simp
  have t: "transpose_nd nan_table \<noteq> nan_table" "transpose_nd neg_zero_table \<noteq> neg_zero_table"
    using transpose_float_tables by (simp_all add: nan_table_def neg_zero_table_def)
  show ?thesis
    using n z t float_tables by simp
qed

subsection \<open>The converter and the vocabularies\<close>

text \<open>
  C8. The constructor raises exactly when both or neither of the model path and the
  variables are given, or the variables are not a dict; what it raises is a
  \<^verbatim>\<open>ValueError\<close>; and a converter that is constructed holds the model specification
  as it was given: the constructor resolves no name.
\<close>

theorem init_error_iff:
  "((\<exists>e. init model_spec src_vocab tgt_vocab model_path variables = Inl e)
      \<longleftrightarrow> (model_path = None) = (variables = NoVariables) \<or> variables = NotADict)
   \<and> (\<forall>e. init model_spec src_vocab tgt_vocab model_path variables = Inl e
          \<longrightarrow> (\<exists>msg. e = ValueError msg))
   \<and> (\<forall>c. init model_spec src_vocab tgt_vocab model_path variables = Inr c
          \<longrightarrow> self_model_spec c = model_spec \<and> self_model_path c = model_path
              \<and> self_variables c = variables)"
  by (cases variables) (auto simp: init_def)

theorem init_error_iff_witness:
  "(\<exists>e. init (TransformerSpec_new 1 False :: int TransformerSpec) (VocabList []) (VocabList [])
          None NoVariables = Inl e)
   \<and> (\<exists>e. init (TransformerSpec_new 1 False :: int TransformerSpec) (VocabList []) (VocabList [])
          (Some ''ckpt-1'') (DictVariables Map.empty) = Inl e)
   \<and> (\<exists>e. init (TransformerSpec_new 1 False :: int TransformerSpec) (VocabList []) (VocabList [])
          None NotADict = Inl e)
   \<and> init (TransformerSpec_new 1 False :: int TransformerSpec) (VocabList []) (VocabList [])
          None (DictVariables Map.empty)
       = Inr \<lparr>self_model_spec = TransformerSpec_new 1 False,
              self_model_path = None,
              self_src_vocab = VocabList [], self_tgt_vocab = VocabList [],
              self_variables = DictVariables Map.empty\<rparr>"
  using init_error_iff [of "TransformerSpec_new 1 False :: int TransformerSpec"
          "VocabList []" "VocabList []" None NoVariables]
        init_error_iff [of "TransformerSpec_new 1 False :: int TransformerSpec"
          "VocabList []" "VocabList []" "Some ''ckpt-1''" "DictVariables Map.empty"]
        init_error_iff [of "TransformerSpec_new 1 False :: int TransformerSpec"
          "VocabList []" "VocabList []" None NotADict]
  by (simp add: init_def)

text \<open>
  C9. For a vocabulary given as a list, \<^verbatim>\<open>_load_vocab\<close> returns the tokens of the list
  in their order, and the unknown token is among them: the list itself if it has the
  unknown token, the list with the unknown token appended otherwise.
\<close>

theorem load_vocab_list:
  "\<exists>r. load_vocab from_file (VocabList tokens) unk_token = Inr r
       \<and> unk_token \<in> set r
       \<and> take (length tokens) r = tokens
       \<and> (unk_token \<in> set tokens \<longrightarrow> r = tokens)
       \<and> (unk_token \<notin> set tokens \<longrightarrow> r = tokens @ [unk_token])"
  by (simp add: load_vocab_def)

theorem load_vocab_list_witness:
  "''<unk>'' \<notin> set [''a'', ''b''] \<and> ''b'' \<in> set [''a'', ''b'']
   \<and> load_vocab (\<lambda>_. Inl (RuntimeError [])) (VocabList [''a'', ''b'']) ''<unk>''
       = Inr [''a'', ''b'', ''<unk>'']
   \<and> load_vocab (\<lambda>_. Inl (RuntimeError [])) (VocabList [''a'', ''b'']) ''b''
       = Inr [''a'', ''b'']"
  using load_vocab_list [of "\<lambda>_. Inl (RuntimeError [])" "[''a'', ''b'']" "''<unk>''"]
        load_vocab_list [of "\<lambda>_. Inl (RuntimeError [])" "[''a'', ''b'']" "''b''"]
  by auto

subsection \<open>Embeddings and the output projection in generation 1\<close>

lemma set_embeddings_v1:
  "set_embeddings variables scope (Suc 0) spec =
     (case variables (scope @ ''/w_embs'') of
        None \<Rightarrow> (spec, Inl (KeyError (scope @ ''/w_embs'')))
      | Some w \<Rightarrow>
          (spec\<lparr>EmbeddingsSpec.weight := Some w, multiply_by_sqrt_depth := Some True\<rparr>,
           Inr (scope @ ''/w_embs'')))"
  by (simp add: set_embeddings_def Let_def)

lemma set_embeddings_v2:
  "set_embeddings variables scope 2 spec =
     (case variables (scope @ ''/embedding'') of
        None \<Rightarrow> (spec, Inl (KeyError (scope @ ''/embedding'')))
      | Some w \<Rightarrow>
          (spec\<lparr>EmbeddingsSpec.weight := Some w, multiply_by_sqrt_depth := Some True\<rparr>,
           Inr (scope @ ''/embedding'')))"
  by (simp add: set_embeddings_def Let_def)

lemma decoder_embeddings_v1:
  "try_except_KeyError
     (within TransformerDecoderSpec.embeddings TransformerDecoderSpec.embeddings_update
        (set_embeddings variables ''transformer/decoder'' 1))
     (within TransformerDecoderSpec.embeddings TransformerDecoderSpec.embeddings_update
        (set_embeddings variables ''transformer/shared_embeddings'' 1)) spec =
   (case variables ''transformer/decoder/w_embs'' of
      Some w \<Rightarrow>
        (spec\<lparr>TransformerDecoderSpec.embeddings := (TransformerDecoderSpec.embeddings spec)
                 \<lparr>EmbeddingsSpec.weight := Some w, multiply_by_sqrt_depth := Some True\<rparr>\<rparr>,
         Inr ''transformer/decoder/w_embs'')
    | None \<Rightarrow>
        (case variables ''transformer/shared_embeddings/w_embs'' of
           Some w \<Rightarrow>
             (spec\<lparr>TransformerDecoderSpec.embeddings := (TransformerDecoderSpec.embeddings spec)
                      \<lparr>EmbeddingsSpec.weight := Some w, multiply_by_sqrt_depth := Some True\<rparr>\<rparr>,
              Inr ''transformer/shared_embeddings/w_embs'')
         | None \<Rightarrow> (spec, Inl (KeyError ''transformer/shared_embeddings/w_embs''))))"
  by (simp add: try_except_KeyError_def within_def set_embeddings_v1 split: option.splits)

lemma decoder_tail_frame:
  "projection (fst (seq
     [a,
      within TransformerDecoderSpec.layer_norm TransformerDecoderSpec.layer_norm_update f,
      within TransformerDecoderSpec.layer TransformerDecoderSpec.layer_update g] s))
   = projection (fst (a s))"
  by (rule seq_Cons_frame, rule seq_frame) (auto simp: within_frame)

lemma try_within_projection:
  "projection (fst (try_except_KeyError
      (within projection projection_update body)
      (within projection projection_update handler) s))
   = fst (try_except_KeyError body handler (projection s))"
  by (simp add: try_except_KeyError_def within_def split: prod.splits sum.splits error.splits)

text \<open>The projection after the generation-1 decoder setter, once the embeddings are resolved.\<close>

lemma decoder_v1_projection:
  "projection (fst (set_transformer_decoder variables spec)) =
     (case (case variables ''transformer/decoder/w_embs'' of
              Some w \<Rightarrow> Some ''transformer/decoder/w_embs''
            | None \<Rightarrow> map_option (\<lambda>_. ''transformer/shared_embeddings/w_embs'')
                       (variables ''transformer/shared_embeddings/w_embs'')) of
        None \<Rightarrow> projection spec
      | Some embeddings_name \<Rightarrow>
          fst (try_except_KeyError
                 (set_linear variables ''transformer/decoder/dense'' None True)
                 (set_linear variables ''transformer'' (Some embeddings_name) False)
                 (projection spec)))"
  unfolding set_transformer_decoder_def bind_stmt_def decoder_embeddings_v1
  by (simp add: decoder_tail_frame try_within_projection del: seq.simps split: option.splits)


lemma transpose_table_a:
  "transpose_nd table_a = \<lparr>shape = [2, 2], data = [1, 3, 2, 4]\<rparr>"
  by code_simp

lemma decoder_checkpoint_v1_converts:
  "snd (set_transformer_decoder decoder_checkpoint_v1 (TransformerDecoderSpec_new 1)) = Inr ()"
  by code_simp

lemma decoder_checkpoint_v1_projection:
  "LinearSpec.weight (projection (fst (set_transformer_decoder decoder_checkpoint_v1
      (TransformerDecoderSpec_new 1)))) = Some table_a"
  by code_simp

lemma decoder_checkpoint_v1_embeddings:
  "EmbeddingsSpec.weight (TransformerDecoderSpec.embeddings (fst (set_transformer_decoder
      decoder_checkpoint_v1 (TransformerDecoderSpec_new 1)))) = Some table_a"
  by code_simp

lemma decoder_checkpoint_v1_names:
  "decoder_checkpoint_v1 ''transformer/decoder/dense/kernel'' = None"
  "decoder_checkpoint_v1 ''transformer/decoder/w_embs'' = Some table_a"
  by code_simp+

text \<open>
  C2, as the code has it. In both generations the kernel of the output layer, when the
  store has it, gives the projection weight: squeezed and transposed in generation 1;
  squeezed, and transposed unless equal to the embedding weight, in generation 2. When the
  store does not have it, the projection weight is the tensor of the target embeddings
  with its axes of length one dropped, in the orientation of the embeddings: it is not
  transposed.
\<close>

theorem projection_from_kernel_else_embeddings:
  "(variables ''transformer/decoder/dense/kernel'' = Some k
      \<and> (variables ''transformer/decoder/w_embs'' \<noteq> None
           \<or> variables ''transformer/shared_embeddings/w_embs'' \<noteq> None)
      \<longrightarrow> LinearSpec.weight (projection (fst (set_transformer_decoder variables spec)))
            = Some (transpose_nd (squeeze k)))
   \<and> (variables ''transformer/decoder/dense/kernel'' = None
      \<and> variables ''transformer/decoder/w_embs'' = Some e
      \<longrightarrow> LinearSpec.weight (projection (fst (set_transformer_decoder variables spec)))
            = Some (squeeze e))
   \<and> (variables ''transformer/decoder/dense/kernel'' = None
      \<and> variables ''transformer/decoder/w_embs'' = None
      \<and> variables ''transformer/shared_embeddings/w_embs'' = Some e
      \<longrightarrow> LinearSpec.weight (projection (fst (set_transformer_decoder variables spec)))
            = Some (squeeze e))
   \<and> (variables (scope @ ''/output_layer/kernel'') = Some k
      \<longrightarrow> LinearSpec.weight (projection (fst (set_transformer_decoder_v2 elem_eq variables scope
               target_embedding_name relative spec)))
            = Some (if (case EmbeddingsSpec.weight (TransformerDecoderSpec.embeddings spec) of
                          None \<Rightarrow> False
                        | Some e \<Rightarrow> array_equal elem_eq (squeeze k) e)
                    then squeeze k else transpose_nd (squeeze k)))
   \<and> (variables (scope @ ''/output_layer/kernel'') = None
      \<and> variables target_embedding_name = Some e
      \<longrightarrow> LinearSpec.weight (projection (fst (set_transformer_decoder_v2 elem_eq variables scope
               target_embedding_name relative spec)))
            = Some (squeeze e))"
proof (intro conjI impI)
  assume "variables ''transformer/decoder/dense/kernel'' = Some k
      \<and> (variables ''transformer/decoder/w_embs'' \<noteq> None
           \<or> variables ''transformer/shared_embeddings/w_embs'' \<noteq> None)"
  then show "LinearSpec.weight (projection (fst (set_transformer_decoder variables spec)))
            = Some (transpose_nd (squeeze k))"
    by (auto simp: decoder_v1_projection try_except_KeyError_def set_linear_kernel
          split: option.splits)
next
  assume "variables ''transformer/decoder/dense/kernel'' = None
      \<and> variables ''transformer/decoder/w_embs'' = Some e"
  then show "LinearSpec.weight (projection (fst (set_transformer_decoder variables spec)))
            = Some (squeeze e)"
    by (simp add: decoder_v1_projection try_except_KeyError_def set_linear_kernel
          set_linear_named split: option.splits)
next
  assume "variables ''transformer/decoder/dense/kernel'' = None
      \<and> variables ''transformer/decoder/w_embs'' = None
      \<and> variables ''transformer/shared_embeddings/w_embs'' = Some e"
  then show "LinearSpec.weight (projection (fst (set_transformer_decoder variables spec)))
            = Some (squeeze e)"
    by (simp add: decoder_v1_projection try_except_KeyError_def set_linear_kernel
          set_linear_named split: option.splits)
next
  assume "variables (scope @ ''/output_layer/kernel'') = Some k"
  then show "LinearSpec.weight (projection (fst (set_transformer_decoder_v2 elem_eq variables scope
               target_embedding_name relative spec)))
            = Some (if (case EmbeddingsSpec.weight (TransformerDecoderSpec.embeddings spec) of
                          None \<Rightarrow> False
                        | Some e \<Rightarrow> array_equal elem_eq (squeeze k) e)
                    then squeeze k else transpose_nd (squeeze k))"
    unfolding set_transformer_decoder_v2_def decoder_tail_frame
    by (simp add: try_except_KeyError_def within_def set_linear_kernel split: option.splits)
next
  assume "variables (scope @ ''/output_layer/kernel'') = None
      \<and> variables target_embedding_name = Some e"
  then show "LinearSpec.weight (projection (fst (set_transformer_decoder_v2 elem_eq variables scope
               target_embedding_name relative spec)))
            = Some (squeeze e)"
    unfolding set_transformer_decoder_v2_def decoder_tail_frame
    by (simp add: try_except_KeyError_def within_def set_linear_kernel set_linear_named
          split: option.splits)
qed

theorem projection_from_kernel_else_embeddings_witness:
  "decoder_checkpoint_v1 ''transformer/decoder/dense/kernel'' = None
   \<and> decoder_checkpoint_v1 ''transformer/decoder/w_embs'' = Some table_a
   \<and> LinearSpec.weight (projection (fst (set_transformer_decoder decoder_checkpoint_v1
        (TransformerDecoderSpec_new 1)))) = Some (squeeze table_a)
   \<and> LinearSpec.weight (projection (fst (set_transformer_decoder
        [''transformer/decoder/dense/kernel'' \<mapsto> table_b,
         ''transformer/decoder/w_embs'' \<mapsto> table_a] (TransformerDecoderSpec_new 1))))
        = Some \<lparr>shape = [2, 2], data = [1, 3, 2, 5]\<rparr>
   \<and> LinearSpec.weight (projection (fst (set_transformer_decoder
        [''transformer/shared_embeddings/w_embs'' \<mapsto> table_a] (TransformerDecoderSpec_new 1))))
        = Some (squeeze table_a)
   \<and> LinearSpec.weight (projection (fst (set_transformer_decoder_v2 (=)
        [''model/decoder/output_layer/kernel'' \<mapsto> table_b] ''model/decoder''
        ''model/examples_inputter/labels_inputter/embedding'' False
        (TransformerDecoderSpec_new 1))))
        = Some \<lparr>shape = [2, 2], data = [1, 3, 2, 5]\<rparr>
   \<and> LinearSpec.weight (projection (fst (set_transformer_decoder_v2 (=)
        [''model/examples_inputter/labels_inputter/embedding'' \<mapsto> table_a] ''model/decoder''
        ''model/examples_inputter/labels_inputter/embedding'' False
        (TransformerDecoderSpec_new 1))))
        = Some (squeeze table_a)"
  using projection_from_kernel_else_embeddings
          [where elem_eq = "(=)" and variables = decoder_checkpoint_v1 and e = table_a and k = table_b
             and spec = "TransformerDecoderSpec_new 1" and scope = "''model/decoder''"
             and target_embedding_name = "''model/examples_inputter/labels_inputter/embedding''"
             and relative = False]
        projection_from_kernel_else_embeddings
          [where elem_eq = "(=)" and variables = "[''transformer/decoder/dense/kernel'' \<mapsto> table_b,
                               ''transformer/decoder/w_embs'' \<mapsto> table_a]"
             and e = table_a and k = table_b
             and spec = "TransformerDecoderSpec_new 1" and scope = "''model/decoder''"
             and target_embedding_name = "''model/examples_inputter/labels_inputter/embedding''"
             and relative = False]
        projection_from_kernel_else_embeddings
          [where elem_eq = "(=)" and variables = "[''transformer/shared_embeddings/w_embs'' \<mapsto> table_a]"
             and e = table_a and k = table_b
             and spec = "TransformerDecoderSpec_new 1" and scope = "''model/decoder''"
             and target_embedding_name = "''model/examples_inputter/labels_inputter/embedding''"
             and relative = False]
        projection_from_kernel_else_embeddings
          [where elem_eq = "(=)" and variables = "[''model/decoder/output_layer/kernel'' \<mapsto> table_b]"
             and e = table_a and k = table_b
             and spec = "TransformerDecoderSpec_new 1" and scope = "''model/decoder''"
             and target_embedding_name = "''model/examples_inputter/labels_inputter/embedding''"
             and relative = False]
        projection_from_kernel_else_embeddings
          [where elem_eq = "(=)" and variables = "[''model/examples_inputter/labels_inputter/embedding'' \<mapsto> table_a]"
             and e = table_a and k = table_b
             and spec = "TransformerDecoderSpec_new 1" and scope = "''model/decoder''"
             and target_embedding_name = "''model/examples_inputter/labels_inputter/embedding''"
             and relative = False]
        decoder_checkpoint_v1_names transpose_table_b
  by (simp add: TransformerDecoderSpec_new_def EmbeddingsSpec_new_def)


text \<open>
  C2, as stated, fails: the decoder checkpoint of generation 1 above has no dense kernel and
  has decoder embeddings; the conversion of the decoder succeeds, and the projection weight
  is the embedding table itself, which is not its transpose.
\<close>

theorem tied_projection_is_not_transposed:
  "decoder_checkpoint_v1 ''transformer/decoder/dense/kernel'' = None
   \<and> decoder_checkpoint_v1 ''transformer/decoder/w_embs'' = Some table_a
   \<and> snd (set_transformer_decoder decoder_checkpoint_v1 (TransformerDecoderSpec_new 1)) = Inr ()
   \<and> EmbeddingsSpec.weight (TransformerDecoderSpec.embeddings (fst (set_transformer_decoder
        decoder_checkpoint_v1 (TransformerDecoderSpec_new 1)))) = Some table_a
   \<and> LinearSpec.weight (projection (fst (set_transformer_decoder decoder_checkpoint_v1
        (TransformerDecoderSpec_new 1)))) = Some table_a
   \<and> LinearSpec.weight (projection (fst (set_transformer_decoder decoder_checkpoint_v1
        (TransformerDecoderSpec_new 1)))) \<noteq> Some (transpose_nd table_a)"
  using decoder_checkpoint_v1_names decoder_checkpoint_v1_converts
    decoder_checkpoint_v1_projection decoder_checkpoint_v1_embeddings transpose_table_a
  by (simp add: table_a_def)

lemma encoder_embeddings_v1:
  "discard (try_except_KeyError
     (within TransformerEncoderSpec.embeddings TransformerEncoderSpec.embeddings_update
        (set_embeddings variables ''transformer/encoder'' 1))
     (within TransformerEncoderSpec.embeddings TransformerEncoderSpec.embeddings_update
        (set_embeddings variables ''transformer/shared_embeddings'' 1))) spec =
   (case variables ''transformer/encoder/w_embs'' of
      Some w \<Rightarrow>
        (spec\<lparr>TransformerEncoderSpec.embeddings := (TransformerEncoderSpec.embeddings spec)
                 \<lparr>EmbeddingsSpec.weight := Some w, multiply_by_sqrt_depth := Some True\<rparr>\<rparr>,
         Inr ())
    | None \<Rightarrow>
        (case variables ''transformer/shared_embeddings/w_embs'' of
           Some w \<Rightarrow>
             (spec\<lparr>TransformerEncoderSpec.embeddings := (TransformerEncoderSpec.embeddings spec)
                      \<lparr>EmbeddingsSpec.weight := Some w, multiply_by_sqrt_depth := Some True\<rparr>\<rparr>,
              Inr ())
         | None \<Rightarrow> (spec, Inl (KeyError ''transformer/shared_embeddings/w_embs''))))"
  by (simp add: discard_def try_except_KeyError_def within_def set_embeddings_v1
        split: option.splits)

lemma encoder_v1_after_layer_norm:
  assumes "variables ''transformer/encoder/LayerNorm/gamma'' = Some g"
      and "variables ''transformer/encoder/LayerNorm/beta'' = Some b"
  shows "set_transformer_encoder variables spec =
     (case variables ''transformer/encoder/w_embs'' of
        None \<Rightarrow>
          (case variables ''transformer/shared_embeddings/w_embs'' of
             None \<Rightarrow> (spec\<lparr>TransformerEncoderSpec.layer_norm :=
                            (TransformerEncoderSpec.layer_norm spec)\<lparr>gamma := Some g, beta := Some b\<rparr>\<rparr>,
                       Inl (KeyError ''transformer/shared_embeddings/w_embs''))
           | Some w \<Rightarrow>
               within TransformerEncoderSpec.layer TransformerEncoderSpec.layer_update
                 (for_enumerate
                    (\<lambda>i. set_transformer_encoder_layer variables
                           (''transformer/encoder/layer_'' @ string_of_nat i)) 0)
                 (spec\<lparr>TransformerEncoderSpec.layer_norm :=
                            (TransformerEncoderSpec.layer_norm spec)\<lparr>gamma := Some g, beta := Some b\<rparr>,
                       TransformerEncoderSpec.embeddings := (TransformerEncoderSpec.embeddings spec)
                         \<lparr>EmbeddingsSpec.weight := Some w, multiply_by_sqrt_depth := Some True\<rparr>\<rparr>))
      | Some w \<Rightarrow>
          within TransformerEncoderSpec.layer TransformerEncoderSpec.layer_update
            (for_enumerate
               (\<lambda>i. set_transformer_encoder_layer variables
                      (''transformer/encoder/layer_'' @ string_of_nat i)) 0)
            (spec\<lparr>TransformerEncoderSpec.layer_norm :=
                       (TransformerEncoderSpec.layer_norm spec)\<lparr>gamma := Some g, beta := Some b\<rparr>,
                  TransformerEncoderSpec.embeddings := (TransformerEncoderSpec.embeddings spec)
                    \<lparr>EmbeddingsSpec.weight := Some w, multiply_by_sqrt_depth := Some True\<rparr>\<rparr>))"
proof -
  have ln: "set_layer_norm variables ''transformer/encoder/LayerNorm'' s
              = (s\<lparr>gamma := Some g, beta := Some b\<rparr>, Inr ())" for s
    using assms by (simp add: set_layer_norm_def)
  show ?thesis
    unfolding set_transformer_encoder_def seq.simps encoder_embeddings_v1
    by (auto simp: within_def ln split: option.splits prod.splits sum.splits)
qed

text \<open>
  C6. In generation 1 the embeddings of the encoder and of the decoder are those of the
  scope of their side when the store has them, whatever the shared scope holds; when it
  does not, they are those of the shared scope; and when the store has neither, the
  setter raises a \<^verbatim>\<open>KeyError\<close> for the shared name. (The encoder sets its layer norm
  first.)
\<close>

theorem embeddings_per_side_then_shared:
  "(variables ''transformer/encoder/LayerNorm/gamma'' \<noteq> None
      \<and> variables ''transformer/encoder/LayerNorm/beta'' \<noteq> None
    \<longrightarrow>
      (variables ''transformer/encoder/w_embs'' = Some w
         \<longrightarrow> EmbeddingsSpec.weight (TransformerEncoderSpec.embeddings
               (fst (set_transformer_encoder variables enc))) = Some w)
    \<and> (variables ''transformer/encoder/w_embs'' = None
         \<and> variables ''transformer/shared_embeddings/w_embs'' = Some w
         \<longrightarrow> EmbeddingsSpec.weight (TransformerEncoderSpec.embeddings
               (fst (set_transformer_encoder variables enc))) = Some w)
    \<and> (variables ''transformer/encoder/w_embs'' = None
         \<and> variables ''transformer/shared_embeddings/w_embs'' = None
         \<longrightarrow> snd (set_transformer_encoder variables enc)
               = Inl (KeyError ''transformer/shared_embeddings/w_embs'')))
   \<and> (variables ''transformer/decoder/w_embs'' = Some w
         \<longrightarrow> EmbeddingsSpec.weight (TransformerDecoderSpec.embeddings
               (fst (set_transformer_decoder variables dec))) = Some w)
   \<and> (variables ''transformer/decoder/w_embs'' = None
         \<and> variables ''transformer/shared_embeddings/w_embs'' = Some w
         \<longrightarrow> EmbeddingsSpec.weight (TransformerDecoderSpec.embeddings
               (fst (set_transformer_decoder variables dec))) = Some w)
   \<and> (variables ''transformer/decoder/w_embs'' = None
         \<and> variables ''transformer/shared_embeddings/w_embs'' = None
         \<longrightarrow> set_transformer_decoder variables dec
               = (dec, Inl (KeyError ''transformer/shared_embeddings/w_embs'')))"
proof -
  have dec_frame: "TransformerDecoderSpec.embeddings (fst (seq
     [a,
      within TransformerDecoderSpec.layer_norm TransformerDecoderSpec.layer_norm_update f,
      within TransformerDecoderSpec.layer TransformerDecoderSpec.layer_update g] s))
     = TransformerDecoderSpec.embeddings (fst (a s))" for a f g s
    by (rule seq_Cons_frame, rule seq_frame) (auto simp: within_frame)
  have dec_try: "TransformerDecoderSpec.embeddings (fst (try_except_KeyError
      (within projection projection_update body)
      (within projection projection_update handler) s))
     = TransformerDecoderSpec.embeddings s" for body handler s
    by (simp add: try_except_KeyError_def within_def
          split: prod.splits sum.splits error.splits)
  have enc: "variables ''transformer/encoder/LayerNorm/gamma'' \<noteq> None
      \<and> variables ''transformer/encoder/LayerNorm/beta'' \<noteq> None
    \<longrightarrow>
      (variables ''transformer/encoder/w_embs'' = Some w
         \<longrightarrow> EmbeddingsSpec.weight (TransformerEncoderSpec.embeddings
               (fst (set_transformer_encoder variables enc))) = Some w)
    \<and> (variables ''transformer/encoder/w_embs'' = None
         \<and> variables ''transformer/shared_embeddings/w_embs'' = Some w
         \<longrightarrow> EmbeddingsSpec.weight (TransformerEncoderSpec.embeddings
               (fst (set_transformer_encoder variables enc))) = Some w)
    \<and> (variables ''transformer/encoder/w_embs'' = None
         \<and> variables ''transformer/shared_embeddings/w_embs'' = None
         \<longrightarrow> snd (set_transformer_encoder variables enc)
               = Inl (KeyError ''transformer/shared_embeddings/w_embs''))"
    by (auto simp: encoder_v1_after_layer_norm within_frame)
  have dec1: "variables ''transformer/decoder/w_embs'' = Some w
         \<longrightarrow> EmbeddingsSpec.weight (TransformerDecoderSpec.embeddings
               (fst (set_transformer_decoder variables dec))) = Some w"
    unfolding set_transformer_decoder_def bind_stmt_def decoder_embeddings_v1
    by (simp add: dec_frame dec_try del: seq.simps)
  have dec2: "variables ''transformer/decoder/w_embs'' = None
         \<and> variables ''transformer/shared_embeddings/w_embs'' = Some w
         \<longrightarrow> EmbeddingsSpec.weight (TransformerDecoderSpec.embeddings
               (fst (set_transformer_decoder variables dec))) = Some w"
    unfolding set_transformer_decoder_def bind_stmt_def decoder_embeddings_v1
    by (simp add: dec_frame dec_try del: seq.simps)
  have dec3: "variables ''transformer/decoder/w_embs'' = None
         \<and> variables ''transformer/shared_embeddings/w_embs'' = None
         \<longrightarrow> set_transformer_decoder variables dec
               = (dec, Inl (KeyError ''transformer/shared_embeddings/w_embs''))"
    unfolding set_transformer_decoder_def bind_stmt_def decoder_embeddings_v1
    by (simp del: seq.simps)
  from enc dec1 dec2 dec3 show ?thesis by blast
qed

lemma shared_checkpoint_v1_converts:
  "snd (set_transformer_spec shared_checkpoint_v1 (TransformerSpec_new 1 False)) = Inr ()"
  by code_simp

lemma shared_checkpoint_v1_names:
  "shared_checkpoint_v1 ''transformer/encoder/w_embs'' = None"
  "shared_checkpoint_v1 ''transformer/decoder/w_embs'' = None"
  "shared_checkpoint_v1 ''transformer/shared_embeddings/w_embs'' = Some table_a"
  "shared_checkpoint_v1 ''transformer/encoder/LayerNorm/gamma'' = Some vector_1"
  "shared_checkpoint_v1 ''transformer/encoder/LayerNorm/beta'' = Some vector_1"
  by code_simp+

theorem embeddings_per_side_then_shared_witness:
  "shared_checkpoint_v1 ''transformer/encoder/w_embs'' = None
   \<and> shared_checkpoint_v1 ''transformer/decoder/w_embs'' = None
   \<and> shared_checkpoint_v1 ''transformer/shared_embeddings/w_embs'' = Some table_a
   \<and> snd (set_transformer_spec shared_checkpoint_v1 (TransformerSpec_new 1 False)) = Inr ()
   \<and> EmbeddingsSpec.weight (TransformerEncoderSpec.embeddings
        (fst (set_transformer_encoder shared_checkpoint_v1 (TransformerEncoderSpec_new 1))))
       = Some table_a
   \<and> EmbeddingsSpec.weight (TransformerDecoderSpec.embeddings
        (fst (set_transformer_decoder shared_checkpoint_v1 (TransformerDecoderSpec_new 1))))
       = Some table_a"
  using embeddings_per_side_then_shared
          [where variables = shared_checkpoint_v1 and w = table_a
             and enc = "TransformerEncoderSpec_new 1" and dec = "TransformerDecoderSpec_new 1"]
        shared_checkpoint_v1_names shared_checkpoint_v1_converts
  by simp


subsection \<open>Attention blocks\<close>

lemma length_two: "length xs = 2 \<Longrightarrow> \<exists>a b. xs = [a, b]"
  by (cases xs; cases "tl xs"; cases "tl (tl xs)") auto

lemma length_three: "length xs = 3 \<Longrightarrow> \<exists>a b c. xs = [a, b, c]"
  by (cases xs; cases "tl xs"; cases "tl (tl xs)"; cases "tl (tl (tl xs))") auto

lemma set_layer_norm_found:
  assumes "variables (scope @ ''/gamma'') \<noteq> None" "variables (scope @ ''/beta'') \<noteq> None"
  shows "set_layer_norm variables scope spec =
           (spec\<lparr>gamma := variables (scope @ ''/gamma''), beta := variables (scope @ ''/beta'')\<rparr>,
            Inr ())"
  using assms by (auto simp: set_layer_norm_def)

lemma self_attention_v2_layout:
  assumes len: "length (linear spec) = 2"
    and ln: "variables (scope @ ''/input_layer_norm/gamma'') \<noteq> None"
            "variables (scope @ ''/input_layer_norm/beta'') \<noteq> None"
    and q: "variables (scope @ ''/layer/linear_queries/kernel'') = Some q"
    and k: "variables (scope @ ''/layer/linear_keys/kernel'') = Some k"
    and v: "variables (scope @ ''/layer/linear_values/kernel'') = Some v"
    and out: "variables (scope @ ''/layer/linear_output/kernel'') = Some out"
    and rel: "relative \<longrightarrow> variables (scope @ ''/layer/relative_position_keys'') \<noteq> None
                \<and> variables (scope @ ''/layer/relative_position_values'') \<noteq> None"
  shows "snd (set_multi_head_attention_v2 variables scope True relative spec) = Inr ()
       \<and> map LinearSpec.weight
            (linear (fst (set_multi_head_attention_v2 variables scope True relative spec)))
          = [Some (concatenate [transpose_nd (squeeze q), transpose_nd (squeeze k),
                                transpose_nd (squeeze v)]),
             Some (transpose_nd (squeeze out))]"
proof -
  from len obtain a b where ab: "linear spec = [a, b]"
    using length_two by blast
  have ln': "set_layer_norm variables ((scope @ ''/input_layer_norm'')) s =
           (s\<lparr>gamma := variables (scope @ ''/input_layer_norm/gamma''),
              beta := variables (scope @ ''/input_layer_norm/beta'')\<rparr>, Inr ())" for s
    using set_layer_norm_found [of variables "scope @ ''/input_layer_norm''" s] ln by simp
  show ?thesis
    unfolding set_multi_head_attention_v2_def
    using q k v out rel
    by (auto simp: ln' within_def item_def set_linear_kernel fuse_linear_def LinearSpec_new_def ab
          split: option.splits)
qed


lemma cross_attention_v2_layout:
  assumes len: "length (linear spec) = 3"
    and ln: "variables (scope @ ''/input_layer_norm/gamma'') \<noteq> None"
            "variables (scope @ ''/input_layer_norm/beta'') \<noteq> None"
    and q: "variables (scope @ ''/layer/linear_queries/kernel'') = Some q"
    and k: "variables (scope @ ''/layer/linear_keys/kernel'') = Some k"
    and v: "variables (scope @ ''/layer/linear_values/kernel'') = Some v"
    and out: "variables (scope @ ''/layer/linear_output/kernel'') = Some out"
  shows "snd (set_multi_head_attention_v2 variables scope False relative spec) = Inr ()
       \<and> map LinearSpec.weight
            (linear (fst (set_multi_head_attention_v2 variables scope False relative spec)))
          = [Some (transpose_nd (squeeze q)),
             Some (concatenate [transpose_nd (squeeze k), transpose_nd (squeeze v)]),
             Some (transpose_nd (squeeze out))]"
proof -
  from len obtain a b c where abc: "linear spec = [a, b, c]"
    using length_three by blast
  have ln': "set_layer_norm variables ((scope @ ''/input_layer_norm'')) s =
           (s\<lparr>gamma := variables (scope @ ''/input_layer_norm/gamma''),
              beta := variables (scope @ ''/input_layer_norm/beta'')\<rparr>, Inr ())" for s
    using set_layer_norm_found [of variables "scope @ ''/input_layer_norm''" s] ln by simp
  show ?thesis
    unfolding set_multi_head_attention_v2_def
    using q k v out
    by (auto simp: ln' within_def item_def set_linear_kernel fuse_linear_def LinearSpec_new_def abc
          split: option.splits)
qed

lemma self_attention_v1_layout:
  assumes len: "length (linear spec) = 2"
    and ln: "variables (scope @ ''/LayerNorm/gamma'') \<noteq> None"
            "variables (scope @ ''/LayerNorm/beta'') \<noteq> None"
    and c0: "variables (scope @ ''/conv1d/kernel'') = Some c0"
    and c1: "variables (scope @ ''/conv1d_1/kernel'') = Some c1"
  shows "snd (set_multi_head_attention variables scope True spec) = Inr ()
       \<and> map LinearSpec.weight
            (linear (fst (set_multi_head_attention variables scope True spec)))
          = [Some (transpose_nd (squeeze c0)), Some (transpose_nd (squeeze c1))]"
proof -
  from len obtain a b where ab: "linear spec = [a, b]"
    using length_two by blast
  have ln': "set_layer_norm variables ((scope @ ''/LayerNorm'')) s =
           (s\<lparr>gamma := variables (scope @ ''/LayerNorm/gamma''),
              beta := variables (scope @ ''/LayerNorm/beta'')\<rparr>, Inr ())" for s
    using set_layer_norm_found [of variables "scope @ ''/LayerNorm''" s] ln by simp
  show ?thesis
    unfolding set_multi_head_attention_def
    using c0 c1
    by (auto simp: ln' within_def item_def set_linear_kernel ab split: option.splits)
qed

lemma cross_attention_v1_layout:
  assumes len: "length (linear spec) = 3"
    and ln: "variables (scope @ ''/LayerNorm/gamma'') \<noteq> None"
            "variables (scope @ ''/LayerNorm/beta'') \<noteq> None"
    and c0: "variables (scope @ ''/conv1d/kernel'') = Some c0"
    and c1: "variables (scope @ ''/conv1d_1/kernel'') = Some c1"
    and c2: "variables (scope @ ''/conv1d_2/kernel'') = Some c2"
  shows "snd (set_multi_head_attention variables scope False spec) = Inr ()
       \<and> map LinearSpec.weight
            (linear (fst (set_multi_head_attention variables scope False spec)))
          = [Some (transpose_nd (squeeze c0)), Some (transpose_nd (squeeze c1)),
             Some (transpose_nd (squeeze c2))]"
proof -
  from len obtain a b c where abc: "linear spec = [a, b, c]"
    using length_three by blast
  have ln': "set_layer_norm variables ((scope @ ''/LayerNorm'')) s =
           (s\<lparr>gamma := variables (scope @ ''/LayerNorm/gamma''),
              beta := variables (scope @ ''/LayerNorm/beta'')\<rparr>, Inr ())" for s
    using set_layer_norm_found [of variables "scope @ ''/LayerNorm''" s] ln by simp
  show ?thesis
    unfolding set_multi_head_attention_def
    using c0 c1 c2
    by (auto simp: ln' within_def item_def set_linear_kernel abc split: option.splits)
qed

lemma concatenate_data:
  "data (concatenate [a, b, c]) = data a @ data b @ data c"
  "data (concatenate [a, b]) = data a @ data b"
  by (simp_all add: concatenate_def)

lemma attention_checkpoint_v2_self:
  "length (linear (MultiHeadAttentionSpec_new True :: int MultiHeadAttentionSpec)) = 2
   \<and> attention_checkpoint_v2 (''model/decoder/layers/0/self_attention'' @ ''/input_layer_norm/gamma'') \<noteq> None
   \<and> attention_checkpoint_v2 (''model/decoder/layers/0/self_attention'' @ ''/input_layer_norm/beta'') \<noteq> None
   \<and> attention_checkpoint_v2 (''model/decoder/layers/0/self_attention'' @ ''/layer/linear_queries/kernel'') = Some table_a
   \<and> attention_checkpoint_v2 (''model/decoder/layers/0/self_attention'' @ ''/layer/linear_keys/kernel'') = Some table_b
   \<and> attention_checkpoint_v2 (''model/decoder/layers/0/self_attention'' @ ''/layer/linear_values/kernel'') = Some table_c
   \<and> attention_checkpoint_v2 (''model/decoder/layers/0/self_attention'' @ ''/layer/linear_output/kernel'') = Some table_a"
  by code_simp

lemma attention_checkpoint_v2_cross:
  "length (linear (MultiHeadAttentionSpec_new False :: int MultiHeadAttentionSpec)) = 3
   \<and> attention_checkpoint_v2 (''model/decoder/layers/0/attention/0'' @ ''/input_layer_norm/gamma'') \<noteq> None
   \<and> attention_checkpoint_v2 (''model/decoder/layers/0/attention/0'' @ ''/input_layer_norm/beta'') \<noteq> None
   \<and> attention_checkpoint_v2 (''model/decoder/layers/0/attention/0'' @ ''/layer/linear_queries/kernel'') = Some table_a
   \<and> attention_checkpoint_v2 (''model/decoder/layers/0/attention/0'' @ ''/layer/linear_keys/kernel'') = Some table_b
   \<and> attention_checkpoint_v2 (''model/decoder/layers/0/attention/0'' @ ''/layer/linear_values/kernel'') = Some table_c
   \<and> attention_checkpoint_v2 (''model/decoder/layers/0/attention/0'' @ ''/layer/linear_output/kernel'') = Some table_a"
  by code_simp

lemma shared_checkpoint_v1_self:
  "length (linear (MultiHeadAttentionSpec_new True :: int MultiHeadAttentionSpec)) = 2
   \<and> shared_checkpoint_v1 (''transformer/encoder/layer_0/multi_head'' @ ''/LayerNorm/gamma'') \<noteq> None
   \<and> shared_checkpoint_v1 (''transformer/encoder/layer_0/multi_head'' @ ''/LayerNorm/beta'') \<noteq> None
   \<and> shared_checkpoint_v1 (''transformer/encoder/layer_0/multi_head'' @ ''/conv1d/kernel'') = Some table_b
   \<and> shared_checkpoint_v1 (''transformer/encoder/layer_0/multi_head'' @ ''/conv1d_1/kernel'') = Some table_b"
  by code_simp

lemma shared_checkpoint_v1_cross:
  "length (linear (MultiHeadAttentionSpec_new False :: int MultiHeadAttentionSpec)) = 3
   \<and> shared_checkpoint_v1 (''transformer/decoder/layer_0/multi_head'' @ ''/LayerNorm/gamma'') \<noteq> None
   \<and> shared_checkpoint_v1 (''transformer/decoder/layer_0/multi_head'' @ ''/LayerNorm/beta'') \<noteq> None
   \<and> shared_checkpoint_v1 (''transformer/decoder/layer_0/multi_head'' @ ''/conv1d/kernel'') = Some table_b
   \<and> shared_checkpoint_v1 (''transformer/decoder/layer_0/multi_head'' @ ''/conv1d_1/kernel'') = Some table_b
   \<and> shared_checkpoint_v1 (''transformer/decoder/layer_0/multi_head'' @ ''/conv1d_2/kernel'') = Some table_b"
  by code_simp

lemma fused_tables:
  "concatenate [transpose_nd (squeeze table_a), transpose_nd (squeeze table_b),
                transpose_nd (squeeze table_c)]
     = \<lparr>shape = [6, 2], data = [1, 3, 2, 4, 1, 3, 2, 5, 5, 7, 6, 8]\<rparr>"
  "concatenate [transpose_nd (squeeze table_b), transpose_nd (squeeze table_c)]
     = \<lparr>shape = [4, 2], data = [1, 3, 2, 5, 5, 7, 6, 8]\<rparr>"
  "transpose_nd (squeeze table_a) = \<lparr>shape = [2, 2], data = [1, 3, 2, 4]\<rparr>"
  by code_simp+

text \<open>
  C4. A self-attention block with two linear entries: in generation 2, entry 0 is the
  fusion of the query, key and value projections, in this order, and the last entry is the
  output projection; a cross-attention block with three linear entries: entry 0 is the
  query projection, entry 1 the fusion of the key and value projections, key first, and
  the last entry the output projection. The fused weight holds the rows of its parts one
  after the other. In generation 1 nothing is fused by the setter: the entries are the
  tensors \<^verbatim>\<open>conv1d\<close>, \<^verbatim>\<open>conv1d_1\<close> (and \<^verbatim>\<open>conv1d_2\<close> for cross-attention) of
  the checkpoint, in this order. Every projection is squeezed and transposed.
\<close>

theorem attention_linear_layout:
  "(length (linear spec) = 2
      \<and> variables (scope @ ''/input_layer_norm/gamma'') \<noteq> None
      \<and> variables (scope @ ''/input_layer_norm/beta'') \<noteq> None
      \<and> variables (scope @ ''/layer/linear_queries/kernel'') = Some q
      \<and> variables (scope @ ''/layer/linear_keys/kernel'') = Some k
      \<and> variables (scope @ ''/layer/linear_values/kernel'') = Some v
      \<and> variables (scope @ ''/layer/linear_output/kernel'') = Some out
      \<and> (relative \<longrightarrow> variables (scope @ ''/layer/relative_position_keys'') \<noteq> None
                      \<and> variables (scope @ ''/layer/relative_position_values'') \<noteq> None)
    \<longrightarrow> snd (set_multi_head_attention_v2 variables scope True relative spec) = Inr ()
       \<and> map LinearSpec.weight
            (linear (fst (set_multi_head_attention_v2 variables scope True relative spec)))
          = [Some (concatenate [transpose_nd (squeeze q), transpose_nd (squeeze k),
                                transpose_nd (squeeze v)]),
             Some (transpose_nd (squeeze out))])
   \<and> (length (linear spec) = 3
      \<and> variables (scope @ ''/input_layer_norm/gamma'') \<noteq> None
      \<and> variables (scope @ ''/input_layer_norm/beta'') \<noteq> None
      \<and> variables (scope @ ''/layer/linear_queries/kernel'') = Some q
      \<and> variables (scope @ ''/layer/linear_keys/kernel'') = Some k
      \<and> variables (scope @ ''/layer/linear_values/kernel'') = Some v
      \<and> variables (scope @ ''/layer/linear_output/kernel'') = Some out
    \<longrightarrow> snd (set_multi_head_attention_v2 variables scope False relative spec) = Inr ()
       \<and> map LinearSpec.weight
            (linear (fst (set_multi_head_attention_v2 variables scope False relative spec)))
          = [Some (transpose_nd (squeeze q)),
             Some (concatenate [transpose_nd (squeeze k), transpose_nd (squeeze v)]),
             Some (transpose_nd (squeeze out))])
   \<and> data (concatenate [a, b, c]) = data a @ data b @ data c
   \<and> data (concatenate [a, b]) = data a @ data b
   \<and> (length (linear spec) = 2
      \<and> variables (scope @ ''/LayerNorm/gamma'') \<noteq> None
      \<and> variables (scope @ ''/LayerNorm/beta'') \<noteq> None
      \<and> variables (scope @ ''/conv1d/kernel'') = Some c0
      \<and> variables (scope @ ''/conv1d_1/kernel'') = Some c1
    \<longrightarrow> snd (set_multi_head_attention variables scope True spec) = Inr ()
       \<and> map LinearSpec.weight
            (linear (fst (set_multi_head_attention variables scope True spec)))
          = [Some (transpose_nd (squeeze c0)), Some (transpose_nd (squeeze c1))])
   \<and> (length (linear spec) = 3
      \<and> variables (scope @ ''/LayerNorm/gamma'') \<noteq> None
      \<and> variables (scope @ ''/LayerNorm/beta'') \<noteq> None
      \<and> variables (scope @ ''/conv1d/kernel'') = Some c0
      \<and> variables (scope @ ''/conv1d_1/kernel'') = Some c1
      \<and> variables (scope @ ''/conv1d_2/kernel'') = Some c2
    \<longrightarrow> snd (set_multi_head_attention variables scope False spec) = Inr ()
       \<and> map LinearSpec.weight
            (linear (fst (set_multi_head_attention variables scope False spec)))
          = [Some (transpose_nd (squeeze c0)), Some (transpose_nd (squeeze c1)),
             Some (transpose_nd (squeeze c2))])"
  using self_attention_v2_layout [of spec variables scope q k v out relative]
        cross_attention_v2_layout [of spec variables scope q k v out relative]
        self_attention_v1_layout [of spec variables scope c0 c1]
        cross_attention_v1_layout [of spec variables scope c0 c1 c2]
        concatenate_data(1) [of a b c] concatenate_data(2) [of a b]
  by blast


theorem attention_linear_layout_witness:
  "map LinearSpec.weight (linear (fst (set_multi_head_attention_v2 attention_checkpoint_v2
       ''model/decoder/layers/0/self_attention'' True False (MultiHeadAttentionSpec_new True))))
     = [Some \<lparr>shape = [6, 2], data = [1, 3, 2, 4, 1, 3, 2, 5, 5, 7, 6, 8]\<rparr>,
        Some \<lparr>shape = [2, 2], data = [1, 3, 2, 4]\<rparr>]
   \<and> map LinearSpec.weight (linear (fst (set_multi_head_attention_v2 attention_checkpoint_v2
       ''model/decoder/layers/0/attention/0'' False False (MultiHeadAttentionSpec_new False))))
     = [Some \<lparr>shape = [2, 2], data = [1, 3, 2, 4]\<rparr>,
        Some \<lparr>shape = [4, 2], data = [1, 3, 2, 5, 5, 7, 6, 8]\<rparr>,
        Some \<lparr>shape = [2, 2], data = [1, 3, 2, 4]\<rparr>]
   \<and> map LinearSpec.weight (linear (fst (set_multi_head_attention shared_checkpoint_v1
       ''transformer/encoder/layer_0/multi_head'' True (MultiHeadAttentionSpec_new True))))
     = [Some \<lparr>shape = [2, 2], data = [1, 3, 2, 5]\<rparr>, Some \<lparr>shape = [2, 2], data = [1, 3, 2, 5]\<rparr>]
   \<and> map LinearSpec.weight (linear (fst (set_multi_head_attention shared_checkpoint_v1
       ''transformer/decoder/layer_0/multi_head'' False (MultiHeadAttentionSpec_new False))))
     = [Some \<lparr>shape = [2, 2], data = [1, 3, 2, 5]\<rparr>, Some \<lparr>shape = [2, 2], data = [1, 3, 2, 5]\<rparr>,
        Some \<lparr>shape = [2, 2], data = [1, 3, 2, 5]\<rparr>]"
  using attention_linear_layout
          [where variables = attention_checkpoint_v2
             and scope = "''model/decoder/layers/0/self_attention''"
             and spec = "MultiHeadAttentionSpec_new True" and relative = False
             and q = table_a and k = table_b and v = table_c and out = table_a
             and a = table_a and b = table_b and c = table_c
             and ?c0.0 = table_b and ?c1.0 = table_b and ?c2.0 = table_b]
        attention_linear_layout
          [where variables = attention_checkpoint_v2
             and scope = "''model/decoder/layers/0/attention/0''"
             and spec = "MultiHeadAttentionSpec_new False" and relative = False
             and q = table_a and k = table_b and v = table_c and out = table_a
             and a = table_a and b = table_b and c = table_c
             and ?c0.0 = table_b and ?c1.0 = table_b and ?c2.0 = table_b]
        attention_linear_layout
          [where variables = shared_checkpoint_v1
             and scope = "''transformer/encoder/layer_0/multi_head''"
             and spec = "MultiHeadAttentionSpec_new True" and relative = False
             and q = table_a and k = table_b and v = table_c and out = table_a
             and a = table_a and b = table_b and c = table_c
             and ?c0.0 = table_b and ?c1.0 = table_b and ?c2.0 = table_b]
        attention_linear_layout
          [where variables = shared_checkpoint_v1
             and scope = "''transformer/decoder/layer_0/multi_head''"
             and spec = "MultiHeadAttentionSpec_new False" and relative = False
             and q = table_a and k = table_b and v = table_c and out = table_a
             and a = table_a and b = table_b and c = table_c
             and ?c0.0 = table_b and ?c1.0 = table_b and ?c2.0 = table_b]
        attention_checkpoint_v2_self attention_checkpoint_v2_cross
        shared_checkpoint_v1_self shared_checkpoint_v1_cross
        fused_tables transpose_table_b
  by simp


subsection \<open>The loop over the layers\<close>

lemma for_enumerate_length: "length (fst (for_enumerate f i xs)) = length xs"
proof (induction xs arbitrary: i)
  case Nil
  then show ?case by simp
next
  case (Cons x xs)
  show ?case
    using Cons [of "Suc i"] by (auto split: prod.splits sum.splits)
qed

lemma for_enumerate_error:
  assumes "j < length xs" and "\<And>x. \<exists>e. snd (f (i + j) x) = Inl e"
  shows "\<exists>e. snd (for_enumerate f i xs) = Inl e"
  using assms
proof (induction xs arbitrary: i j)
  case Nil
  then show ?case by simp
next
  case (Cons x xs)
  show ?case
  proof (cases "snd (f i x)")
    case (Inl e)
    then show ?thesis by (cases "f i x") auto
  next
    case (Inr u)
    then obtain x' where fx: "f i x = (x', Inr u)" by (cases "f i x") auto
    have "j \<noteq> 0"
      using Cons.prems(2) [of x] Inr by (cases j) auto
    then obtain j' where j: "j = Suc j'" by (cases j) auto
    have "\<exists>e. snd (for_enumerate f (Suc i) xs) = Inl e"
      using Cons.IH [of j' "Suc i"] Cons.prems j by simp
    then show ?thesis
      using fx by (auto split: prod.splits)
  qed
qed

lemma for_enumerate_nth:
  assumes "snd (for_enumerate f i xs) = Inr ()" and "j < length xs"
  shows "fst (for_enumerate f i xs) ! j = fst (f (i + j) (xs ! j))
       \<and> snd (f (i + j) (xs ! j)) = Inr ()"
  using assms
proof (induction xs arbitrary: i j)
  case Nil
  then show ?case by simp
next
  case (Cons x xs)
  from Cons.prems(1) obtain x' where fx: "f i x = (x', Inr ())"
    by (cases "f i x") (auto split: sum.splits prod.splits)
  with Cons.prems(1) have rest: "snd (for_enumerate f (Suc i) xs) = Inr ()"
    by (auto split: prod.splits)
  show ?case
  proof (cases j)
    case 0
    then show ?thesis using fx by (auto split: prod.splits)
  next
    case (Suc j')
    then show ?thesis
      using Cons.IH [OF rest, of j'] Cons.prems(2) fx by (auto split: prod.splits)
  qed
qed

text \<open>
  A sequence that ends in a statement \<open>b\<close>, where the statements before it keep \<open>g\<close>.
\<close>

lemma seq_snoc_error:
  assumes "\<And>f s. f \<in> set fs \<Longrightarrow> g (fst (f s)) = g s"
    and "\<And>s'. g s' = g s \<Longrightarrow> \<exists>e. snd (b s') = Inl e"
  shows "\<exists>e. snd (seq (fs @ [b]) s) = Inl e"
  using assms
proof (induction fs arbitrary: s)
  case Nil
  then show ?case
    using Nil(2) [of s] by (cases "b s") (auto split: sum.splits)
next
  case (Cons f fs)
  show ?case
  proof (cases "f s")
    case (Pair s1 r)
    show ?thesis
    proof (cases r)
      case (Inl e)
      then show ?thesis using Pair by simp
    next
      case (Inr u)
      have gs1: "g s1 = g s"
        using Cons.prems(1) [of f s] Pair by simp
      have "\<exists>e. snd (seq (fs @ [b]) s1) = Inl e"
        by (rule Cons.IH) (use Cons.prems gs1 in auto)
      then show ?thesis using Pair Inr by simp
    qed
  qed
qed

lemma seq_snoc_success:
  assumes "\<And>f s. f \<in> set fs \<Longrightarrow> g (fst (f s)) = g s"
    and "snd (seq (fs @ [b]) s) = Inr ()"
  shows "\<exists>s'. g s' = g s \<and> seq (fs @ [b]) s = b s'"
  using assms
proof (induction fs arbitrary: s)
  case Nil
  then show ?case
    by (cases "b s") (auto split: sum.splits)
next
  case (Cons f fs)
  show ?case
  proof (cases "f s")
    case (Pair s1 r)
    show ?thesis
    proof (cases r)
      case (Inl e)
      then show ?thesis using Pair Cons.prems(2) by simp
    next
      case (Inr u)
      have gs1: "g s1 = g s"
        using Cons.prems(1) [of f s] Pair by simp
      have "\<exists>s'. g s' = g s1 \<and> seq (fs @ [b]) s1 = b s'"
        by (rule Cons.IH) (use Cons.prems Pair Inr in auto)
      then show ?thesis using Pair Inr gs1 by auto
    qed
  qed
qed


lemma within_snd: "snd (within field upd h s) = snd (h (field s))"
  by (simp add: within_def split: prod.splits)

lemma within_field:
  assumes "\<And>c s. field (upd (\<lambda>_. c) s) = c"
  shows "field (fst (within field upd h s)) = fst (h (field s))"
  by (simp add: within_def assms split: prod.splits)

text \<open>A setter that ends in the loop over the layers.\<close>

lemma layers_length:
  assumes get_put: "\<And>c s. field (upd (\<lambda>_. c) s) = c"
    and frame: "\<And>f s. f \<in> set fs \<Longrightarrow> field (fst (f s)) = field s"
  shows "length (field (fst (seq (fs @ [within field upd (for_enumerate F 0)]) s)))
           = length (field s)"
proof (rule seq_frame [where g = "\<lambda>s. length (field s)"])
  fix f s
  assume "f \<in> set (fs @ [within field upd (for_enumerate F 0)])"
  then consider "f \<in> set fs" | "f = within field upd (for_enumerate F 0)" by auto
  then show "length (field (fst (f s))) = length (field s)"
  proof cases
    case 1
    then show ?thesis by (simp add: frame)
  next
    case 2
    then show ?thesis
      by (simp add: within_field [of field upd, OF get_put] for_enumerate_length)
  qed
qed

lemma layers_error:
  assumes frame: "\<And>f s. f \<in> set fs \<Longrightarrow> field (fst (f s)) = field s"
    and j: "j < length (field s)"
    and err: "\<And>x. \<exists>e. snd (F j x) = Inl e"
  shows "\<exists>e. snd (seq (fs @ [within field upd (for_enumerate F 0)]) s) = Inl e"
proof (rule seq_snoc_error [where g = field])
  show "\<And>f s. f \<in> set fs \<Longrightarrow> field (fst (f s)) = field s"
    by (rule frame)
  fix s'
  assume "field s' = field s"
  then have "j < length (field s')" using j by simp
  then have "\<exists>e. snd (for_enumerate F 0 (field s')) = Inl e"
    by (rule for_enumerate_error) (simp add: err)
  then show "\<exists>e. snd (within field upd (for_enumerate F 0) s') = Inl e"
    by (simp add: within_snd)
qed

lemma layers_nth:
  assumes get_put: "\<And>c s. field (upd (\<lambda>_. c) s) = c"
    and frame: "\<And>f s. f \<in> set fs \<Longrightarrow> field (fst (f s)) = field s"
    and ok: "snd (seq (fs @ [within field upd (for_enumerate F 0)]) s) = Inr ()"
    and j: "j < length (field s)"
  shows "field (fst (seq (fs @ [within field upd (for_enumerate F 0)]) s)) ! j
           = fst (F j (field s ! j))
       \<and> snd (F j (field s ! j)) = Inr ()"
proof -
  have "\<exists>s'. field s' = field s
          \<and> seq (fs @ [within field upd (for_enumerate F 0)]) s
               = within field upd (for_enumerate F 0) s'"
    by (rule seq_snoc_success [where g = field and fs = fs]) (simp_all add: frame ok)
  then obtain s' where s': "field s' = field s"
    and eq: "seq (fs @ [within field upd (for_enumerate F 0)]) s
               = within field upd (for_enumerate F 0) s'"
    by blast
  have "snd (for_enumerate F 0 (field s)) = Inr ()"
    using ok eq s' by (simp add: within_snd)
  from for_enumerate_nth [OF this j]
  show ?thesis
    using eq s' by (simp add: within_field [of field upd, OF get_put])
qed


lemma encoder_layer_v2_missing:
  assumes "variables (scope @ ''/ffn/input_layer_norm/gamma'') = None"
  shows "\<exists>e. snd (set_transformer_encoder_layer_v2 variables scope relative x) = Inl e"
  using assms
  by (simp add: set_transformer_encoder_layer_v2_def set_ffn_v2_def within_def set_layer_norm_def)

lemma decoder_layer_v2_missing:
  assumes "variables (scope @ ''/ffn/input_layer_norm/gamma'') = None"
  shows "\<exists>e. snd (set_transformer_decoder_layer_v2 variables scope relative x) = Inl e"
  using assms
  by (simp add: set_transformer_decoder_layer_v2_def set_ffn_v2_def within_def set_layer_norm_def)

lemma encoder_layer_v1_missing:
  assumes "variables (scope @ ''/ffn/LayerNorm/gamma'') = None"
  shows "\<exists>e. snd (set_transformer_encoder_layer variables scope x) = Inl e"
  using assms
  by (simp add: set_transformer_encoder_layer_def set_ffn_def within_def set_layer_norm_def)

lemma decoder_layer_v1_missing:
  assumes "variables (scope @ ''/ffn/LayerNorm/gamma'') = None"
  shows "\<exists>e. snd (set_transformer_decoder_layer variables scope x) = Inl e"
  using assms
  by (simp add: set_transformer_decoder_layer_def set_ffn_def within_def set_layer_norm_def)

text \<open>The setters as a sequence that ends in the loop over the layers.\<close>

lemma encoder_v2_as_loop:
  "set_transformer_encoder_v2 variables scope relative =
     seq ([within TransformerEncoderSpec.layer_norm TransformerEncoderSpec.layer_norm_update
             (set_layer_norm variables (scope @ ''/layer_norm''))]
          @ [within TransformerEncoderSpec.layer TransformerEncoderSpec.layer_update
               (for_enumerate
                  (\<lambda>i. set_transformer_encoder_layer_v2 variables
                         (scope @ ''/layers/'' @ string_of_nat i) relative) 0)])"
  by (simp add: set_transformer_encoder_v2_def)

lemma encoder_v2_frame:
  "f \<in> set [within TransformerEncoderSpec.layer_norm TransformerEncoderSpec.layer_norm_update h]
     \<Longrightarrow> TransformerEncoderSpec.layer (fst (f s)) = TransformerEncoderSpec.layer s"
  by (auto simp: within_frame)

lemma decoder_frame:
  "f \<in> set [try_except_KeyError (within projection projection_update body)
                (within projection projection_update handler),
              within TransformerDecoderSpec.layer_norm TransformerDecoderSpec.layer_norm_update h]
     \<Longrightarrow> TransformerDecoderSpec.layer (fst (f s)) = TransformerDecoderSpec.layer s"
  by (auto simp: within_frame try_except_KeyError_def within_def
        split: prod.splits sum.splits error.splits)


lemma encoder_v2_layers:
  "length (TransformerEncoderSpec.layer (fst (set_transformer_encoder_v2 variables scope relative enc)))
     = length (TransformerEncoderSpec.layer enc)"
  "i < length (TransformerEncoderSpec.layer enc)
     \<Longrightarrow> variables (scope @ ''/layers/'' @ string_of_nat i @ ''/ffn/input_layer_norm/gamma'') = None
     \<Longrightarrow> \<exists>e. snd (set_transformer_encoder_v2 variables scope relative enc) = Inl e"
  "snd (set_transformer_encoder_v2 variables scope relative enc) = Inr ()
     \<Longrightarrow> i < length (TransformerEncoderSpec.layer enc)
     \<Longrightarrow> TransformerEncoderSpec.layer (fst (set_transformer_encoder_v2 variables scope relative enc)) ! i
           = fst (set_transformer_encoder_layer_v2 variables
                    (scope @ ''/layers/'' @ string_of_nat i) relative
                    (TransformerEncoderSpec.layer enc ! i))"
proof -
  show "length (TransformerEncoderSpec.layer (fst (set_transformer_encoder_v2 variables scope relative enc)))
     = length (TransformerEncoderSpec.layer enc)"
    unfolding encoder_v2_as_loop
    by (rule layers_length) (simp_all add: encoder_v2_frame del: set_simps)
next
  assume "i < length (TransformerEncoderSpec.layer enc)"
    and "variables (scope @ ''/layers/'' @ string_of_nat i @ ''/ffn/input_layer_norm/gamma'') = None"
  then show "\<exists>e. snd (set_transformer_encoder_v2 variables scope relative enc) = Inl e"
    unfolding encoder_v2_as_loop
    by (intro layers_error [where j = i] encoder_layer_v2_missing)
       (simp_all add: encoder_v2_frame del: set_simps)
next
  assume "snd (set_transformer_encoder_v2 variables scope relative enc) = Inr ()"
    and "i < length (TransformerEncoderSpec.layer enc)"
  then show "TransformerEncoderSpec.layer (fst (set_transformer_encoder_v2 variables scope relative enc)) ! i
           = fst (set_transformer_encoder_layer_v2 variables
                    (scope @ ''/layers/'' @ string_of_nat i) relative
                    (TransformerEncoderSpec.layer enc ! i))"
    unfolding encoder_v2_as_loop
    by (intro layers_nth [THEN conjunct1])
       (simp_all add: encoder_v2_frame del: set_simps)
qed


lemma decoder_v2_as_loop:
  "set_transformer_decoder_v2 elem_eq variables scope target_embedding_name relative =
     seq ([try_except_KeyError
            (seq [within projection projection_update
                    (set_linear variables (scope @ ''/output_layer'') None False),
                  (\<lambda>spec.
                    if \<not> (case (LinearSpec.weight (projection spec),
                                 EmbeddingsSpec.weight (TransformerDecoderSpec.embeddings spec)) of
                             (Some p, Some e) \<Rightarrow> array_equal elem_eq p e
                           | _ \<Rightarrow> False)
                    then (spec\<lparr>projection := (projection spec)
                                 \<lparr>LinearSpec.weight :=
                                    map_option transpose_nd
                                      (LinearSpec.weight (projection spec))\<rparr>\<rparr>, Inr ())
                    else (spec, Inr ()))])
            (within projection projection_update
               (set_linear variables (scope @ ''/output_layer'')
                  (Some target_embedding_name) False)),
          within TransformerDecoderSpec.layer_norm TransformerDecoderSpec.layer_norm_update
            (set_layer_norm variables (scope @ ''/layer_norm''))]
         @ [within TransformerDecoderSpec.layer TransformerDecoderSpec.layer_update
              (for_enumerate
                 (\<lambda>i. set_transformer_decoder_layer_v2 variables
                        (scope @ ''/layers/'' @ string_of_nat i) relative) 0)])"
  by (simp add: set_transformer_decoder_v2_def)

lemma decoder_v2_frame:
  "f \<in> set [try_except_KeyError
            (seq [within projection projection_update body,
                  (\<lambda>spec.
                    if c spec
                    then (spec\<lparr>projection := p spec\<rparr>, Inr ())
                    else (spec, Inr ()))])
            (within projection projection_update handler),
          within TransformerDecoderSpec.layer_norm TransformerDecoderSpec.layer_norm_update h]
     \<Longrightarrow> TransformerDecoderSpec.layer (fst (f s)) = TransformerDecoderSpec.layer s"
  by (auto simp: within_frame try_except_KeyError_def within_def
        split: prod.splits sum.splits error.splits)

lemma decoder_v2_layers:
  "length (TransformerDecoderSpec.layer (fst (set_transformer_decoder_v2 elem_eq variables scope
      target_embedding_name relative dec)))
     = length (TransformerDecoderSpec.layer dec)"
  "i < length (TransformerDecoderSpec.layer dec)
     \<Longrightarrow> variables (scope @ ''/layers/'' @ string_of_nat i @ ''/ffn/input_layer_norm/gamma'') = None
     \<Longrightarrow> \<exists>e. snd (set_transformer_decoder_v2 elem_eq variables scope target_embedding_name relative dec)
              = Inl e"
  "snd (set_transformer_decoder_v2 elem_eq variables scope target_embedding_name relative dec) = Inr ()
     \<Longrightarrow> i < length (TransformerDecoderSpec.layer dec)
     \<Longrightarrow> TransformerDecoderSpec.layer (fst (set_transformer_decoder_v2 elem_eq variables scope
             target_embedding_name relative dec)) ! i
           = fst (set_transformer_decoder_layer_v2 variables
                    (scope @ ''/layers/'' @ string_of_nat i) relative
                    (TransformerDecoderSpec.layer dec ! i))"
proof -
  show "length (TransformerDecoderSpec.layer (fst (set_transformer_decoder_v2 elem_eq variables scope
      target_embedding_name relative dec)))
     = length (TransformerDecoderSpec.layer dec)"
    unfolding decoder_v2_as_loop
    by (rule layers_length) (simp_all add: decoder_v2_frame del: set_simps seq.simps)
next
  assume "i < length (TransformerDecoderSpec.layer dec)"
    and "variables (scope @ ''/layers/'' @ string_of_nat i @ ''/ffn/input_layer_norm/gamma'') = None"
  then show "\<exists>e. snd (set_transformer_decoder_v2 elem_eq variables scope target_embedding_name relative dec)
              = Inl e"
    unfolding decoder_v2_as_loop
    by (intro layers_error [where j = i] decoder_layer_v2_missing)
       (simp_all add: decoder_v2_frame del: set_simps seq.simps)
next
  assume "snd (set_transformer_decoder_v2 elem_eq variables scope target_embedding_name relative dec) = Inr ()"
    and "i < length (TransformerDecoderSpec.layer dec)"
  then show "TransformerDecoderSpec.layer (fst (set_transformer_decoder_v2 elem_eq variables scope
             target_embedding_name relative dec)) ! i
           = fst (set_transformer_decoder_layer_v2 variables
                    (scope @ ''/layers/'' @ string_of_nat i) relative
                    (TransformerDecoderSpec.layer dec ! i))"
    unfolding decoder_v2_as_loop
    by (intro layers_nth [THEN conjunct1])
       (simp_all add: decoder_v2_frame del: set_simps seq.simps)
qed

lemma encoder_v1_as_loop:
  "set_transformer_encoder variables =
     seq ([within TransformerEncoderSpec.layer_norm TransformerEncoderSpec.layer_norm_update
            (set_layer_norm variables ''transformer/encoder/LayerNorm''),
          discard
            (try_except_KeyError
               (within TransformerEncoderSpec.embeddings TransformerEncoderSpec.embeddings_update
                  (set_embeddings variables ''transformer/encoder'' 1))
               (within TransformerEncoderSpec.embeddings TransformerEncoderSpec.embeddings_update
                  (set_embeddings variables ''transformer/shared_embeddings'' 1)))]
         @ [within TransformerEncoderSpec.layer TransformerEncoderSpec.layer_update
              (for_enumerate
                 (\<lambda>i. set_transformer_encoder_layer variables
                        (''transformer/encoder/layer_'' @ string_of_nat i)) 0)])"
  by (simp add: set_transformer_encoder_def)

lemma encoder_v1_frame:
  "f \<in> set [within TransformerEncoderSpec.layer_norm TransformerEncoderSpec.layer_norm_update h,
          discard
            (try_except_KeyError
               (within TransformerEncoderSpec.embeddings TransformerEncoderSpec.embeddings_update
                  body)
               (within TransformerEncoderSpec.embeddings TransformerEncoderSpec.embeddings_update
                  handler))]
     \<Longrightarrow> TransformerEncoderSpec.layer (fst (f s)) = TransformerEncoderSpec.layer s"
  by (auto simp: within_frame discard_def try_except_KeyError_def within_def
        split: prod.splits sum.splits error.splits)

lemma encoder_v1_layers:
  "length (TransformerEncoderSpec.layer (fst (set_transformer_encoder variables enc)))
     = length (TransformerEncoderSpec.layer enc)"
  "i < length (TransformerEncoderSpec.layer enc)
     \<Longrightarrow> variables (''transformer/encoder/layer_'' @ string_of_nat i @ ''/ffn/LayerNorm/gamma'') = None
     \<Longrightarrow> \<exists>e. snd (set_transformer_encoder variables enc) = Inl e"
  "snd (set_transformer_encoder variables enc) = Inr ()
     \<Longrightarrow> i < length (TransformerEncoderSpec.layer enc)
     \<Longrightarrow> TransformerEncoderSpec.layer (fst (set_transformer_encoder variables enc)) ! i
           = fst (set_transformer_encoder_layer variables
                    (''transformer/encoder/layer_'' @ string_of_nat i)
                    (TransformerEncoderSpec.layer enc ! i))"
proof -
  show "length (TransformerEncoderSpec.layer (fst (set_transformer_encoder variables enc)))
     = length (TransformerEncoderSpec.layer enc)"
    unfolding encoder_v1_as_loop
    by (rule layers_length) (simp_all add: encoder_v1_frame del: set_simps)
next
  assume "i < length (TransformerEncoderSpec.layer enc)"
    and "variables (''transformer/encoder/layer_'' @ string_of_nat i @ ''/ffn/LayerNorm/gamma'') = None"
  then show "\<exists>e. snd (set_transformer_encoder variables enc) = Inl e"
    unfolding encoder_v1_as_loop
    by (intro layers_error [where j = i] encoder_layer_v1_missing)
       (simp_all add: encoder_v1_frame del: set_simps)
next
  assume "snd (set_transformer_encoder variables enc) = Inr ()"
    and "i < length (TransformerEncoderSpec.layer enc)"
  then show "TransformerEncoderSpec.layer (fst (set_transformer_encoder variables enc)) ! i
           = fst (set_transformer_encoder_layer variables
                    (''transformer/encoder/layer_'' @ string_of_nat i)
                    (TransformerEncoderSpec.layer enc ! i))"
    unfolding encoder_v1_as_loop
    by (intro layers_nth [THEN conjunct1])
       (simp_all add: encoder_v1_frame del: set_simps)
qed


lemma decoder_v1_as_loop:
  "set_transformer_decoder variables dec =
     (case (case variables ''transformer/decoder/w_embs'' of
              Some w \<Rightarrow> Some (w, ''transformer/decoder/w_embs'')
            | None \<Rightarrow> map_option (\<lambda>w. (w, ''transformer/shared_embeddings/w_embs''))
                       (variables ''transformer/shared_embeddings/w_embs'')) of
        None \<Rightarrow> (dec, Inl (KeyError ''transformer/shared_embeddings/w_embs''))
      | Some (w, embeddings_name) \<Rightarrow>
          seq ([try_except_KeyError
                 (within projection projection_update
                    (set_linear variables ''transformer/decoder/dense'' None True))
                 (within projection projection_update
                    (set_linear variables ''transformer'' (Some embeddings_name) False)),
               within TransformerDecoderSpec.layer_norm TransformerDecoderSpec.layer_norm_update
                 (set_layer_norm variables ''transformer/decoder/LayerNorm'')]
              @ [within TransformerDecoderSpec.layer TransformerDecoderSpec.layer_update
                 (for_enumerate
                    (\<lambda>i. set_transformer_decoder_layer variables
                           (''transformer/decoder/layer_'' @ string_of_nat i)) 0)])
            (dec\<lparr>TransformerDecoderSpec.embeddings := (TransformerDecoderSpec.embeddings dec)
                 \<lparr>EmbeddingsSpec.weight := Some w, multiply_by_sqrt_depth := Some True\<rparr>\<rparr>))"
  unfolding set_transformer_decoder_def bind_stmt_def decoder_embeddings_v1
  by (simp del: seq.simps split: option.splits)

lemma decoder_v1_layers:
  "length (TransformerDecoderSpec.layer (fst (set_transformer_decoder variables dec)))
     = length (TransformerDecoderSpec.layer dec)"
  "i < length (TransformerDecoderSpec.layer dec)
     \<Longrightarrow> variables (''transformer/decoder/layer_'' @ string_of_nat i @ ''/ffn/LayerNorm/gamma'') = None
     \<Longrightarrow> \<exists>e. snd (set_transformer_decoder variables dec) = Inl e"
  "snd (set_transformer_decoder variables dec) = Inr ()
     \<Longrightarrow> i < length (TransformerDecoderSpec.layer dec)
     \<Longrightarrow> TransformerDecoderSpec.layer (fst (set_transformer_decoder variables dec)) ! i
           = fst (set_transformer_decoder_layer variables
                    (''transformer/decoder/layer_'' @ string_of_nat i)
                    (TransformerDecoderSpec.layer dec ! i))"
proof -
  let ?loop = "\<lambda>n. seq ([try_except_KeyError
                 (within projection projection_update
                    (set_linear variables ''transformer/decoder/dense'' None True))
                 (within projection projection_update
                    (set_linear variables ''transformer'' (Some n) False)),
               within TransformerDecoderSpec.layer_norm TransformerDecoderSpec.layer_norm_update
                 (set_layer_norm variables ''transformer/decoder/LayerNorm'')]
              @ [within TransformerDecoderSpec.layer TransformerDecoderSpec.layer_update
                 (for_enumerate
                    (\<lambda>i. set_transformer_decoder_layer variables
                           (''transformer/decoder/layer_'' @ string_of_nat i)) 0)])"
  have len: "length (TransformerDecoderSpec.layer (fst (?loop n s)))
               = length (TransformerDecoderSpec.layer s)" for n s
    by (rule layers_length) (simp_all add: decoder_frame del: set_simps)
  have err: "\<exists>e. snd (?loop n s) = Inl e"
    if "i < length (TransformerDecoderSpec.layer s)"
      and "variables (''transformer/decoder/layer_'' @ string_of_nat i @ ''/ffn/LayerNorm/gamma'') = None"
    for n s
    using that
    by (intro layers_error [where j = i] decoder_layer_v1_missing)
       (simp_all add: decoder_frame del: set_simps)
  have nth: "TransformerDecoderSpec.layer (fst (?loop n s)) ! i
           = fst (set_transformer_decoder_layer variables
                    (''transformer/decoder/layer_'' @ string_of_nat i)
                    (TransformerDecoderSpec.layer s ! i))"
    if "snd (?loop n s) = Inr ()" and "i < length (TransformerDecoderSpec.layer s)"
    for n s
    using that
    by (intro layers_nth [THEN conjunct1])
       (simp_all add: decoder_frame del: set_simps)
  show "length (TransformerDecoderSpec.layer (fst (set_transformer_decoder variables dec)))
     = length (TransformerDecoderSpec.layer dec)"
    unfolding decoder_v1_as_loop
    by (simp add: len del: seq.simps append.simps split: option.splits)
  show "\<exists>e. snd (set_transformer_decoder variables dec) = Inl e"
    if "i < length (TransformerDecoderSpec.layer dec)"
      and "variables (''transformer/decoder/layer_'' @ string_of_nat i @ ''/ffn/LayerNorm/gamma'') = None"
    unfolding decoder_v1_as_loop
    using that
    by (simp add: err del: seq.simps append.simps split: option.splits)
  show "TransformerDecoderSpec.layer (fst (set_transformer_decoder variables dec)) ! i
           = fst (set_transformer_decoder_layer variables
                    (''transformer/decoder/layer_'' @ string_of_nat i)
                    (TransformerDecoderSpec.layer dec ! i))"
    if "snd (set_transformer_decoder variables dec) = Inr ()"
      and "i < length (TransformerDecoderSpec.layer dec)"
    using that
    unfolding decoder_v1_as_loop
    by (auto simp: nth simp del: seq.simps append.simps split: option.splits)
qed


lemma string_of_nat_digits:
  "string_of_nat 0 = ''0''" "string_of_nat (Suc 0) = ''1''" "string_of_nat 2 = ''2''"
  "string_of_nat 3 = ''3''" "string_of_nat 4 = ''4''"
  by (simp_all add: string_of_nat.simps)

lemma gap_checkpoint_v2_three_layers:
  "snd (set_transformer_encoder_v2 gap_checkpoint_v2 ''model/encoder'' False
          (TransformerEncoderSpec_new 3)) = Inr ()"
  by code_simp

lemma gap_checkpoint_v2_two_layers:
  "snd (set_transformer_encoder_v2 gap_checkpoint_v2 ''model/encoder'' False
          (TransformerEncoderSpec_new 2)) = Inr ()"
  by code_simp

lemma gap_checkpoint_v2_five_layers:
  "snd (set_transformer_encoder_v2 gap_checkpoint_v2 ''model/encoder'' False
          (TransformerEncoderSpec_new 5))
     = Inl (KeyError ''model/encoder/layers/3/ffn/input_layer_norm/gamma'')"
  by code_simp

lemma gap_checkpoint_v2_discovered:
  "discovered_layer_count (encoder_layer_present_v2 gap_checkpoint_v2 ''model/encoder'') 0 8 = 3"
  by code_simp

lemma gap_checkpoint_v2_names:
  "gap_checkpoint_v2 ''model/encoder/layers/3/ffn/input_layer_norm/gamma'' = None"
  "gap_checkpoint_v2 ''model/decoder/layers/0/ffn/input_layer_norm/gamma'' = None"
  "gap_checkpoint_v2 ''model/encoder/layers/4/ffn/input_layer_norm/gamma'' = Some vector_1"
  by code_simp+

lemma shared_checkpoint_v1_sides:
  "snd (set_transformer_encoder shared_checkpoint_v1 (TransformerEncoderSpec_new 1)) = Inr ()"
  "snd (set_transformer_decoder shared_checkpoint_v1 (TransformerDecoderSpec_new 1)) = Inr ()"
  "shared_checkpoint_v1 ''transformer/encoder/layer_1/ffn/LayerNorm/gamma'' = None"
  "shared_checkpoint_v1 ''transformer/decoder/layer_1/ffn/LayerNorm/gamma'' = None"
  by code_simp+

lemma new_layers:
  "length (TransformerEncoderSpec.layer (TransformerEncoderSpec_new n)) = n"
  "length (TransformerDecoderSpec.layer (TransformerDecoderSpec_new n)) = n"
  "i < n \<Longrightarrow> TransformerEncoderSpec.layer (TransformerEncoderSpec_new n) ! i
               = TransformerEncoderLayerSpec_new"
  "i < n \<Longrightarrow> TransformerDecoderSpec.layer (TransformerDecoderSpec_new n) ! i
               = TransformerDecoderLayerSpec_new"
  by (simp_all add: TransformerEncoderSpec_new_def TransformerDecoderSpec_new_def)

text \<open>
  C1, as the code has it. The encoder and decoder setters of both generations loop over the
  layers of the specification they are given, with the index counting from 0: the number
  of layers after the setter is the number of layers of the template, whatever the store
  holds and whether or not the setter raises; a template layer whose first tensor (the
  gamma of the layer norm of its feed-forward block) is not in the store makes the setter
  raise; and when the setter succeeds, layer \<open>i\<close> of the result is layer \<open>i\<close> of the
  template, set from the scope of index \<open>i\<close>.
\<close>

theorem layers_follow_the_template:
  "length (TransformerEncoderSpec.layer
      (fst (set_transformer_encoder_v2 variables scope relative enc)))
     = length (TransformerEncoderSpec.layer enc)
   \<and> length (TransformerDecoderSpec.layer
      (fst (set_transformer_decoder_v2 elem_eq variables scope target_embedding_name relative dec)))
     = length (TransformerDecoderSpec.layer dec)
   \<and> length (TransformerEncoderSpec.layer (fst (set_transformer_encoder variables enc)))
     = length (TransformerEncoderSpec.layer enc)
   \<and> length (TransformerDecoderSpec.layer (fst (set_transformer_decoder variables dec)))
     = length (TransformerDecoderSpec.layer dec)
   \<and> (i < length (TransformerEncoderSpec.layer enc)
      \<and> variables (scope @ ''/layers/'' @ string_of_nat i @ ''/ffn/input_layer_norm/gamma'') = None
      \<longrightarrow> (\<exists>e. snd (set_transformer_encoder_v2 variables scope relative enc) = Inl e))
   \<and> (i < length (TransformerDecoderSpec.layer dec)
      \<and> variables (scope @ ''/layers/'' @ string_of_nat i @ ''/ffn/input_layer_norm/gamma'') = None
      \<longrightarrow> (\<exists>e. snd (set_transformer_decoder_v2 elem_eq variables scope target_embedding_name
                      relative dec) = Inl e))
   \<and> (i < length (TransformerEncoderSpec.layer enc)
      \<and> variables (''transformer/encoder/layer_'' @ string_of_nat i @ ''/ffn/LayerNorm/gamma'') = None
      \<longrightarrow> (\<exists>e. snd (set_transformer_encoder variables enc) = Inl e))
   \<and> (i < length (TransformerDecoderSpec.layer dec)
      \<and> variables (''transformer/decoder/layer_'' @ string_of_nat i @ ''/ffn/LayerNorm/gamma'') = None
      \<longrightarrow> (\<exists>e. snd (set_transformer_decoder variables dec) = Inl e))
   \<and> (snd (set_transformer_encoder_v2 variables scope relative enc) = Inr ()
      \<and> i < length (TransformerEncoderSpec.layer enc)
      \<longrightarrow> TransformerEncoderSpec.layer
             (fst (set_transformer_encoder_v2 variables scope relative enc)) ! i
           = fst (set_transformer_encoder_layer_v2 variables
                    (scope @ ''/layers/'' @ string_of_nat i) relative
                    (TransformerEncoderSpec.layer enc ! i)))
   \<and> (snd (set_transformer_decoder_v2 elem_eq variables scope target_embedding_name relative dec) = Inr ()
      \<and> i < length (TransformerDecoderSpec.layer dec)
      \<longrightarrow> TransformerDecoderSpec.layer
             (fst (set_transformer_decoder_v2 elem_eq variables scope target_embedding_name relative dec)) ! i
           = fst (set_transformer_decoder_layer_v2 variables
                    (scope @ ''/layers/'' @ string_of_nat i) relative
                    (TransformerDecoderSpec.layer dec ! i)))
   \<and> (snd (set_transformer_encoder variables enc) = Inr ()
      \<and> i < length (TransformerEncoderSpec.layer enc)
      \<longrightarrow> TransformerEncoderSpec.layer (fst (set_transformer_encoder variables enc)) ! i
           = fst (set_transformer_encoder_layer variables
                    (''transformer/encoder/layer_'' @ string_of_nat i)
                    (TransformerEncoderSpec.layer enc ! i)))
   \<and> (snd (set_transformer_decoder variables dec) = Inr ()
      \<and> i < length (TransformerDecoderSpec.layer dec)
      \<longrightarrow> TransformerDecoderSpec.layer (fst (set_transformer_decoder variables dec)) ! i
           = fst (set_transformer_decoder_layer variables
                    (''transformer/decoder/layer_'' @ string_of_nat i)
                    (TransformerDecoderSpec.layer dec ! i)))"
  by (intro conjI impI; (elim conjE)?)
     (simp_all add: encoder_v2_layers decoder_v2_layers encoder_v1_layers decoder_v1_layers)


theorem layers_follow_the_template_witness:
  "snd (set_transformer_encoder_v2 gap_checkpoint_v2 ''model/encoder'' False
          (TransformerEncoderSpec_new 3)) = Inr ()
   \<and> length (TransformerEncoderSpec.layer (fst (set_transformer_encoder_v2 gap_checkpoint_v2
          ''model/encoder'' False (TransformerEncoderSpec_new 3)))) = 3
   \<and> TransformerEncoderSpec.layer (fst (set_transformer_encoder_v2 gap_checkpoint_v2
          ''model/encoder'' False (TransformerEncoderSpec_new 3))) ! 2
       = fst (set_transformer_encoder_layer_v2 gap_checkpoint_v2 ''model/encoder/layers/2'' False
                TransformerEncoderLayerSpec_new)
   \<and> gap_checkpoint_v2 ''model/encoder/layers/3/ffn/input_layer_norm/gamma'' = None
   \<and> (\<exists>e. snd (set_transformer_encoder_v2 gap_checkpoint_v2 ''model/encoder'' False
          (TransformerEncoderSpec_new 5)) = Inl e)
   \<and> length (TransformerEncoderSpec.layer (fst (set_transformer_encoder_v2 gap_checkpoint_v2
          ''model/encoder'' False (TransformerEncoderSpec_new 5)))) = 5
   \<and> (\<exists>e. snd (set_transformer_decoder_v2 (=) gap_checkpoint_v2 ''model/decoder''
          ''model/examples_inputter/labels_inputter/embedding'' False
          (TransformerDecoderSpec_new 1)) = Inl e)
   \<and> TransformerEncoderSpec.layer (fst (set_transformer_encoder shared_checkpoint_v1
          (TransformerEncoderSpec_new 1))) ! 0
       = fst (set_transformer_encoder_layer shared_checkpoint_v1 ''transformer/encoder/layer_0''
                TransformerEncoderLayerSpec_new)
   \<and> TransformerDecoderSpec.layer (fst (set_transformer_decoder shared_checkpoint_v1
          (TransformerDecoderSpec_new 1))) ! 0
       = fst (set_transformer_decoder_layer shared_checkpoint_v1 ''transformer/decoder/layer_0''
                TransformerDecoderLayerSpec_new)
   \<and> (\<exists>e. snd (set_transformer_encoder shared_checkpoint_v1 (TransformerEncoderSpec_new 2))
          = Inl e)
   \<and> (\<exists>e. snd (set_transformer_decoder shared_checkpoint_v1 (TransformerDecoderSpec_new 2))
          = Inl e)"
  using layers_follow_the_template
          [where elem_eq = "(=)" and variables = gap_checkpoint_v2 and scope = "''model/encoder''"
             and relative = False and enc = "TransformerEncoderSpec_new 3"
             and dec = "TransformerDecoderSpec_new 1" and i = 2
             and target_embedding_name = "''model/examples_inputter/labels_inputter/embedding''"]
        layers_follow_the_template
          [where elem_eq = "(=)" and variables = gap_checkpoint_v2 and scope = "''model/encoder''"
             and relative = False and enc = "TransformerEncoderSpec_new 5"
             and dec = "TransformerDecoderSpec_new 1" and i = 3
             and target_embedding_name = "''model/examples_inputter/labels_inputter/embedding''"]
        layers_follow_the_template
          [where elem_eq = "(=)" and variables = gap_checkpoint_v2 and scope = "''model/decoder''"
             and relative = False and enc = "TransformerEncoderSpec_new 1"
             and dec = "TransformerDecoderSpec_new 1" and i = 0
             and target_embedding_name = "''model/examples_inputter/labels_inputter/embedding''"]
        layers_follow_the_template
          [where elem_eq = "(=)" and variables = shared_checkpoint_v1 and scope = "''model/encoder''"
             and relative = False and enc = "TransformerEncoderSpec_new 1"
             and dec = "TransformerDecoderSpec_new 1" and i = 0
             and target_embedding_name = "''model/examples_inputter/labels_inputter/embedding''"]
        layers_follow_the_template
          [where elem_eq = "(=)" and variables = shared_checkpoint_v1 and scope = "''model/encoder''"
             and relative = False and enc = "TransformerEncoderSpec_new 2"
             and dec = "TransformerDecoderSpec_new 2" and i = 1
             and target_embedding_name = "''model/examples_inputter/labels_inputter/embedding''"]
        gap_checkpoint_v2_three_layers gap_checkpoint_v2_names shared_checkpoint_v1_sides
  by (simp add: new_layers string_of_nat_digits)

text \<open>
  C1, as stated, fails: for the checkpoint with the layers 0, 1, 2 and 4 a discovery would
  count three layers; with a template of two layers the encoder setter succeeds and the
  encoder has two layers, with a template of five layers it raises a \<^verbatim>\<open>KeyError\<close> for
  a tensor of layer 3 and the template keeps its five layers.
\<close>

theorem layer_count_is_not_discovered:
  "discovered_layer_count (encoder_layer_present_v2 gap_checkpoint_v2 ''model/encoder'') 0 8 = 3
   \<and> snd (set_transformer_encoder_v2 gap_checkpoint_v2 ''model/encoder'' False
          (TransformerEncoderSpec_new 2)) = Inr ()
   \<and> length (TransformerEncoderSpec.layer (fst (set_transformer_encoder_v2 gap_checkpoint_v2
          ''model/encoder'' False (TransformerEncoderSpec_new 2)))) = 2
   \<and> snd (set_transformer_encoder_v2 gap_checkpoint_v2 ''model/encoder'' False
          (TransformerEncoderSpec_new 5))
       = Inl (KeyError ''model/encoder/layers/3/ffn/input_layer_norm/gamma'')
   \<and> length (TransformerEncoderSpec.layer (fst (set_transformer_encoder_v2 gap_checkpoint_v2
          ''model/encoder'' False (TransformerEncoderSpec_new 5)))) = 5"
  using gap_checkpoint_v2_discovered gap_checkpoint_v2_two_layers gap_checkpoint_v2_five_layers
    encoder_v2_layers(1) [of gap_checkpoint_v2 "''model/encoder''" False "TransformerEncoderSpec_new 2"]
    encoder_v2_layers(1) [of gap_checkpoint_v2 "''model/encoder''" False "TransformerEncoderSpec_new 5"]
  by (simp add: new_layers)


subsection \<open>What the setters raise\<close>

lemma raises_onlyI: "(\<And>s e. snd (f s) = Inl e \<Longrightarrow> P e) \<Longrightarrow> raises_only P f"
  unfolding raises_only_def by (metis snd_conv)

lemma raises_onlyD: "raises_only P f \<Longrightarrow> snd (f s) = Inl e \<Longrightarrow> P e"
  by (cases "f s") (auto simp: raises_only_def)

lemma raises_only_seq:
  assumes "\<And>f. f \<in> set fs \<Longrightarrow> raises_only P f"
  shows "raises_only P (seq fs)"
proof (rule raises_onlyI)
  fix s e
  assume "snd (seq fs s) = Inl e"
  with assms show "P e"
  proof (induction fs arbitrary: s)
    case Nil
    then show ?case by simp
  next
    case (Cons f fs)
    show ?case
    proof (cases "f s")
      case (Pair s1 r)
      show ?thesis
      proof (cases r)
        case (Inl e')
        then have "snd (f s) = Inl e" using Pair Cons.prems(2) by simp
        then show ?thesis using Cons.prems(1) [of f] by (auto dest: raises_onlyD)
      next
        case (Inr u)
        then have "snd (seq fs s1) = Inl e" using Pair Cons.prems(2) by simp
        then show ?thesis using Cons.IH [of s1] Cons.prems(1) by simp
      qed
    qed
  qed
qed

lemma raises_only_bind:
  assumes "raises_only P m" and "\<And>r. raises_only P (k r)"
  shows "raises_only P (bind_stmt m k)"
proof (rule raises_onlyI)
  fix s e
  assume *: "snd (bind_stmt m k s) = Inl e"
  show "P e"
  proof (cases "m s")
    case (Pair s1 r)
    then show ?thesis
      using * assms(1) [THEN raises_onlyD, of s e] assms(2) [THEN raises_onlyD, of _ s1 e]
      by (cases r) (auto simp: bind_stmt_def)
  qed
qed

lemma raises_only_try:
  assumes "raises_only P body" and "raises_only P handler"
  shows "raises_only P (try_except_KeyError body handler)"
proof (rule raises_onlyI)
  fix s e
  assume *: "snd (try_except_KeyError body handler s) = Inl e"
  show "P e"
  proof (cases "body s")
    case (Pair s1 r)
    then show ?thesis
      using * assms(1) [THEN raises_onlyD, of s e] assms(2) [THEN raises_onlyD, of s1 e]
      by (auto simp: try_except_KeyError_def split: sum.splits error.splits)
  qed
qed

lemma raises_only_discard:
  assumes "raises_only P f"
  shows "raises_only P (discard f)"
  using assms
  by (auto simp: raises_only_def discard_def split: prod.splits sum.splits)

lemma raises_only_within:
  assumes "raises_only P f"
  shows "raises_only P (within field upd f)"
  using assms by (auto simp: raises_only_def within_def split: prod.splits)

lemma raises_only_item:
  assumes "P IndexError" and "raises_only P f"
  shows "raises_only P (item i f)"
  using assms by (auto simp: raises_only_def item_def Let_def split: prod.splits)

lemma raises_only_for_enumerate:
  assumes "\<And>i. raises_only P (f i)"
  shows "raises_only P (for_enumerate f i)"
proof (rule raises_onlyI)
  fix s e
  assume "snd (for_enumerate f i s) = Inl e"
  then show "P e"
  proof (induction s arbitrary: i)
    case Nil
    then show ?case by simp
  next
    case (Cons x xs)
    show ?case
    proof (cases "f i x")
      case (Pair x' r)
      show ?thesis
      proof (cases r)
        case (Inl e')
        then have "snd (f i x) = Inl e" using Pair Cons.prems by simp
        then show ?thesis using assms [of i] by (auto dest: raises_onlyD)
      next
        case (Inr u)
        then have "snd (for_enumerate f (Suc i) xs) = Inl e"
          using Pair Cons.prems by (auto split: prod.splits)
        then show ?thesis by (rule Cons.IH)
      qed
    qed
  qed
qed

lemma raises_only_skip: "raises_only P (\<lambda>s. (g s, Inr r))"
  by (simp add: raises_only_def)

lemma setter_error_simps:
  "setter_error variables IndexError"
  "setter_error variables (KeyError n) \<longleftrightarrow> variables n = None"
  by (simp_all add: setter_error_def)

lemma raises_only_set_layer_norm:
  "raises_only (setter_error variables) (set_layer_norm variables scope)"
  by (auto simp: raises_only_def set_layer_norm_def setter_error_simps split: option.splits)

lemma raises_only_set_linear:
  "raises_only (setter_error variables) (set_linear variables scope weight_name do_transpose)"
  by (cases weight_name)
     (auto simp: raises_only_def set_linear_kernel set_linear_named setter_error_simps
        split: option.splits)

lemma raises_only_set_embeddings:
  "raises_only (setter_error variables) (set_embeddings variables scope version)"
  by (auto simp: raises_only_def set_embeddings_def Let_def setter_error_simps
        split: option.splits)

lemmas raises_only_intros =
  raises_only_seq raises_only_bind raises_only_try raises_only_discard raises_only_within
  raises_only_item raises_only_for_enumerate raises_only_set_layer_norm raises_only_set_linear
  raises_only_set_embeddings setter_error_simps(1)

lemma raises_only_set_ffn_v2:
  "raises_only (setter_error variables) (set_ffn_v2 variables scope)"
  unfolding set_ffn_v2_def
  by (intro raises_only_intros) (auto intro!: raises_only_intros)

lemma raises_only_set_ffn:
  "raises_only (setter_error variables) (set_ffn variables scope)"
  unfolding set_ffn_def
  by (intro raises_only_intros) (auto intro!: raises_only_intros)


lemma raises_only_split_layers_3:
  "raises_only (setter_error variables)
     (\<lambda>spec.
        case set_linear variables sq None True LinearSpec_new of
          (_, Inl e) \<Rightarrow> (spec, Inl e)
        | (split_layers_0, Inr _) \<Rightarrow>
       (case set_linear variables sk None True LinearSpec_new of
          (_, Inl e) \<Rightarrow> (spec, Inl e)
        | (split_layers_1, Inr _) \<Rightarrow>
       (case set_linear variables sv None True LinearSpec_new of
          (_, Inl e) \<Rightarrow> (spec, Inl e)
        | (split_layers_2, Inr _) \<Rightarrow>
            within linear linear_update
              (item 0 (\<lambda>l. (fuse_linear [split_layers_0, split_layers_1, split_layers_2] l,
                            Inr ())))
              (spec :: 'a MultiHeadAttentionSpec))))"
  by (auto simp: raises_only_def set_linear_kernel setter_error_simps within_def item_def
        split: option.splits prod.splits if_splits)

lemma raises_only_split_layers_2:
  "raises_only (setter_error variables)
     (\<lambda>spec.
        case set_linear variables sk None True LinearSpec_new of
          (_, Inl e) \<Rightarrow> (spec, Inl e)
        | (split_layers_0, Inr _) \<Rightarrow>
       (case set_linear variables sv None True LinearSpec_new of
          (_, Inl e) \<Rightarrow> (spec, Inl e)
        | (split_layers_1, Inr _) \<Rightarrow>
            within linear linear_update
              (item 1 (\<lambda>l. (fuse_linear [split_layers_0, split_layers_1] l, Inr ())))
              (spec :: 'a MultiHeadAttentionSpec)))"
  by (auto simp: raises_only_def set_linear_kernel setter_error_simps within_def item_def
        split: option.splits prod.splits if_splits)

lemma raises_only_relative:
  "raises_only (setter_error variables)
     (\<lambda>spec :: 'a MultiHeadAttentionSpec.
        if relative then
          (case variables rk of
             None \<Rightarrow> (spec, Inl (KeyError rk))
           | Some k \<Rightarrow>
          (case variables rv of
             None \<Rightarrow> (spec\<lparr>relative_position_keys := Some k\<rparr>, Inl (KeyError rv))
           | Some v \<Rightarrow>
               (spec\<lparr>relative_position_keys := Some k,
                     relative_position_values := Some v\<rparr>, Inr ())))
        else (spec, Inr ()))"
  by (auto simp: raises_only_def setter_error_simps split: option.splits if_splits)

lemma raises_only_set_multi_head_attention_v2:
  "raises_only (setter_error variables)
     (set_multi_head_attention_v2 variables scope is_self_attention relative)"
  unfolding set_multi_head_attention_v2_def
  by (intro raises_only_intros)
     (auto intro!: raises_only_intros raises_only_split_layers_3 raises_only_split_layers_2
        raises_only_relative)

lemma raises_only_set_multi_head_attention:
  "raises_only (setter_error variables)
     (set_multi_head_attention variables scope is_self_attention)"
  unfolding set_multi_head_attention_def
  by (intro raises_only_intros)
     (auto intro!: raises_only_intros raises_only_skip)

lemma raises_only_layers:
  "raises_only (setter_error variables) (set_transformer_encoder_layer_v2 variables scope relative)"
  "raises_only (setter_error variables) (set_transformer_decoder_layer_v2 variables scope relative)"
  "raises_only (setter_error variables) (set_transformer_encoder_layer variables scope)"
  "raises_only (setter_error variables) (set_transformer_decoder_layer variables scope)"
  unfolding set_transformer_encoder_layer_v2_def set_transformer_decoder_layer_v2_def
    set_transformer_encoder_layer_def set_transformer_decoder_layer_def
  by (intro raises_only_intros;
      auto intro!: raises_only_intros raises_only_set_ffn_v2 raises_only_set_ffn
        raises_only_set_multi_head_attention_v2 raises_only_set_multi_head_attention)+

lemma raises_only_tying:
  "raises_only P (\<lambda>spec. if c spec then (g spec, Inr ()) else (spec, Inr ()))"
  by (auto simp: raises_only_def split: if_splits)

lemma raises_only_encoders_decoders:
  "raises_only (setter_error variables) (set_transformer_encoder_v2 variables scope relative)"
  "raises_only (setter_error variables)
     (set_transformer_decoder_v2 elem_eq variables scope target_embedding_name relative)"
  "raises_only (setter_error variables) (set_transformer_encoder variables)"
  "raises_only (setter_error variables) (set_transformer_decoder variables)"
  unfolding set_transformer_encoder_v2_def set_transformer_decoder_v2_def
    set_transformer_encoder_def set_transformer_decoder_def
  by (intro raises_only_intros;
      auto intro!: raises_only_intros raises_only_layers raises_only_tying)+

lemma set_transformer_spec_v2_raises:
  assumes "snd (set_transformer_spec_v2 elem_eq variables spec) = Inl e"
  shows "setter_error variables e"
proof -
  have "raises_only (setter_error variables)
     (bind_stmt
       (within encoder encoder_update
          (within TransformerEncoderSpec.embeddings TransformerEncoderSpec.embeddings_update
             (set_embeddings variables ''model/examples_inputter/features_inputter'' 2)))
       (\<lambda>_. bind_stmt
          (try_except_KeyError
             (within decoder decoder_update
                (within TransformerDecoderSpec.embeddings
                        TransformerDecoderSpec.embeddings_update
                   (set_embeddings variables ''model/examples_inputter/labels_inputter'' 2)))
             (within decoder decoder_update
                (within TransformerDecoderSpec.embeddings
                        TransformerDecoderSpec.embeddings_update
                   (set_embeddings variables ''model/examples_inputter/features_inputter'' 2))))
          (\<lambda>target_embedding_name.
             seq [within encoder encoder_update
                    (set_transformer_encoder_v2 variables ''model/encoder''
                       (with_relative_position spec)),
                  within decoder decoder_update
                    (set_transformer_decoder_v2 elem_eq variables ''model/decoder''
                       target_embedding_name (with_relative_position spec))])))"
    by (intro raises_only_intros;
        auto intro!: raises_only_intros raises_only_encoders_decoders)
  then show ?thesis
    using assms unfolding set_transformer_spec_v2_def by (rule raises_onlyD)
qed

lemma set_transformer_spec_raises:
  assumes "snd (set_transformer_spec variables spec) = Inl e"
  shows "e = NotImplementedError \<or> setter_error variables e"
proof (cases "with_relative_position spec")
  case True
  then show ?thesis using assms by (simp add: set_transformer_spec_def)
next
  case False
  have "raises_only (setter_error variables)
     (seq [within encoder encoder_update (set_transformer_encoder variables),
           within decoder decoder_update (set_transformer_decoder variables)])"
    by (intro raises_only_intros;
        auto intro!: raises_only_intros raises_only_encoders_decoders)
  then have "setter_error variables e"
    using assms False unfolding set_transformer_spec_def by (auto dest: raises_onlyD)
  then show ?thesis ..
qed

subsection \<open>Loading\<close>

lemma load_in_memory:
  assumes "self_model_path self = None" and "self_variables self = DictVariables variables"
  shows "load elem_eq load_model from_file self =
     (case set_transformer_spec_v2 elem_eq variables (self_model_spec self) of
        (model_spec, Inl e) \<Rightarrow> (self\<lparr>self_model_spec := model_spec\<rparr>, Inl e)
      | (model_spec, Inr _) \<Rightarrow>
          (case load_vocab from_file (self_src_vocab self) ''<unk>'' of
             Inl e \<Rightarrow> (self\<lparr>self_model_spec := model_spec\<rparr>, Inl e)
           | Inr src_tokens \<Rightarrow>
               (case load_vocab from_file (self_tgt_vocab self) ''<unk>'' of
                  Inl e \<Rightarrow>
                    (self\<lparr>self_model_spec :=
                            register_vocabulary ''source'' src_tokens model_spec\<rparr>, Inl e)
                | Inr tgt_tokens \<Rightarrow>
                    (self\<lparr>self_model_spec :=
                            register_vocabulary ''target'' tgt_tokens
                              (register_vocabulary ''source'' src_tokens model_spec)\<rparr>,
                     Inr (register_vocabulary ''target'' tgt_tokens
                            (register_vocabulary ''source'' src_tokens model_spec))))))"
  using assms by (simp add: load_def Let_def split: prod.splits sum.splits)

lemma load_from_path:
  assumes "self_model_path self = Some path" and "load_model path = Inr (version, variables)"
  shows "load elem_eq load_model from_file self =
     (case (if 2 \<le> version then set_transformer_spec_v2 elem_eq variables (self_model_spec self)
            else set_transformer_spec variables (self_model_spec self)) of
        (model_spec, Inl e) \<Rightarrow> (self\<lparr>self_model_spec := model_spec\<rparr>, Inl e)
      | (model_spec, Inr _) \<Rightarrow>
          (case load_vocab from_file (self_src_vocab self) ''<unk>'' of
             Inl e \<Rightarrow> (self\<lparr>self_model_spec := model_spec\<rparr>, Inl e)
           | Inr src_tokens \<Rightarrow>
               (case load_vocab from_file (self_tgt_vocab self) ''<unk>'' of
                  Inl e \<Rightarrow>
                    (self\<lparr>self_model_spec :=
                            register_vocabulary ''source'' src_tokens model_spec\<rparr>, Inl e)
                | Inr tgt_tokens \<Rightarrow>
                    (self\<lparr>self_model_spec :=
                            register_vocabulary ''target'' tgt_tokens
                              (register_vocabulary ''source'' src_tokens model_spec)\<rparr>,
                     Inr (register_vocabulary ''target'' tgt_tokens
                            (register_vocabulary ''source'' src_tokens model_spec))))))"
  using assms by (simp add: load_def Let_def split: prod.splits sum.splits)

lemma beta_missing_checkpoint_names:
  "beta_missing_checkpoint (''model/encoder/layer_norm'' @ ''/gamma'') = Some vector_1"
  "beta_missing_checkpoint (''model/encoder/layer_norm'' @ ''/beta'') = None"
  by (simp_all add: beta_missing_checkpoint_def)

lemma beta_missing_checkpoint_raises:
  "snd (set_transformer_spec_v2 (=) beta_missing_checkpoint (TransformerSpec_new 1 False))
     = Inl (KeyError ''model/encoder/layer_norm/beta'')"
  by code_simp

lemma beta_missing_checkpoint_gamma:
  "gamma (TransformerEncoderSpec.layer_norm (encoder
     (fst (set_transformer_spec_v2 (=) beta_missing_checkpoint (TransformerSpec_new 1 False)))))
     = Some vector_1"
  by code_simp

lemma beta_missing_checkpoint_embeddings:
  "EmbeddingsSpec.weight (TransformerEncoderSpec.embeddings (encoder
     (fst (set_transformer_spec_v2 (=) beta_missing_checkpoint (TransformerSpec_new 1 False)))))
     = Some table_a"
  by code_simp

lemma relative_v1_raises:
  "snd (set_transformer_spec beta_missing_checkpoint (TransformerSpec_new 1 True))
     = Inl NotImplementedError"
  by (simp add: set_transformer_spec_def TransformerSpec_new_def)

text \<open>
  C7, as the code has it. An error of the setter pipeline of generation 2 is a
  \<^verbatim>\<open>KeyError\<close> for a name that the store does not have or an \<^verbatim>\<open>IndexError\<close>; in
  generation 1 it may also be the \<^verbatim>\<open>NotImplementedError\<close> for relative positions. A
  layer norm whose gamma is missing raises for the gamma and is left as it was; one whose
  beta is missing raises for the beta with its gamma assigned. When the pipeline raises,
  \<^verbatim>\<open>_load\<close> raises the same error and returns no specification, and the model
  specification of the converter, which is the object the caller passed in, is as the
  pipeline left it.
\<close>

theorem missing_tensor_aborts:
  "(snd (set_transformer_spec_v2 elem_eq variables spec) = Inl e \<longrightarrow> setter_error variables e)
   \<and> (snd (set_transformer_spec variables spec) = Inl e
        \<longrightarrow> e = NotImplementedError \<or> setter_error variables e)
   \<and> (setter_error variables e \<longleftrightarrow> e = IndexError \<or> (\<exists>n. e = KeyError n \<and> variables n = None))
   \<and> (variables (scope @ ''/gamma'') = None
        \<longrightarrow> set_layer_norm variables scope ln = (ln, Inl (KeyError (scope @ ''/gamma''))))
   \<and> (variables (scope @ ''/gamma'') = Some g \<and> variables (scope @ ''/beta'') = None
        \<longrightarrow> set_layer_norm variables scope ln
              = (ln\<lparr>gamma := Some g\<rparr>, Inl (KeyError (scope @ ''/beta''))))
   \<and> (self_model_path self = None \<and> self_variables self = DictVariables variables
        \<and> snd (set_transformer_spec_v2 elem_eq variables (self_model_spec self)) = Inl e
        \<longrightarrow> load elem_eq load_model from_file self
              = (self\<lparr>self_model_spec :=
                        fst (set_transformer_spec_v2 elem_eq variables (self_model_spec self))\<rparr>, Inl e))
   \<and> (self_model_path self = Some path \<and> load_model path = Inr (version, variables)
        \<and> snd (if 2 \<le> version then set_transformer_spec_v2 elem_eq variables (self_model_spec self)
                else set_transformer_spec variables (self_model_spec self)) = Inl e
        \<longrightarrow> load elem_eq load_model from_file self
              = (self\<lparr>self_model_spec :=
                        fst (if 2 \<le> version
                             then set_transformer_spec_v2 elem_eq variables (self_model_spec self)
                             else set_transformer_spec variables (self_model_spec self))\<rparr>,
                 Inl e))"
proof (intro conjI impI)
  assume "snd (set_transformer_spec_v2 elem_eq variables spec) = Inl e"
  then show "setter_error variables e" by (rule set_transformer_spec_v2_raises)
next
  assume "snd (set_transformer_spec variables spec) = Inl e"
  then show "e = NotImplementedError \<or> setter_error variables e"
    by (rule set_transformer_spec_raises)
next
  show "setter_error variables e \<longleftrightarrow> e = IndexError \<or> (\<exists>n. e = KeyError n \<and> variables n = None)"
    by (cases e) (simp_all add: setter_error_def)
next
  assume "variables (scope @ ''/gamma'') = None"
  then show "set_layer_norm variables scope ln = (ln, Inl (KeyError (scope @ ''/gamma'')))"
    by (simp add: set_layer_norm_def)
next
  assume "variables (scope @ ''/gamma'') = Some g \<and> variables (scope @ ''/beta'') = None"
  then show "set_layer_norm variables scope ln
              = (ln\<lparr>gamma := Some g\<rparr>, Inl (KeyError (scope @ ''/beta'')))"
    by (simp add: set_layer_norm_def)
next
  assume a: "self_model_path self = None \<and> self_variables self = DictVariables variables
        \<and> snd (set_transformer_spec_v2 elem_eq variables (self_model_spec self)) = Inl e"
  then have "load elem_eq load_model from_file self = (case set_transformer_spec_v2 elem_eq variables (self_model_spec self) of
        (model_spec, Inl e) \<Rightarrow> (self\<lparr>self_model_spec := model_spec\<rparr>, Inl e)
      | (model_spec, Inr _) \<Rightarrow>
          (case load_vocab from_file (self_src_vocab self) ''<unk>'' of
             Inl e \<Rightarrow> (self\<lparr>self_model_spec := model_spec\<rparr>, Inl e)
           | Inr src_tokens \<Rightarrow>
               (case load_vocab from_file (self_tgt_vocab self) ''<unk>'' of
                  Inl e \<Rightarrow>
                    (self\<lparr>self_model_spec :=
                            register_vocabulary ''source'' src_tokens model_spec\<rparr>, Inl e)
                | Inr tgt_tokens \<Rightarrow>
                    (self\<lparr>self_model_spec :=
                            register_vocabulary ''target'' tgt_tokens
                              (register_vocabulary ''source'' src_tokens model_spec)\<rparr>,
                     Inr (register_vocabulary ''target'' tgt_tokens
                            (register_vocabulary ''source'' src_tokens model_spec))))))"
    by (intro load_in_memory) blast+
  then show "load elem_eq load_model from_file self
              = (self\<lparr>self_model_spec :=
                        fst (set_transformer_spec_v2 elem_eq variables (self_model_spec self))\<rparr>, Inl e)"
    using a by (cases "set_transformer_spec_v2 elem_eq variables (self_model_spec self)") simp
next
  let ?run = "if 2 \<le> version then set_transformer_spec_v2 elem_eq variables (self_model_spec self)
                else set_transformer_spec variables (self_model_spec self)"
  assume a: "self_model_path self = Some path \<and> load_model path = Inr (version, variables)
        \<and> snd ?run = Inl e"
  then have "load elem_eq load_model from_file self = (case ?run of
        (model_spec, Inl e) \<Rightarrow> (self\<lparr>self_model_spec := model_spec\<rparr>, Inl e)
      | (model_spec, Inr _) \<Rightarrow>
          (case load_vocab from_file (self_src_vocab self) ''<unk>'' of
             Inl e \<Rightarrow> (self\<lparr>self_model_spec := model_spec\<rparr>, Inl e)
           | Inr src_tokens \<Rightarrow>
               (case load_vocab from_file (self_tgt_vocab self) ''<unk>'' of
                  Inl e \<Rightarrow>
                    (self\<lparr>self_model_spec :=
                            register_vocabulary ''source'' src_tokens model_spec\<rparr>, Inl e)
                | Inr tgt_tokens \<Rightarrow>
                    (self\<lparr>self_model_spec :=
                            register_vocabulary ''target'' tgt_tokens
                              (register_vocabulary ''source'' src_tokens model_spec)\<rparr>,
                     Inr (register_vocabulary ''target'' tgt_tokens
                            (register_vocabulary ''source'' src_tokens model_spec))))))"
    by (intro load_from_path) blast+
  then show "load elem_eq load_model from_file self = (self\<lparr>self_model_spec := fst ?run\<rparr>, Inl e)"
    using a by (cases ?run) simp
qed


theorem missing_tensor_aborts_witness:
  "snd (set_transformer_spec_v2 (=) beta_missing_checkpoint (TransformerSpec_new 1 False))
     = Inl (KeyError ''model/encoder/layer_norm/beta'')
   \<and> setter_error beta_missing_checkpoint (KeyError ''model/encoder/layer_norm/beta'')
   \<and> beta_missing_checkpoint ''model/encoder/layer_norm/beta'' = None
   \<and> set_layer_norm beta_missing_checkpoint ''model/encoder/layer_norm'' LayerNormSpec_new
       = (\<lparr>gamma = Some vector_1, beta = None\<rparr>, Inl (KeyError ''model/encoder/layer_norm/beta''))
   \<and> load (=) no_file no_file (converter_in_memory beta_missing_checkpoint)
       = ((converter_in_memory beta_missing_checkpoint)
            \<lparr>self_model_spec :=
               fst (set_transformer_spec_v2 (=) beta_missing_checkpoint (TransformerSpec_new 1 False))\<rparr>,
          Inl (KeyError ''model/encoder/layer_norm/beta''))
   \<and> load (=) (\<lambda>_. Inr (2, beta_missing_checkpoint)) no_file
         ((converter_in_memory Map.empty)\<lparr>self_model_path := Some ''ckpt-1''\<rparr>)
       = ((converter_in_memory Map.empty)
            \<lparr>self_model_path := Some ''ckpt-1'',
              self_model_spec :=
               fst (set_transformer_spec_v2 (=) beta_missing_checkpoint (TransformerSpec_new 1 False))\<rparr>,
          Inl (KeyError ''model/encoder/layer_norm/beta''))
   \<and> snd (set_transformer_spec beta_missing_checkpoint (TransformerSpec_new 1 True))
       = Inl NotImplementedError"
  using missing_tensor_aborts
          [where elem_eq = "(=)" and variables = beta_missing_checkpoint and spec = "TransformerSpec_new 1 False"
             and e = "KeyError ''model/encoder/layer_norm/beta''"
             and scope = "''model/encoder/layer_norm''" and g = vector_1
             and ln = LayerNormSpec_new
             and self = "converter_in_memory beta_missing_checkpoint"
             and load_model = no_file and from_file = no_file
             and path = "''ckpt-1''" and version = 2]
        missing_tensor_aborts
          [where elem_eq = "(=)" and variables = beta_missing_checkpoint and spec = "TransformerSpec_new 1 True"
             and e = "KeyError ''model/encoder/layer_norm/beta''"
             and scope = "''model/encoder/layer_norm''" and g = vector_1
             and ln = LayerNormSpec_new
             and self = "(converter_in_memory Map.empty)\<lparr>self_model_path := Some ''ckpt-1''\<rparr>"
             and load_model = "\<lambda>_. Inr (2, beta_missing_checkpoint)" and from_file = no_file
             and path = "''ckpt-1''" and version = 2]
        beta_missing_checkpoint_names beta_missing_checkpoint_raises relative_v1_raises
  by (simp add: converter_in_memory_def LayerNormSpec_new_def)

text \<open>
  C7, as stated, fails: for the store with the gamma of the encoder layer norm and not its
  beta, \<^verbatim>\<open>_load\<close> raises the \<^verbatim>\<open>KeyError\<close> for the beta, and the model specification
  of the caller is not what it was: the encoder embeddings and the gamma are assigned.
\<close>

theorem partial_tree_is_visible:
  "snd (load (=) no_file no_file (converter_in_memory beta_missing_checkpoint))
     = Inl (KeyError ''model/encoder/layer_norm/beta'')
   \<and> gamma (TransformerEncoderSpec.layer_norm (encoder
        (self_model_spec (converter_in_memory beta_missing_checkpoint)))) = None
   \<and> gamma (TransformerEncoderSpec.layer_norm (encoder
        (self_model_spec (fst (load (=) no_file no_file
           (converter_in_memory beta_missing_checkpoint)))))) = Some vector_1
   \<and> EmbeddingsSpec.weight (TransformerEncoderSpec.embeddings (encoder
        (self_model_spec (fst (load (=) no_file no_file
           (converter_in_memory beta_missing_checkpoint)))))) = Some table_a
   \<and> self_model_spec (fst (load (=) no_file no_file (converter_in_memory beta_missing_checkpoint)))
       \<noteq> self_model_spec (converter_in_memory beta_missing_checkpoint)"
proof -
  have l: "load (=) no_file no_file (converter_in_memory beta_missing_checkpoint)
       = ((converter_in_memory beta_missing_checkpoint)
            \<lparr>self_model_spec :=
               fst (set_transformer_spec_v2 (=) beta_missing_checkpoint (TransformerSpec_new 1 False))\<rparr>,
          Inl (KeyError ''model/encoder/layer_norm/beta''))"
    using load_in_memory [of "converter_in_memory beta_missing_checkpoint"
            beta_missing_checkpoint "(=)" no_file no_file]
          beta_missing_checkpoint_raises
    by (cases "set_transformer_spec_v2 (=) beta_missing_checkpoint (TransformerSpec_new 1 False)")
       (simp add: converter_in_memory_def)
  have g0: "gamma (TransformerEncoderSpec.layer_norm (encoder
        (self_model_spec (converter_in_memory beta_missing_checkpoint)))) = None"
    by (simp add: converter_in_memory_def TransformerSpec_new_def
          TransformerEncoderSpec_new_def LayerNormSpec_new_def)
  have g1: "gamma (TransformerEncoderSpec.layer_norm (encoder
        (self_model_spec (fst (load (=) no_file no_file
           (converter_in_memory beta_missing_checkpoint)))))) = Some vector_1"
    using beta_missing_checkpoint_gamma by (simp add: l)
  have e1: "EmbeddingsSpec.weight (TransformerEncoderSpec.embeddings (encoder
        (self_model_spec (fst (load (=) no_file no_file
           (converter_in_memory beta_missing_checkpoint)))))) = Some table_a"
    using beta_missing_checkpoint_embeddings by (simp add: l)
  have ne: "self_model_spec (fst (load (=) no_file no_file (converter_in_memory beta_missing_checkpoint)))
       \<noteq> self_model_spec (converter_in_memory beta_missing_checkpoint)"
    using g0 g1 by (metis option.distinct(1))
  show ?thesis using l g0 g1 e1 ne by simp
qed

subsection \<open>Variables in memory\<close>

lemma model_scope_append:
  assumes "model_name scope"
  shows "model_name (scope @ x)"
proof -
  have "length (take 6 scope) = 6" using assms by (simp add: model_name_def)
  then have "6 \<le> length scope" by simp
  then show ?thesis using assms by (simp add: model_name_def)
qed

lemma agree_lookup:
  assumes "agree_on_model_names v v'" and "model_name scope"
  shows "v (scope @ x) = v' (scope @ x)"
  using assms model_scope_append [of scope x] by (simp add: agree_on_model_names_def)

lemma agree_set_layer_norm:
  assumes "agree_on_model_names v v'" and "model_name scope"
  shows "set_layer_norm v scope = set_layer_norm v' scope"
  by (rule ext) (simp add: set_layer_norm_def agree_lookup [OF assms] split: option.splits)

lemma agree_set_linear:
  assumes "agree_on_model_names v v'" and "model_name scope"
  shows "set_linear v scope None do_transpose = set_linear v' scope None do_transpose"
  by (rule ext) (simp add: set_linear_kernel agree_lookup [OF assms] split: option.splits)

lemma agree_set_linear_named:
  assumes "agree_on_model_names v v'" and "model_name scope" and "model_name n"
  shows "set_linear v scope (Some n) do_transpose = set_linear v' scope (Some n) do_transpose"
proof -
  have "v n = v' n" using assms(1,3) by (simp add: agree_on_model_names_def)
  then show ?thesis
    by (intro ext) (simp add: set_linear_named agree_lookup [OF assms(1,2)] split: option.splits)
qed

lemma agree_set_ffn_v2:
  assumes "agree_on_model_names v v'" and "model_name scope"
  shows "set_ffn_v2 v scope = set_ffn_v2 v' scope"
  unfolding set_ffn_v2_def
  by (simp add: agree_set_layer_norm [OF assms(1)] agree_set_linear [OF assms(1)]
        model_scope_append [OF assms(2)] del: seq.simps)

lemma agree_set_multi_head_attention_v2:
  assumes "agree_on_model_names v v'" and "model_name scope"
  shows "set_multi_head_attention_v2 v scope is_self_attention relative
           = set_multi_head_attention_v2 v' scope is_self_attention relative"
  unfolding set_multi_head_attention_v2_def
  by (simp add: agree_set_layer_norm [OF assms(1)] agree_set_linear [OF assms(1)]
        agree_lookup [OF assms] model_scope_append [OF assms(2)] del: seq.simps
        cong: if_cong option.case_cong)

lemma agree_layers_v2:
  assumes "agree_on_model_names v v'" and "model_name scope"
  shows "set_transformer_encoder_layer_v2 v scope relative
           = set_transformer_encoder_layer_v2 v' scope relative"
    and "set_transformer_decoder_layer_v2 v scope relative
           = set_transformer_decoder_layer_v2 v' scope relative"
  unfolding set_transformer_encoder_layer_v2_def set_transformer_decoder_layer_v2_def
  by (simp_all add: agree_set_ffn_v2 [OF assms(1)] agree_set_multi_head_attention_v2 [OF assms(1)]
        model_scope_append [OF assms(2)] del: seq.simps)

lemma agree_encoder_v2:
  assumes "agree_on_model_names v v'" and "model_name scope"
  shows "set_transformer_encoder_v2 v scope relative = set_transformer_encoder_v2 v' scope relative"
  unfolding set_transformer_encoder_v2_def
  by (simp add: agree_set_layer_norm [OF assms(1)] agree_layers_v2 [OF assms(1)]
        model_scope_append [OF assms(2)] del: seq.simps)

lemma agree_decoder_v2:
  assumes "agree_on_model_names v v'" and "model_name scope" and "model_name n"
  shows "set_transformer_decoder_v2 elem_eq v scope n relative = set_transformer_decoder_v2 elem_eq v' scope n relative"
  unfolding set_transformer_decoder_v2_def
  by (simp add: agree_set_layer_norm [OF assms(1)] agree_layers_v2 [OF assms(1)]
        agree_set_linear [OF assms(1)] agree_set_linear_named [OF assms(1) _ assms(3)]
        model_scope_append [OF assms(2)] del: seq.simps)


lemma agree_spec_v2:
  assumes "agree_on_model_names v v'"
  shows "set_transformer_spec_v2 elem_eq v spec = set_transformer_spec_v2 elem_eq v' spec"
proof -
  have names: "model_name ''model/examples_inputter/features_inputter/embedding''"
    "model_name ''model/examples_inputter/labels_inputter/embedding''"
    "model_name ''model/encoder''" "model_name ''model/decoder''"
    by (simp_all add: model_name_def)
  have f: "v ''model/examples_inputter/features_inputter/embedding''
             = v' ''model/examples_inputter/features_inputter/embedding''"
    and l: "v ''model/examples_inputter/labels_inputter/embedding''
             = v' ''model/examples_inputter/labels_inputter/embedding''"
    using assms names by (simp_all add: agree_on_model_names_def)
  have enc: "set_transformer_encoder_v2 v ''model/encoder'' r
               = set_transformer_encoder_v2 v' ''model/encoder'' r" for r
    by (rule agree_encoder_v2 [OF assms names(3)])
  have dec: "set_transformer_decoder_v2 elem_eq v ''model/decoder''
                 ''model/examples_inputter/features_inputter/embedding'' r
               = set_transformer_decoder_v2 elem_eq v' ''model/decoder''
                 ''model/examples_inputter/features_inputter/embedding'' r"
            "set_transformer_decoder_v2 elem_eq v ''model/decoder''
                 ''model/examples_inputter/labels_inputter/embedding'' r
               = set_transformer_decoder_v2 elem_eq v' ''model/decoder''
                 ''model/examples_inputter/labels_inputter/embedding'' r" for r
    by (rule agree_decoder_v2 [OF assms names(4) names(1)],
        rule agree_decoder_v2 [OF assms names(4) names(2)])
  show ?thesis
    unfolding set_transformer_spec_v2_def bind_stmt_def try_except_KeyError_def within_def
      set_embeddings_v2
    by (simp add: f l enc dec del: seq.simps split: option.splits)
qed

lemma spec_v2_first_name:
  assumes "variables ''model/examples_inputter/features_inputter/embedding'' = None"
  shows "set_transformer_spec_v2 elem_eq variables spec
           = (spec, Inl (KeyError ''model/examples_inputter/features_inputter/embedding''))"
  unfolding set_transformer_spec_v2_def bind_stmt_def within_def set_embeddings_v2
  using assms by simp

lemma checkpoint_v2_converts:
  "snd (set_transformer_spec_v2 (=) checkpoint_v2 (TransformerSpec_new 1 False)) = Inr ()"
  by code_simp

lemma shared_checkpoint_v1_first_name:
  "shared_checkpoint_v1 ''model/examples_inputter/features_inputter/embedding'' = None"
  by code_simp

lemma vocabularies_of_converter:
  "load_vocab no_file (VocabList [''a'']) ''<unk>'' = Inr [''a'', ''<unk>'']"
  "load_vocab no_file (VocabList [''b'']) ''<unk>'' = Inr [''b'', ''<unk>'']"
  by (simp_all add: load_vocab_def)

text \<open>
  C10. A converter with variables in memory and no path runs the pipeline of generation
  2 on them, then registers the vocabularies; the checkpoint loader is not called. Its
  result is that of a checkpoint of version 2 or more with the same variables. A store
  without the first name of generation 2 makes it raise the \<^verbatim>\<open>KeyError\<close> for that
  name with the specification untouched, whatever names of generation 1 the store has;
  and the result depends only on what the store holds under the names that begin with
  \<^verbatim>\<open>model/\<close>.
\<close>

theorem in_memory_variables_are_generation_2:
  "(self_model_path self = None \<and> self_variables self = DictVariables variables
      \<longrightarrow> load elem_eq load_model from_file self =
     (case set_transformer_spec_v2 elem_eq variables (self_model_spec self) of
        (model_spec, Inl e) \<Rightarrow> (self\<lparr>self_model_spec := model_spec\<rparr>, Inl e)
      | (model_spec, Inr _) \<Rightarrow>
          (case load_vocab from_file (self_src_vocab self) ''<unk>'' of
             Inl e \<Rightarrow> (self\<lparr>self_model_spec := model_spec\<rparr>, Inl e)
           | Inr src_tokens \<Rightarrow>
               (case load_vocab from_file (self_tgt_vocab self) ''<unk>'' of
                  Inl e \<Rightarrow>
                    (self\<lparr>self_model_spec :=
                            register_vocabulary ''source'' src_tokens model_spec\<rparr>, Inl e)
                | Inr tgt_tokens \<Rightarrow>
                    (self\<lparr>self_model_spec :=
                            register_vocabulary ''target'' tgt_tokens
                              (register_vocabulary ''source'' src_tokens model_spec)\<rparr>,
                     Inr (register_vocabulary ''target'' tgt_tokens
                            (register_vocabulary ''source'' src_tokens model_spec)))))))
   \<and> (self_model_path self = None \<and> self_variables self = DictVariables variables
        \<and> 2 \<le> version
      \<longrightarrow> snd (load elem_eq load_model from_file self)
            = snd (load elem_eq (\<lambda>_. Inr (version, variables)) from_file
                     (self\<lparr>self_model_path := Some path\<rparr>))
        \<and> self_model_spec (fst (load elem_eq load_model from_file self))
            = self_model_spec (fst (load elem_eq (\<lambda>_. Inr (version, variables)) from_file
                     (self\<lparr>self_model_path := Some path\<rparr>))))
   \<and> (self_model_path self = None \<and> self_variables self = DictVariables variables
        \<and> variables ''model/examples_inputter/features_inputter/embedding'' = None
      \<longrightarrow> load elem_eq load_model from_file self
            = (self, Inl (KeyError ''model/examples_inputter/features_inputter/embedding'')))
   \<and> (self_model_path self = None \<and> self_variables self = DictVariables variables
        \<and> (\<forall>n. take 6 n = ''model/'' \<longrightarrow> variables n = variables' n)
      \<longrightarrow> snd (load elem_eq load_model from_file self)
            = snd (load elem_eq load_model from_file (self\<lparr>self_variables := DictVariables variables'\<rparr>))
        \<and> self_model_spec (fst (load elem_eq load_model from_file self))
            = self_model_spec (fst (load elem_eq load_model from_file
                 (self\<lparr>self_variables := DictVariables variables'\<rparr>))))"
proof (intro conjI impI)
  assume a: "self_model_path self = None \<and> self_variables self = DictVariables variables"
  then show "load elem_eq load_model from_file self =
     (case set_transformer_spec_v2 elem_eq variables (self_model_spec self) of
        (model_spec, Inl e) \<Rightarrow> (self\<lparr>self_model_spec := model_spec\<rparr>, Inl e)
      | (model_spec, Inr _) \<Rightarrow>
          (case load_vocab from_file (self_src_vocab self) ''<unk>'' of
             Inl e \<Rightarrow> (self\<lparr>self_model_spec := model_spec\<rparr>, Inl e)
           | Inr src_tokens \<Rightarrow>
               (case load_vocab from_file (self_tgt_vocab self) ''<unk>'' of
                  Inl e \<Rightarrow>
                    (self\<lparr>self_model_spec :=
                            register_vocabulary ''source'' src_tokens model_spec\<rparr>, Inl e)
                | Inr tgt_tokens \<Rightarrow>
                    (self\<lparr>self_model_spec :=
                            register_vocabulary ''target'' tgt_tokens
                              (register_vocabulary ''source'' src_tokens model_spec)\<rparr>,
                     Inr (register_vocabulary ''target'' tgt_tokens
                            (register_vocabulary ''source'' src_tokens model_spec))))))"
    by (intro load_in_memory) blast+
next
  assume a: "self_model_path self = None \<and> self_variables self = DictVariables variables
        \<and> 2 \<le> version"
  have m: "load elem_eq load_model from_file self = load elem_eq (\<lambda>_. Inr (2, variables)) from_file self"
    using a by (simp add: load_def)
  have p: "load elem_eq (\<lambda>_. Inr (version, variables)) from_file (self\<lparr>self_model_path := Some path\<rparr>)
        = (case load elem_eq (\<lambda>_. Inr (2, variables)) from_file self of
             (c, r) \<Rightarrow> (c\<lparr>self_model_path := Some path\<rparr>, r))"
    using a by (simp add: load_def Let_def split: prod.splits sum.splits)
  show "snd (load elem_eq load_model from_file self)
            = snd (load elem_eq (\<lambda>_. Inr (version, variables)) from_file
                     (self\<lparr>self_model_path := Some path\<rparr>))"
    unfolding m p by (simp split: prod.splits)
  show "self_model_spec (fst (load elem_eq load_model from_file self))
            = self_model_spec (fst (load elem_eq (\<lambda>_. Inr (version, variables)) from_file
                     (self\<lparr>self_model_path := Some path\<rparr>)))"
    unfolding m p by (simp split: prod.splits)
next
  assume a: "self_model_path self = None \<and> self_variables self = DictVariables variables
        \<and> variables ''model/examples_inputter/features_inputter/embedding'' = None"
  then show "load elem_eq load_model from_file self
            = (self, Inl (KeyError ''model/examples_inputter/features_inputter/embedding''))"
    by (simp add: load_def spec_v2_first_name)
next
  assume a: "self_model_path self = None \<and> self_variables self = DictVariables variables
        \<and> (\<forall>n. take 6 n = ''model/'' \<longrightarrow> variables n = variables' n)"
  then have "agree_on_model_names variables variables'"
    by (simp add: agree_on_model_names_def model_name_def)
  then have eq: "set_transformer_spec_v2 elem_eq variables (self_model_spec self)
                   = set_transformer_spec_v2 elem_eq variables' (self_model_spec self)"
    by (rule agree_spec_v2)
  show "snd (load elem_eq load_model from_file self)
            = snd (load elem_eq load_model from_file (self\<lparr>self_variables := DictVariables variables'\<rparr>))"
    using a by (simp add: load_def eq Let_def split: prod.splits sum.splits)
  show "self_model_spec (fst (load elem_eq load_model from_file self))
            = self_model_spec (fst (load elem_eq load_model from_file
                 (self\<lparr>self_variables := DictVariables variables'\<rparr>)))"
    using a by (simp add: load_def eq Let_def split: prod.splits sum.splits)
qed


theorem in_memory_variables_are_generation_2_witness:
  "snd (set_transformer_spec shared_checkpoint_v1 (TransformerSpec_new 1 False)) = Inr ()
   \<and> load (=) no_file no_file (converter_in_memory shared_checkpoint_v1)
       = (converter_in_memory shared_checkpoint_v1,
          Inl (KeyError ''model/examples_inputter/features_inputter/embedding''))
   \<and> snd (load (=) no_file no_file (converter_in_memory checkpoint_v2))
       = Inr (register_vocabulary ''target'' [''b'', ''<unk>'']
               (register_vocabulary ''source'' [''a'', ''<unk>'']
                 (fst (set_transformer_spec_v2 (=) checkpoint_v2 (TransformerSpec_new 1 False)))))
   \<and> snd (load (=) (\<lambda>_. Inr (2, checkpoint_v2)) no_file
            ((converter_in_memory checkpoint_v2)\<lparr>self_model_path := Some ''ckpt-1''\<rparr>))
       = snd (load (=) no_file no_file (converter_in_memory checkpoint_v2))
   \<and> snd (load (=) no_file no_file
            (converter_in_memory (checkpoint_v2(''transformer/encoder/w_embs'' \<mapsto> table_a))))
       = snd (load (=) no_file no_file (converter_in_memory checkpoint_v2))"
proof -
  have agree: "\<forall>n. take 6 n = ''model/''
      \<longrightarrow> checkpoint_v2 n = (checkpoint_v2(''transformer/encoder/w_embs'' \<mapsto> table_a)) n"
    by auto
  have upd: "(converter_in_memory checkpoint_v2)
               \<lparr>self_variables := DictVariables
                  (checkpoint_v2(''transformer/encoder/w_embs'' \<mapsto> table_a))\<rparr>
             = converter_in_memory (checkpoint_v2(''transformer/encoder/w_embs'' \<mapsto> table_a))"
    by (simp add: converter_in_memory_def)
  have conv: "set_transformer_spec_v2 (=) checkpoint_v2 (TransformerSpec_new 1 False)
               = (fst (set_transformer_spec_v2 (=) checkpoint_v2 (TransformerSpec_new 1 False)), Inr ())"
    using checkpoint_v2_converts
    by (cases "set_transformer_spec_v2 (=) checkpoint_v2 (TransformerSpec_new 1 False)") simp
  have fields: "self_model_path (converter_in_memory v) = None"
    "self_variables (converter_in_memory v) = DictVariables v"
    "self_model_spec (converter_in_memory v) = TransformerSpec_new 1 False"
    "self_src_vocab (converter_in_memory v) = VocabList [''a'']"
    "self_tgt_vocab (converter_in_memory v) = VocabList [''b'']" for v :: "int variables"
    by (simp_all add: converter_in_memory_def)
  note t1 = in_memory_variables_are_generation_2
         [where elem_eq = "(=)" and self = "converter_in_memory shared_checkpoint_v1"
            and variables = shared_checkpoint_v1 and variables' = shared_checkpoint_v1
            and load_model = no_file and from_file = no_file
            and version = 2 and path = "''ckpt-1''"]
  have v1: "load (=) no_file no_file (converter_in_memory shared_checkpoint_v1)
       = (converter_in_memory shared_checkpoint_v1,
          Inl (KeyError ''model/examples_inputter/features_inputter/embedding''))"
    using t1 [THEN conjunct2, THEN conjunct2, THEN conjunct1] shared_checkpoint_v1_first_name
    by (simp add: fields)
  note t2 = in_memory_variables_are_generation_2
         [where elem_eq = "(=)" and self = "converter_in_memory checkpoint_v2"
            and variables = checkpoint_v2
            and variables' = "checkpoint_v2(''transformer/encoder/w_embs'' \<mapsto> table_a)"
            and load_model = no_file and from_file = no_file
            and version = 2 and path = "''ckpt-1''"]
  have v2: "load (=) no_file no_file (converter_in_memory checkpoint_v2) =
     (case set_transformer_spec_v2 (=) checkpoint_v2 (TransformerSpec_new 1 False) of
        (model_spec, Inl e) \<Rightarrow>
          ((converter_in_memory checkpoint_v2)\<lparr>self_model_spec := model_spec\<rparr>, Inl e)
      | (model_spec, Inr _) \<Rightarrow>
          ((converter_in_memory checkpoint_v2)\<lparr>self_model_spec :=
                            register_vocabulary ''target'' [''b'', ''<unk>'']
                              (register_vocabulary ''source'' [''a'', ''<unk>''] model_spec)\<rparr>,
                     Inr (register_vocabulary ''target'' [''b'', ''<unk>'']
                            (register_vocabulary ''source'' [''a'', ''<unk>''] model_spec))))"
    using t2 [THEN conjunct1] by (simp add: fields vocabularies_of_converter)
  have same: "snd (load (=) no_file no_file (converter_in_memory checkpoint_v2))
            = snd (load (=) (\<lambda>_. Inr (2, checkpoint_v2)) no_file
                     ((converter_in_memory checkpoint_v2)\<lparr>self_model_path := Some ''ckpt-1''\<rparr>))"
    using t2 [THEN conjunct2, THEN conjunct1] by (simp add: fields)
  have inv: "snd (load (=) no_file no_file (converter_in_memory checkpoint_v2))
            = snd (load (=) no_file no_file
                (converter_in_memory (checkpoint_v2(''transformer/encoder/w_embs'' \<mapsto> table_a))))"
    using t2 [THEN conjunct2, THEN conjunct2, THEN conjunct2] agree
    by (simp add: fields upd)
  have ok: "snd (load (=) no_file no_file (converter_in_memory checkpoint_v2))
       = Inr (register_vocabulary ''target'' [''b'', ''<unk>'']
               (register_vocabulary ''source'' [''a'', ''<unk>'']
                 (fst (set_transformer_spec_v2 (=) checkpoint_v2 (TransformerSpec_new 1 False)))))"
    unfolding v2 by (subst conv) simp
  show ?thesis
    using shared_checkpoint_v1_converts v1 ok same inv by simp
qed


end
